(* ===== verification/Prelude.thy ===== *)
theory Prelude
  imports Complex_Main "HOL-Library.Multiset" "HOL-Library.Char_ord" "HOL-Library.List_Lexorder"
    "HOL-Library.AList" "HOL-Library.Sublist"
begin

text \<open>
  Shared vocabulary of the model of the exploratory-data-analysis tool.
  \<^item> Column names are Python strings (\<open>colname\<close>); the operator's answers to
    \<open>input()\<close> prompts are a list of lines (\<open>inputs\<close>), consumed front to back;
    an exhausted list is end of file, where \<open>input()\<close> raises \<open>EOFError\<close>.
  \<^item> \<open>py_error\<close> names the exceptions the code raises or lets escape.
  \<^item> A cell of a pandas column is \<open>'a option\<close>, \<open>None\<close> being a missing value
    (NaN/None); \<open>dropna\<close>, \<open>fillna\<close>, \<open>count_missing\<close> and \<open>n_distinct\<close> are the
    pandas series operations the code uses on cells.
  \<^item> \<open>pyvalue\<close> is a cell value of any dtype (a number or a string) with the
    total order pandas uses to sort group keys, numbers before strings.
\<close>

named_theorems frame_simps "equations of the data-frame model used by the component proofs"
named_theorems consumes "an input reader returns a suffix of the input it was given"

type_synonym colname = string
type_synonym inputs = "string list"

text \<open>\<open>ReadError\<close> stands for whatever \<open>pd.read_csv\<close> raises on a path it cannot load
  (\<open>FileNotFoundError\<close>, a parser error, ...); the code never tells them apart.\<close>

datatype py_error = EOFError | KeyError | ValueError | TypeError | ImportError | ReadError

datatype pyvalue = VNum real | VStr string

instantiation pyvalue :: linorder
begin

fun less_eq_pyvalue :: "pyvalue \<Rightarrow> pyvalue \<Rightarrow> bool" where
  "less_eq_pyvalue (VNum x) (VNum y) = (x \<le> y)"
| "less_eq_pyvalue (VStr s) (VStr t) = (s \<le> t)"
| "less_eq_pyvalue (VNum _) (VStr _) = True"
| "less_eq_pyvalue (VStr _) (VNum _) = False"

definition less_pyvalue :: "pyvalue \<Rightarrow> pyvalue \<Rightarrow> bool" where
  "less_pyvalue v w = (v \<le> w \<and> \<not> w \<le> v)"

instance
proof
  fix x y z :: pyvalue
  show "(x < y) = (x \<le> y \<and> \<not> y \<le> x)"
    by (simp add: less_pyvalue_def)
  show "x \<le> x"
    by (cases x) simp_all
  show "x \<le> y \<Longrightarrow> y \<le> z \<Longrightarrow> x \<le> z"
    by (cases x; cases y; cases z) auto
  show "x \<le> y \<Longrightarrow> y \<le> x \<Longrightarrow> x = y"
    by (cases x; cases y) auto
  show "x \<le> y \<or> y \<le> x"
    by (cases x; cases y) auto
qed

end

subsection \<open>Cells with missing values\<close>

primrec dropna :: "'a option list \<Rightarrow> 'a list" where
  "dropna [] = []"
| "dropna (c # cs) = (case c of None \<Rightarrow> dropna cs | Some v \<Rightarrow> v # dropna cs)"

definition count_missing :: "'a option list \<Rightarrow> nat" where
  "count_missing cs = count_list cs None"

definition fillna :: "'a \<Rightarrow> 'a option list \<Rightarrow> 'a option list" where
  "fillna v cs = map (\<lambda>c. case c of None \<Rightarrow> Some v | Some x \<Rightarrow> Some x) cs"

definition n_distinct :: "'a list \<Rightarrow> nat" where
  "n_distinct xs = length (remdups xs)"

lemma set_dropna [simp]: "set (dropna cs) = {v. Some v \<in> set cs}"
  by (induction cs) (auto split: option.splits)

lemma dropna_map_Some [simp]: "dropna (map Some xs) = xs"
  by (induction xs) simp_all

lemma dropna_append [simp]: "dropna (cs @ ds) = dropna cs @ dropna ds"
  by (induction cs) (simp_all split: option.splits)

lemma length_dropna: "length (dropna cs) + count_missing cs = length cs"
  by (induction cs) (auto simp: count_missing_def split: option.splits)

lemma count_missing_simps [simp]:
  "count_missing [] = 0"
  "count_missing (None # cs) = Suc (count_missing cs)"
  "count_missing (Some v # cs) = count_missing cs"
  by (simp_all add: count_missing_def)

lemma count_missing_replicate_None [simp]: "count_missing (replicate n None) = n"
  by (induction n) simp_all

lemma count_missing_zero_iff: "count_missing cs = 0 \<longleftrightarrow> None \<notin> set cs"
  by (simp add: count_missing_def count_list_0_iff)

lemma dropna_no_missing: "None \<notin> set cs \<Longrightarrow> map Some (dropna cs) = cs"
proof (induction cs)
  case (Cons c cs)
  then show ?case by (cases c) auto
qed simp

lemma length_fillna [simp]: "length (fillna v cs) = length cs"
  by (simp add: fillna_def)

lemma fillna_no_missing [simp]: "None \<notin> set (fillna v cs)"
  by (auto simp: fillna_def split: option.splits)

lemma nth_fillna:
  "i < length cs \<Longrightarrow> fillna v cs ! i = (case cs ! i of None \<Rightarrow> Some v | Some x \<Rightarrow> Some x)"
  by (simp add: fillna_def)

lemma fillna_keeps_present: "i < length cs \<Longrightarrow> cs ! i = Some x \<Longrightarrow> fillna v cs ! i = Some x"
  by (simp add: nth_fillna)

lemma fillna_fills_missing: "i < length cs \<Longrightarrow> cs ! i = None \<Longrightarrow> fillna v cs ! i = Some v"
  by (simp add: nth_fillna)

lemma set_dropna_fillna: "set (dropna (fillna v cs)) \<subseteq> insert v (set (dropna cs))"
  by (auto simp: fillna_def split: option.splits)

lemma n_distinct_card: "n_distinct xs = card (set xs)"
  by (simp add: n_distinct_def length_remdups_card_conv)

lemma n_distinct_le_length: "n_distinct xs \<le> length xs"
  by (simp add: n_distinct_def)

text \<open>
  \<open>Series.nunique()\<close> counts the distinct values without NaN, \<open>len(Series.unique())\<close>
  counts NaN as one more value when the column has one.
\<close>

lemma n_distinct_with_missing:
  "n_distinct cs = n_distinct (dropna cs) + (if None \<in> set cs then 1 else 0)"
proof -
  have split: "set cs = Some ` set (dropna cs) \<union> (if None \<in> set cs then {None} else {})"
    by (auto simp: image_iff) (metis option.exhaust)+
  have "card (set cs) = card (Some ` set (dropna cs)) + (if None \<in> set cs then 1 else 0)"
    by (subst split) (auto simp del: set_dropna simp: card_Un_disjoint)
  moreover have "card (Some ` set (dropna cs)) = card (set (dropna cs))"
    by (rule card_image) simp
  ultimately show ?thesis
    by (simp add: n_distinct_card)
qed

lemma n_distinct_dropna_le: "n_distinct (dropna cs) \<le> n_distinct cs"
  by (simp add: n_distinct_with_missing)

lemma n_distinct_map_Some [simp]: "n_distinct (map Some xs) = n_distinct xs"
  by (simp add: n_distinct_card card_image)

subsection \<open>Sums of products\<close>

lemma sum_list_square_expand:
  "(\<Sum>p\<leftarrow>ps. (t * f p - g p) * (t * f p - g p)) =
     t * t * (\<Sum>p\<leftarrow>ps. f p * f p) - 2 * t * (\<Sum>p\<leftarrow>ps. f p * g p) + (\<Sum>p\<leftarrow>ps. g p * g p)"
  for f g :: "'a \<Rightarrow> real"
  by (induction ps) (simp_all add: algebra_simps)

lemma sum_list_squares_nonneg: "0 \<le> (\<Sum>p\<leftarrow>ps. f p * f p)" for f :: "'a \<Rightarrow> real"
  by (rule sum_list_nonneg) auto

lemma cauchy_schwarz_list:
  fixes f g :: "'a \<Rightarrow> real"
  shows "(\<Sum>p\<leftarrow>ps. f p * g p) * (\<Sum>p\<leftarrow>ps. f p * g p)
           \<le> (\<Sum>p\<leftarrow>ps. f p * f p) * (\<Sum>p\<leftarrow>ps. g p * g p)"
proof -
  define A where "A = (\<Sum>p\<leftarrow>ps. f p * f p)"
  define B where "B = (\<Sum>p\<leftarrow>ps. f p * g p)"
  define C where "C = (\<Sum>p\<leftarrow>ps. g p * g p)"
  have quad: "0 \<le> t * t * A - 2 * t * B + C" for t
  proof -
    have "0 \<le> (\<Sum>p\<leftarrow>ps. (t * f p - g p) * (t * f p - g p))"
      by (rule sum_list_nonneg) auto
    then show ?thesis
      by (simp only: sum_list_square_expand A_def B_def C_def)
  qed
  have A0: "0 \<le> A" unfolding A_def by (rule sum_list_squares_nonneg)
  show ?thesis
  proof (cases "A = 0")
    case True
    have "B = 0"
    proof (rule ccontr)
      assume "B \<noteq> 0"
      have "0 \<le> C - 2 * ((C + 1) / (2 * B)) * B"
        using quad [of "(C + 1) / (2 * B)"] True by simp
      also have "\<dots> = -1" using \<open>B \<noteq> 0\<close> by (simp add: field_simps)
      finally show False by simp
    qed
    then show ?thesis
      using True by (simp add: A_def [symmetric] B_def [symmetric] C_def [symmetric])
  next
    case False
    with A0 have "0 < A" by simp
    have "0 \<le> (B / A) * (B / A) * A - 2 * (B / A) * B + C"
      by (rule quad)
    also have "\<dots> = C - B * B / A"
      using \<open>0 < A\<close> by (simp add: field_simps)
    finally have "B * B / A \<le> C" by simp
    then have "B * B \<le> A * C"
      using \<open>0 < A\<close> by (simp add: pos_divide_le_eq mult.commute)
    then show ?thesis
      by (simp add: A_def [symmetric] B_def [symmetric] C_def [symmetric])
  qed
qed

subsection \<open>Results\<close>

lemma map_sum_eq_cases:
  assumes "map_sum id f x = map_sum id g y"
  obtains e where "x = Inl e" "y = Inl e"
    | a b where "x = Inr a" "y = Inr b" "f a = g b"
  using assms by (cases x; cases y) auto

end
