(* ===== verification/Table.thy ===== *)
theory Table
  imports Prelude
begin

text \<open>
  The pandas \<open>DataFrame\<close> the program loads with \<open>pd.read_csv\<close> and passes to every
  component (\<open>main.py\<close>, \<open>DataInspection.df\<close>, \<open>DataAnalysis1/2.df\<close>,
  \<open>SentimentAnalysis.df\<close>).  A column has a storage type: numeric (\<open>NumCol\<close>, the
  int64/float64 dtypes \<open>pd.api.types.is_numeric_dtype\<close> accepts) or object
  (\<open>ObjCol\<close>, the text columns \<open>read_csv\<close> produces); its cells may be missing.
  A frame is its ordered columns (\<open>df.columns\<close>, \<open>df[col]\<close>) and its row count
  (the index length, which survives dropping every column).
  The operations are the frame accesses and mutations the code performs:
  \<open>df[col]\<close> (\<open>get_column\<close>, KeyError when absent), \<open>df.drop(columns=[col])\<close>
  (\<open>drop_column\<close>), \<open>df[col] = series\<close> (\<open>set_column\<close>), \<open>nunique()\<close> and
  \<open>len(unique())\<close> (\<open>nunique\<close>, \<open>n_unique_raw\<close>).
  The well-formedness invariant \<open>wf_frame\<close>: distinct column names, every column
  as long as the frame.
\<close>

datatype column = NumCol "real option list" | ObjCol "string option list"

record frame =
  columns :: "(colname \<times> column) list"
  nrows :: nat

primrec cells :: "column \<Rightarrow> pyvalue option list" where
  "cells (NumCol xs) = map (map_option VNum) xs"
| "cells (ObjCol xs) = map (map_option VStr) xs"

primrec col_length :: "column \<Rightarrow> nat" where
  "col_length (NumCol xs) = length xs"
| "col_length (ObjCol xs) = length xs"

primrec is_numeric_dtype :: "column \<Rightarrow> bool" where
  "is_numeric_dtype (NumCol _) = True"
| "is_numeric_dtype (ObjCol _) = False"

text \<open>\<open>df[col].isnull().sum()\<close>.\<close>

primrec col_missing :: "column \<Rightarrow> nat" where
  "col_missing (NumCol xs) = count_missing xs"
| "col_missing (ObjCol xs) = count_missing xs"

text \<open>\<open>Series.nunique()\<close> (NaN not counted) and \<open>len(Series.unique())\<close> (NaN counted once).\<close>

definition nunique :: "column \<Rightarrow> nat" where
  "nunique c = n_distinct (dropna (cells c))"

definition n_unique_raw :: "column \<Rightarrow> nat" where
  "n_unique_raw c = n_distinct (cells c)"

definition column_names :: "frame \<Rightarrow> colname list" where
  "column_names df = map fst (columns df)"

definition get_column :: "frame \<Rightarrow> colname \<Rightarrow> py_error + column" where
  "get_column df col = (case map_of (columns df) col of None \<Rightarrow> Inl KeyError | Some c \<Rightarrow> Inr c)"

definition drop_column :: "colname \<Rightarrow> frame \<Rightarrow> py_error + frame" where
  "drop_column col df =
     (if col \<in> set (column_names df)
      then Inr (df\<lparr>columns := filter (\<lambda>p. fst p \<noteq> col) (columns df)\<rparr>)
      else Inl KeyError)"

definition set_column :: "colname \<Rightarrow> column \<Rightarrow> frame \<Rightarrow> frame" where
  "set_column col c df = df\<lparr>columns := AList.update col c (columns df)\<rparr>"

text \<open>Column \<open>c\<close> of \<open>d\<close> exists and is stored as numbers, resp. as objects.\<close>

definition numeric_in :: "frame \<Rightarrow> colname \<Rightarrow> bool" where
  "numeric_in d c = (case get_column d c of Inr (NumCol _) \<Rightarrow> True | _ \<Rightarrow> False)"

definition text_in :: "frame \<Rightarrow> colname \<Rightarrow> bool" where
  "text_in d c = (case get_column d c of Inr (ObjCol _) \<Rightarrow> True | _ \<Rightarrow> False)"

definition wf_frame :: "frame \<Rightarrow> bool" where
  "wf_frame df \<longleftrightarrow> distinct (column_names df) \<and> list_all (\<lambda>(n, c). col_length c = nrows df) (columns df)"

text \<open>\<open>df[[a, b]].dropna()\<close> read as the pairs of cells of the rows where both are
  present, in row order.\<close>

fun both_present :: "'a option list \<Rightarrow> 'b option list \<Rightarrow> ('a \<times> 'b) list" where
  "both_present (Some x # xs) (Some k # ks) = (x, k) # both_present xs ks"
| "both_present (_ # xs) (_ # ks) = both_present xs ks"
| "both_present _ _ = []"

text \<open>\<open>[g[a].values for name, g in data.groupby(b)]\<close>: one group per key, keys in
  ascending order (\<open>sort=True\<close>), values in row order.\<close>

definition group_values :: "('a \<times> 'k::linorder) list \<Rightarrow> 'a list list" where
  "group_values ps = map (\<lambda>k. map fst (filter (\<lambda>p. snd p = k) ps)) (sort (remdups (map snd ps)))"

lemmas frame_defs [frame_simps] = get_column_def drop_column_def set_column_def column_names_def

subsection \<open>Column facts\<close>

lemma col_length_cells [simp]: "length (cells c) = col_length c"
  by (cases c) simp_all

lemma col_missing_cells: "col_missing c = count_missing (cells c)"
proof (cases c)
  case (NumCol xs)
  then show ?thesis by (induction xs arbitrary: c) (auto simp: count_missing_def)
next
  case (ObjCol xs)
  then show ?thesis by (induction xs arbitrary: c) (auto simp: count_missing_def)
qed

lemma nunique_le_raw: "nunique c \<le> n_unique_raw c"
  by (simp add: nunique_def n_unique_raw_def n_distinct_dropna_le)

lemma n_unique_raw_eq:
  "n_unique_raw c = nunique c + (if None \<in> set (cells c) then 1 else 0)"
  by (simp add: nunique_def n_unique_raw_def n_distinct_with_missing [of "cells c"])

lemma nunique_le_length: "nunique c \<le> col_length c"
  using n_distinct_le_length [of "cells c"] nunique_le_raw [of c]
  by (simp add: n_unique_raw_def)

lemma dropna_map_option: "dropna (map (map_option f) cs) = map f (dropna cs)"
  by (induction cs) (auto split: option.splits)

lemma nunique_NumCol: "nunique (NumCol xs) = n_distinct (dropna xs)"
  by (simp add: nunique_def dropna_map_option n_distinct_card card_image inj_on_def)

lemma nunique_ObjCol: "nunique (ObjCol xs) = n_distinct (dropna xs)"
  by (simp add: nunique_def dropna_map_option n_distinct_card card_image inj_on_def)

subsection \<open>Frame access and update\<close>

lemma get_column_Inr_iff: "get_column df col = Inr c \<longleftrightarrow> map_of (columns df) col = Some c"
  by (simp add: get_column_def split: option.splits)

lemma get_column_present: "get_column df col = Inr c \<Longrightarrow> col \<in> set (column_names df)"
  by (auto simp: get_column_Inr_iff column_names_def dest: map_of_SomeD intro: rev_image_eqI)

lemma get_column_distinct_iff:
  "distinct (column_names d) \<Longrightarrow> get_column d col = Inr c \<longleftrightarrow> (col, c) \<in> set (columns d)"
  by (auto simp: column_names_def get_column_Inr_iff dest: map_of_SomeD intro: map_of_is_SomeI)

lemma get_column_absent: "col \<notin> set (column_names df) \<Longrightarrow> get_column df col = Inl KeyError"
  by (auto simp: get_column_def column_names_def map_of_eq_None_iff split: option.splits)

lemma names_set_column:
  "column_names (set_column col c df) =
     (if col \<in> set (column_names df) then column_names df else column_names df @ [col])"
  by (induction "columns df" arbitrary: df)
     (auto simp: set_column_def column_names_def AList.update_keys)

lemma get_set_column_same: "get_column (set_column col c df) col = Inr c"
  by (simp add: get_column_def set_column_def update_conv')

lemma get_set_column_other:
  "col' \<noteq> col \<Longrightarrow> get_column (set_column col c df) col' = get_column df col'"
  by (simp add: get_column_def set_column_def update_conv')

lemma drop_column_Inr:
  "col \<in> set (column_names df) \<Longrightarrow>
   drop_column col df = Inr (df\<lparr>columns := filter (\<lambda>p. fst p \<noteq> col) (columns df)\<rparr>)"
  by (simp add: drop_column_def)

lemma names_drop_column:
  "drop_column col df = Inr df' \<Longrightarrow> column_names df' = filter (\<lambda>n. n \<noteq> col) (column_names df)"
  by (auto simp: drop_column_def column_names_def filter_map comp_def split: if_splits
           intro!: filter_cong)

lemma map_of_filter_other:
  "col' \<noteq> col \<Longrightarrow> map_of (filter (\<lambda>p. fst p \<noteq> col) ps) col' = map_of ps col'"
  by (induction ps) auto

lemma set_update_subset: "set (AList.update k v ps) \<subseteq> insert (k, v) (set ps)"
  by (induction ps) auto

lemma get_drop_column_other:
  "drop_column col df = Inr df' \<Longrightarrow> col' \<noteq> col \<Longrightarrow> get_column df' col' = get_column df col'"
  by (auto simp: drop_column_def get_column_def map_of_filter_other split: if_splits)

lemma nrows_drop_column: "drop_column col df = Inr df' \<Longrightarrow> nrows df' = nrows df"
  by (auto simp: drop_column_def split: if_splits)

lemma nrows_set_column [simp]: "nrows (set_column col c df) = nrows df"
  by (simp add: set_column_def)

subsection \<open>The frame invariant\<close>

lemma wf_frame_col_length:
  "wf_frame df \<Longrightarrow> get_column df col = Inr c \<Longrightarrow> col_length c = nrows df"
  by (auto simp: wf_frame_def get_column_Inr_iff list_all_iff dest: map_of_SomeD)

lemma wf_drop_column: "wf_frame df \<Longrightarrow> drop_column col df = Inr df' \<Longrightarrow> wf_frame df'"
  by (auto simp: wf_frame_def drop_column_def column_names_def list_all_iff distinct_map_filter
           split: if_splits)

lemma wf_set_column:
  "wf_frame df \<Longrightarrow> col_length c = nrows df \<Longrightarrow> wf_frame (set_column col c df)"
proof -
  assume wf: "wf_frame df" and len: "col_length c = nrows df"
  have "distinct (column_names (set_column col c df))"
    using wf by (auto simp: names_set_column wf_frame_def)
  moreover have "set (AList.update col c (columns df)) \<subseteq> insert (col, c) (set (columns df))"
    by (rule set_update_subset)
  ultimately show ?thesis
    using wf len by (fastforce simp: wf_frame_def list_all_iff set_column_def)
qed

subsection \<open>Grouping\<close>

lemma sum_list_single_key:
  "distinct ks \<Longrightarrow> x \<in> set ks \<Longrightarrow> sum_list (map (\<lambda>k. if x = k then A else {#}) ks) = A"
proof (induction ks)
  case (Cons k ks)
  then show ?case
  proof (cases "x = k")
    case True
    with Cons.prems have "sum_list (map (\<lambda>k. if x = k then A else {#}) ks) = {#}"
      by (induction ks) auto
    with True show ?thesis by simp
  qed auto
qed simp

lemma sum_groups_mset:
  "distinct ks \<Longrightarrow> set (map snd ps) \<subseteq> set ks \<Longrightarrow>
   sum_list (map (\<lambda>k. image_mset fst (filter_mset (\<lambda>p. snd p = k) (mset ps))) ks) = image_mset fst (mset ps)"
proof (induction ps)
  case Nil
  then show ?case by (induction ks) auto
next
  case (Cons p ps)
  have split: "(\<lambda>k. image_mset fst (filter_mset (\<lambda>q. snd q = k) (mset (p # ps))))
      = (\<lambda>k. (if snd p = k then {#fst p#} else {#}) + image_mset fst (filter_mset (\<lambda>q. snd q = k) (mset ps)))"
    by auto
  have "sum_list (map (\<lambda>k. if snd p = k then {#fst p#} else {#}) ks) = {#fst p#}"
    using Cons.prems by (intro sum_list_single_key) auto
  then show ?case
    using Cons by (simp only: split sum_list_addf) simp
qed

lemma mset_concat_group_values: "mset (concat (group_values ps)) = mset (map fst ps)"
  by (simp add: group_values_def mset_concat comp_def sum_groups_mset)

lemma group_values_nonempty: "g \<in> set (group_values ps) \<Longrightarrow> g \<noteq> []"
proof -
  assume "g \<in> set (group_values ps)"
  then obtain k where k: "k \<in> snd ` set ps" and g: "g = map fst (filter (\<lambda>p. snd p = k) ps)"
    by (auto simp: group_values_def)
  from k obtain q where "q \<in> set ps" "snd q = k" by blast
  with g show "g \<noteq> []" by (auto simp: filter_empty_conv)
qed

lemma length_group_values: "length (group_values ps) = n_distinct (map snd ps)"
  by (simp add: group_values_def n_distinct_def)

lemma both_present_length: "length (both_present xs ks) \<le> min (length xs) (length ks)"
  by (induction xs ks rule: both_present.induct) auto


text \<open>Two columns missing the same rows.\<close>

lemma both_present_same_mask:
  "map (\<lambda>c. c = None) us = map (\<lambda>c. c = None) vs \<Longrightarrow>
   both_present us vs = zip (dropna us) (dropna vs)"
proof (induction us arbitrary: vs)
  case (Cons u us)
  then obtain v vs' where "vs = v # vs'"
    by (cases vs) auto
  with Cons show ?case
    by (cases u; cases v) auto
qed simp

lemma dropna_same_mask_length:
  "map (\<lambda>c. c = None) us = map (\<lambda>c. c = None) vs \<Longrightarrow>
   length (dropna us) = length (dropna vs)"
proof (induction us arbitrary: vs)
  case (Cons u us)
  then obtain v vs' where "vs = v # vs'"
    by (cases vs) auto
  with Cons show ?case
    by (cases u; cases v) auto
qed simp

end
