(* ===== verification/Stats.thy ===== *)
theory Stats
  imports Prelude
begin

text \<open>
  The pandas series statistics the program's own decisions depend on: \<open>Series.mean()\<close>,
  \<open>Series.median()\<close> and \<open>Series.mode()\<close>, each over the non-missing values
  (pandas skips NaN).  A statistic of an empty series is NaN, written \<open>None\<close>;
  \<open>Series.mode()\<close> returns every most frequent value, sorted, and the code reads its
  first element (\<open>mode()[0]\<close>), which does not exist for an empty series.
  These are library routines, modelled from their documented results; arithmetic is
  exact (\<open>real\<close>), not IEEE double.
  Proved here: the median is a permutation-invariant middle value (between the least
  and the greatest value, at least half of the values on each side of it); the first
  mode is a value of the series, is at least as frequent as any other value, and is
  the least of the values that tie with it; a non-empty series has one.
\<close>

definition mean :: "real list \<Rightarrow> real option" where
  "mean xs = (if xs = [] then None else Some (sum_list xs / real (length xs)))"

definition median :: "real list \<Rightarrow> real option" where
  "median xs =
     (if xs = [] then None
      else let s = sort xs; n = length s
           in Some (if even n then (s ! (n div 2 - 1) + s ! (n div 2)) / 2 else s ! (n div 2)))"

definition max_count :: "'a list \<Rightarrow> nat" where
  "max_count xs = foldr max (map (count_list xs) xs) 0"

definition modes :: "'a::linorder list \<Rightarrow> 'a list" where
  "modes xs = sort (remdups (filter (\<lambda>x. count_list xs x = max_count xs) xs))"

definition mode_first :: "'a::linorder list \<Rightarrow> 'a option" where
  "mode_first xs = (case modes xs of [] \<Rightarrow> None | m # _ \<Rightarrow> Some m)"

subsection \<open>Mean and median\<close>

lemma mean_Some: "xs \<noteq> [] \<Longrightarrow> mean xs = Some (sum_list xs / real (length xs))"
  by (simp add: mean_def)

lemma sort_mset_cong: "mset xs = mset ys \<Longrightarrow> sort xs = sort ys"
  by (rule properties_for_sort) simp_all

lemma median_mset_cong: "mset xs = mset ys \<Longrightarrow> median xs = median ys"
proof -
  assume eq: "mset xs = mset ys"
  then have "sort xs = sort ys" by (rule sort_mset_cong)
  moreover from eq have "(xs = []) = (ys = [])" by auto
  ultimately show ?thesis
    unfolding median_def by (simp only: length_sort)
qed

lemma median_None_iff: "median xs = None \<longleftrightarrow> xs = []"
  by (simp add: median_def Let_def)

lemma nth_sort_in_set: "i < length xs \<Longrightarrow> sort xs ! i \<in> set xs"
  by (metis length_sort nth_mem set_sort)

lemma median_cases:
  assumes "median xs = Some m"
  obtains i j where "i \<le> j" "j < length xs" "m = (sort xs ! i + sort xs ! j) / 2"
    "length xs \<le> 2 * Suc i" "length xs \<le> 2 * (length xs - j)"
proof (cases "even (length xs)")
  case True
  with assms have ne: "xs \<noteq> []" and m: "m = (sort xs ! (length xs div 2 - 1) + sort xs ! (length xs div 2)) / 2"
    by (auto simp: median_def Let_def split: if_splits)
  from ne have "length xs \<noteq> 0" by simp
  with True have "2 \<le> length xs" by presburger
  with True m show ?thesis
    by (intro that [of "length xs div 2 - 1" "length xs div 2"]) auto
next
  case False
  with assms have "xs \<noteq> []" "m = sort xs ! (length xs div 2)"
    by (auto simp: median_def Let_def split: if_splits)
  with False show ?thesis
    by (intro that [of "length xs div 2" "length xs div 2"]) auto
qed

lemma median_bounds:
  assumes "median xs = Some m"
  shows "Min (set xs) \<le> m \<and> m \<le> Max (set xs)"
proof -
  obtain i j where ij: "i \<le> j" "j < length xs" "m = (sort xs ! i + sort xs ! j) / 2"
    using assms by (rule median_cases)
  then have a: "sort xs ! i \<in> set xs" and b: "sort xs ! j \<in> set xs"
    by (simp_all add: nth_sort_in_set)
  have "Min (set xs) \<le> sort xs ! i" "Min (set xs) \<le> sort xs ! j"
    using a b by simp_all
  moreover have "sort xs ! i \<le> Max (set xs)" "sort xs ! j \<le> Max (set xs)"
    using a b by simp_all
  moreover have "2 * m = sort xs ! i + sort xs ! j"
    using ij(3) by simp
  ultimately show ?thesis
    by linarith
qed

text \<open>The values of a prefix of the sorted list are all below an element further on.\<close>

lemma length_filter_sort: "length (filter P (sort xs)) = length (filter P xs)"
proof -
  have "mset (filter P (sort xs)) = mset (filter P xs)"
    by simp
  then show ?thesis
    using size_mset by metis
qed

lemma length_filter_take_le: "length (filter P (take k xs)) \<le> length (filter P xs)"
proof -
  have "filter P xs = filter P (take k xs) @ filter P (drop k xs)"
    by (simp flip: filter_append)
  then show ?thesis
    by (metis le_add1 length_append)
qed

lemma length_filter_drop_le: "length (filter P (drop k xs)) \<le> length (filter P xs)"
proof -
  have "filter P xs = filter P (take k xs) @ filter P (drop k xs)"
    by (simp flip: filter_append)
  then show ?thesis
    by (metis le_add2 length_append)
qed

lemma filter_le_sorted_prefix:
  assumes "k < length xs" "sort xs ! k \<le> m"
  shows "Suc k \<le> length (filter (\<lambda>x. x \<le> m) xs)"
proof -
  let ?s = "sort xs"
  have "\<forall>x \<in> set (take (Suc k) ?s). x \<le> m"
  proof
    fix x assume "x \<in> set (take (Suc k) ?s)"
    then obtain l where "l < Suc k" "x = ?s ! l"
      using assms(1) by (auto simp: in_set_conv_nth)
    then have "x \<le> ?s ! k"
      using assms(1) by (simp add: sorted_nth_mono)
    with assms(2) show "x \<le> m" by simp
  qed
  then have "length (filter (\<lambda>x. x \<le> m) (take (Suc k) ?s)) = Suc k"
    using assms(1) by simp
  then show ?thesis
    using length_filter_take_le [of "\<lambda>x. x \<le> m" "Suc k" ?s] by (simp add: length_filter_sort)
qed

lemma filter_ge_sorted_suffix:
  assumes "k < length xs" "m \<le> sort xs ! k"
  shows "length xs - k \<le> length (filter (\<lambda>x. m \<le> x) xs)"
proof -
  let ?s = "sort xs"
  have "\<forall>x \<in> set (drop k ?s). m \<le> x"
  proof
    fix x assume "x \<in> set (drop k ?s)"
    then obtain l where "l < length xs - k" "x = ?s ! (k + l)"
      by (auto simp: in_set_conv_nth)
    then have "k \<le> k + l" "k + l < length xs" "x = ?s ! (k + l)"
      by auto
    then have "?s ! k \<le> x"
      by (simp add: sorted_nth_mono)
    with assms(2) show "m \<le> x" by simp
  qed
  then have "length (filter (\<lambda>x. m \<le> x) (drop k ?s)) = length xs - k"
    by simp
  then show ?thesis
    using length_filter_drop_le [of "\<lambda>x. m \<le> x" k ?s] by (simp add: length_filter_sort)
qed

lemma median_halves:
  assumes "median xs = Some m"
  shows "length xs \<le> 2 * length (filter (\<lambda>x. x \<le> m) xs)
       \<and> length xs \<le> 2 * length (filter (\<lambda>x. m \<le> x) xs)"
proof -
  obtain i j where ij: "i \<le> j" "j < length xs" "m = (sort xs ! i + sort xs ! j) / 2"
      "length xs \<le> 2 * Suc i" "length xs \<le> 2 * (length xs - j)"
    using assms by (rule median_cases)
  let ?s = "sort xs"
  have sij: "?s ! i \<le> ?s ! j"
    using ij by (simp add: sorted_nth_mono)
  have "2 * m = ?s ! i + ?s ! j"
    using ij(3) by simp
  then have lo: "?s ! i \<le> m" and hi: "m \<le> ?s ! j"
    using sij by linarith+
  have "Suc i \<le> length (filter (\<lambda>x. x \<le> m) xs)"
    using ij(1,2) lo by (intro filter_le_sorted_prefix) simp_all
  then have "length xs \<le> 2 * length (filter (\<lambda>x. x \<le> m) xs)"
    using ij(4) by (meson le_trans mult_le_mono2)
  moreover have "length xs - j \<le> length (filter (\<lambda>x. m \<le> x) xs)"
    using ij(2) hi by (rule filter_ge_sorted_suffix)
  then have "length xs \<le> 2 * length (filter (\<lambda>x. m \<le> x) xs)"
    using ij(5) by (meson le_trans mult_le_mono2)
  ultimately show ?thesis ..
qed

subsection \<open>Mode\<close>

lemma foldr_max_Max: "ys \<noteq> [] \<Longrightarrow> foldr max ys (0::nat) = Max (set ys)"
proof (induction ys)
  case (Cons y ys)
  then show ?case by (cases "ys = []") (simp_all add: max.commute)
qed simp

lemma count_le_max_count: "x \<in> set xs \<Longrightarrow> count_list xs x \<le> max_count xs"
proof -
  assume x: "x \<in> set xs"
  then have "map (count_list xs) xs \<noteq> []" by auto
  then have "max_count xs = Max (count_list xs ` set xs)"
    by (simp add: max_count_def foldr_max_Max)
  with x show ?thesis by simp
qed

lemma max_count_attained: "xs \<noteq> [] \<Longrightarrow> \<exists>x \<in> set xs. count_list xs x = max_count xs"
proof -
  assume "xs \<noteq> []"
  then have eq: "max_count xs = Max (count_list xs ` set xs)"
    by (simp add: max_count_def foldr_max_Max)
  have "Max (count_list xs ` set xs) \<in> count_list xs ` set xs"
    using \<open>xs \<noteq> []\<close> by (intro Max_in) simp_all
  then show ?thesis
    by (auto simp: eq)
qed

lemma set_modes: "set (modes xs) = {x \<in> set xs. count_list xs x = max_count xs}"
  by (auto simp: modes_def)

lemma mode_first_Some:
  assumes "mode_first xs = Some m"
  shows "m \<in> set xs \<and> (\<forall>y \<in> set xs. count_list xs y \<le> count_list xs m)
       \<and> (\<forall>y \<in> set xs. count_list xs y = count_list xs m \<longrightarrow> m \<le> y)"
proof -
  obtain rest where ms: "modes xs = m # rest"
    using assms by (auto simp: mode_first_def split: list.splits)
  then have m: "m \<in> set xs" "count_list xs m = max_count xs"
    using set_modes [of xs] by auto
  have sorted: "sorted (modes xs)"
    by (simp add: modes_def)
  have ties: "m \<le> y" if "y \<in> set xs" "count_list xs y = count_list xs m" for y
  proof -
    from that m have "y \<in> set (m # rest)"
      using set_modes [of xs] ms by auto
    with sorted ms show ?thesis by auto
  qed
  show ?thesis
    using m ties count_le_max_count by auto
qed

lemma mode_first_exists: "xs \<noteq> [] \<Longrightarrow> \<exists>m. mode_first xs = Some m"
proof -
  assume "xs \<noteq> []"
  then obtain x where "x \<in> set xs" "count_list xs x = max_count xs"
    using max_count_attained by blast
  then have "x \<in> set (modes xs)"
    by (simp add: set_modes)
  then show ?thesis
    by (cases "modes xs") (simp_all add: mode_first_def)
qed

lemma mode_first_None_iff: "mode_first xs = None \<longleftrightarrow> xs = []"
proof
  assume "mode_first xs = None"
  then show "xs = []"
    using mode_first_exists [of xs] by auto
next
  assume "xs = []"
  then show "mode_first xs = None"
    by (simp add: mode_first_def modes_def)
qed

end
