(* ===== verification/Inspection.thy ===== *)
theory Inspection
  imports Table Stats
begin

text \<open>
  \<open>src/data_inspection.py\<close>, class \<open>DataInspection\<close>.  Its state is the working copy
  of the frame (\<open>self.df\<close>); its visible effects are the plots it draws, recorded in
  order as a list of \<open>plot\<close> events (matplotlib is not modelled further).  Printing
  is not modelled.  The operations:
  \<^item> \<open>handle_missing_values\<close>: drop a column with more than 50\% missing cells, else
    fill the missing cells with the median (numeric) or the first mode (object);
  \<^item> \<open>check_data_types\<close>: convert an object column to numeric when every present
    cell parses (\<open>pd.to_numeric\<close>, whose per-string parser is a parameter);
  \<^item> \<open>classify_and_calculate\<close>: the two above, then the central tendency and its plot
    by storage type and \<open>nunique() > 10\<close>;
  \<^item> \<open>classify_columns\<close>: the loop over the columns the frame had when it started;
  \<^item> \<open>numeric_columns\<close>, \<open>ordinal_columns\<close>: the column lists of the menu.
\<close>

datatype plot = Histogram colname | BoxPlot colname colname | BarChart colname
  | Scatter colname colname

datatype central = CMean "real option" | CMedian "real option" | CMode string

record inspection =
  df :: frame
  plots :: "plot list"

text \<open>\<open>load_csv(file_path)\<close>: \<open>self.df = pd.read_csv(file_path)\<close>, the loader being the
  parameter \<open>loader\<close> (\<open>None\<close> when reading fails).  The method is not called by
  \<open>main.py\<close>, which loads the dataset itself.\<close>

definition load_csv :: "(string \<Rightarrow> frame option) \<Rightarrow> string \<Rightarrow> inspection \<Rightarrow> py_error + inspection" where
  "load_csv loader file_path st =
     (case loader file_path of None \<Rightarrow> Inl ReadError | Some d \<Rightarrow> Inr (st\<lparr>df := d\<rparr>))"

text \<open>\<open>(total_missing / total) * 100\<close>; \<open>0 / 0\<close> is NaN for numpy integers, and
  \<open>NaN > 50\<close> is false.\<close>

definition missing_percentage :: "nat \<Rightarrow> nat \<Rightarrow> real option" where
  "missing_percentage total_missing n_total =
     (if n_total = 0 then None else Some (real total_missing / real n_total * 100))"

definition exceeds_half :: "nat \<Rightarrow> nat \<Rightarrow> bool" where
  "exceeds_half total_missing n_total =
     (case missing_percentage total_missing n_total of None \<Rightarrow> False | Some p \<Rightarrow> p > 50)"

text \<open>\<open>median_value = df[col].median(); df[col].fillna(median_value)\<close>: filling with
  the NaN of an empty column changes nothing.\<close>

definition fill_median :: "real option list \<Rightarrow> real option list" where
  "fill_median xs = (case median (dropna xs) of None \<Rightarrow> xs | Some v \<Rightarrow> fillna v xs)"

definition handle_missing_values :: "colname \<Rightarrow> inspection \<Rightarrow> py_error + bool \<times> inspection" where
  "handle_missing_values col st =
     (case get_column (df st) col of
        Inl e \<Rightarrow> Inl e
      | Inr c \<Rightarrow>
          (if exceeds_half (col_missing c) (col_length c) then
             (case drop_column col (df st) of
                Inl e \<Rightarrow> Inl e
              | Inr d \<Rightarrow> Inr (False, st\<lparr>df := d\<rparr>))
           else
             (case c of
                NumCol xs \<Rightarrow> Inr (True, st\<lparr>df := set_column col (NumCol (fill_median xs)) (df st)\<rparr>)
              | ObjCol xs \<Rightarrow>
                  (case mode_first (dropna xs) of
                     None \<Rightarrow> Inl KeyError
                   | Some m \<Rightarrow> Inr (True, st\<lparr>df := set_column col (ObjCol (fillna m xs)) (df st)\<rparr>)))))"

text \<open>\<open>pd.to_numeric\<close> on an object column: every present string must parse, else
  \<open>ValueError\<close> (here \<open>None\<close>); missing cells stay missing.\<close>

primrec to_numeric :: "(string \<Rightarrow> real option) \<Rightarrow> string option list \<Rightarrow> real option list option" where
  "to_numeric parse [] = Some []"
| "to_numeric parse (c # cs) =
     (case c of
        None \<Rightarrow> map_option (Cons None) (to_numeric parse cs)
      | Some s \<Rightarrow> (case parse s of
                     None \<Rightarrow> None
                   | Some r \<Rightarrow> map_option (Cons (Some r)) (to_numeric parse cs)))"

definition check_data_types ::
  "(string \<Rightarrow> real option) \<Rightarrow> colname \<Rightarrow> inspection \<Rightarrow> py_error + inspection" where
  "check_data_types parse col st =
     (case get_column (df st) col of
        Inl e \<Rightarrow> Inl e
      | Inr (NumCol _) \<Rightarrow> Inr st
      | Inr (ObjCol xs) \<Rightarrow>
          (case to_numeric parse xs of
             None \<Rightarrow> Inr st
           | Some ys \<Rightarrow> Inr (st\<lparr>df := set_column col (NumCol ys) (df st)\<rparr>)))"

text \<open>\<open>plot_boxplot(x_col, y_col)\<close>: \<open>df.boxplot(column=y_col, by=x_col)\<close> draws one box
  per group of \<open>x_col\<close>, its present values; pandas unpacks the groups with
  \<open>keys, values = zip(*gp_col)\<close>, which raises \<open>ValueError\<close> when there is none.  The
  argument \<open>by_col\<close> is the column \<open>df[x_col]\<close>.\<close>

definition plot_boxplot :: "colname \<Rightarrow> colname \<Rightarrow> column \<Rightarrow> py_error + plot" where
  "plot_boxplot x_col y_col by_col =
     (if dropna (cells by_col) = [] then Inl ValueError else Inr (BoxPlot x_col y_col))"

definition central_of ::
  "colname \<Rightarrow> column \<Rightarrow> inspection \<Rightarrow> py_error + central \<times> inspection" where
  "central_of col c st =
     (case c of
        NumCol xs \<Rightarrow>
          (if nunique c > 10
           then Inr (CMean (mean (dropna xs)), st\<lparr>plots := plots st @ [Histogram col]\<rparr>)
           else (case plot_boxplot col col c of
                   Inl e \<Rightarrow> Inl e
                 | Inr p \<Rightarrow> Inr (CMedian (median (dropna xs)), st\<lparr>plots := plots st @ [p]\<rparr>)))
      | ObjCol xs \<Rightarrow>
          (case mode_first (dropna xs) of
             None \<Rightarrow> Inl KeyError
           | Some m \<Rightarrow> Inr (CMode m, st\<lparr>plots := plots st @ [BarChart col]\<rparr>)))"

definition classify_and_calculate ::
  "(string \<Rightarrow> real option) \<Rightarrow> colname \<Rightarrow> inspection \<Rightarrow> py_error + central option \<times> inspection" where
  "classify_and_calculate parse col st =
     (case handle_missing_values col st of
        Inl e \<Rightarrow> Inl e
      | Inr (False, st1) \<Rightarrow> Inr (None, st1)
      | Inr (True, st1) \<Rightarrow>
          (case check_data_types parse col st1 of
             Inl e \<Rightarrow> Inl e
           | Inr st2 \<Rightarrow>
               (case get_column (df st2) col of
                  Inl e \<Rightarrow> Inl e
                | Inr c \<Rightarrow>
                    (case central_of col c st2 of
                       Inl e \<Rightarrow> Inl e
                     | Inr (r, st3) \<Rightarrow> Inr (Some r, st3)))))"

fun classify_all ::
  "(string \<Rightarrow> real option) \<Rightarrow> colname list \<Rightarrow> inspection \<Rightarrow> py_error + inspection" where
  "classify_all parse [] st = Inr st"
| "classify_all parse (col # cols) st =
     (case classify_and_calculate parse col st of
        Inl e \<Rightarrow> Inl e
      | Inr (_, st') \<Rightarrow> classify_all parse cols st')"

text \<open>\<open>for col in self.df.columns\<close> iterates over the column index taken when the loop
  starts; dropping a column inside the loop does not change it.\<close>

definition classify_columns :: "(string \<Rightarrow> real option) \<Rightarrow> inspection \<Rightarrow> py_error + inspection" where
  "classify_columns parse st = classify_all parse (column_names (df st)) st"

definition numeric_columns :: "inspection \<Rightarrow> colname list" where
  "numeric_columns st = map fst (filter (\<lambda>(n, c). is_numeric_dtype c) (columns (df st)))"

definition ordinal_columns :: "inspection \<Rightarrow> colname list" where
  "ordinal_columns st = map fst (filter (\<lambda>(n, c). \<not> is_numeric_dtype c) (columns (df st)))"

text \<open>The columns a plot reads, and whether they exist in frame \<open>d\<close> with the dtype the
  drawing call needs: \<open>hist()\<close> and \<open>boxplot\<close> on numbers, \<open>value_counts().plot\<close>
  on a text column, \<open>plt.scatter\<close> on two numeric columns.\<close>

primrec plot_cols :: "plot \<Rightarrow> colname list" where
  "plot_cols (Histogram c) = [c]"
| "plot_cols (BoxPlot x y) = [x, y]"
| "plot_cols (BarChart c) = [c]"
| "plot_cols (Scatter x y) = [x, y]"

primrec plot_fits :: "frame \<Rightarrow> plot \<Rightarrow> bool" where
  "plot_fits d (Histogram c) = numeric_in d c"
| "plot_fits d (BoxPlot x y) = (x \<in> set (column_names d) \<and> numeric_in d y)"
| "plot_fits d (BarChart c) = text_in d c"
| "plot_fits d (Scatter x y) = (numeric_in d x \<and> numeric_in d y)"

text \<open>Reference for the classification pass: the pass run on a frame holding the one
  column alone (what the column becomes, or the exception, and the plots drawn), and
  these single-column passes composed in column order.\<close>

definition column_pass ::
  "(string \<Rightarrow> real option) \<Rightarrow> colname \<Rightarrow> column \<Rightarrow> py_error + (py_error + column) \<times> plot list" where
  "column_pass parse col c =
     (case classify_and_calculate parse col \<lparr>df = \<lparr>columns = [(col, c)], nrows = col_length c\<rparr>, plots = []\<rparr> of
        Inl e \<Rightarrow> Inl e
      | Inr (_, s) \<Rightarrow> Inr (get_column (df s) col, plots s))"

fun columnwise ::
  "(string \<Rightarrow> real option) \<Rightarrow> (colname \<times> column) list \<Rightarrow> py_error + (py_error + column) list \<times> plot list" where
  "columnwise parse [] = Inr ([], [])"
| "columnwise parse ((n, c) # cs) =
     (case column_pass parse n c of
        Inl e \<Rightarrow> Inl e
      | Inr (r, ps) \<Rightarrow> (case columnwise parse cs of Inl e \<Rightarrow> Inl e | Inr (rs, qs) \<Rightarrow> Inr (r # rs, ps @ qs)))"

text \<open>What \<open>classify_and_calculate\<close> leaves of a column of frame \<open>d\<close> in frame
  \<open>d'\<close>: gone if more than half of it was missing, else present, as long, and complete.\<close>

definition column_cleaned :: "frame \<Rightarrow> frame \<Rightarrow> colname \<Rightarrow> bool" where
  "column_cleaned d d' col =
     (case get_column d col of
        Inl _ \<Rightarrow> True
      | Inr c \<Rightarrow>
          (if col_length c < 2 * col_missing c then col \<notin> set (column_names d')
           else (\<exists>c'. get_column d' col = Inr c' \<and> col_missing c' = 0 \<and> col_length c' = col_length c)))"

subsection \<open>The 50\% rule\<close>

lemma exceeds_half_iff: "exceeds_half m t \<longleftrightarrow> 0 < t \<and> t < 2 * m"
proof (cases "t = 0")
  case False
  then have "(real m / real t * 100 > 50) = (real t < 2 * real m)"
    by (simp add: field_simps)
  also have "\<dots> = (t < 2 * m)"
    by linarith
  finally show ?thesis
    using False
    by (simp add: exceeds_half_def missing_percentage_def)
qed (simp add: exceeds_half_def missing_percentage_def)

subsection \<open>Filling\<close>

lemma col_missing_fill_median:
  "dropna xs \<noteq> [] \<Longrightarrow> count_missing (fill_median xs) = 0"
  by (auto simp: fill_median_def count_missing_zero_iff median_None_iff split: option.splits)

lemma length_fill_median [simp]: "length (fill_median xs) = length xs"
  by (simp add: fill_median_def split: option.splits)

lemma dropna_ne_if_half:
  "0 < length xs \<Longrightarrow> \<not> length xs < 2 * count_missing xs \<Longrightarrow> dropna xs \<noteq> []"
  using length_dropna [of xs] by auto

lemma fill_median_eq:
  "0 < length xs \<Longrightarrow> \<not> length xs < 2 * count_missing xs \<Longrightarrow>
   \<exists>v. median (dropna xs) = Some v \<and> fill_median xs = fillna v xs"
  using dropna_ne_if_half [of xs] median_None_iff [of "dropna xs"]
  by (auto simp: fill_median_def split: option.splits)

lemma col_missing_set_fill [simp]:
  "col_missing (NumCol (fillna v xs)) = 0" "col_missing (ObjCol (fillna s ys)) = 0"
  by (simp_all add: count_missing_zero_iff)

subsection \<open>\<open>handle_missing_values\<close>, branch by branch\<close>

lemma handle_missing_values_absent:
  "get_column (df st) col = Inl e \<Longrightarrow> handle_missing_values col st = Inl e"
  by (simp add: handle_missing_values_def)

lemma handle_missing_values_drop:
  assumes "get_column (df st) col = Inr c" "col_length c < 2 * col_missing c"
  shows "handle_missing_values col st =
           Inr (False, st\<lparr>df := df st\<lparr>columns := filter (\<lambda>p. fst p \<noteq> col) (columns (df st))\<rparr>\<rparr>)"
proof -
  have "0 < col_length c"
    using assms(2) col_missing_cells [of c] length_dropna [of "cells c"] by simp
  with assms show ?thesis
    by (simp add: handle_missing_values_def exceeds_half_iff drop_column_Inr get_column_present)
qed

lemma handle_missing_values_numeric:
  assumes "get_column (df st) col = Inr (NumCol xs)" "\<not> length xs < 2 * count_missing xs"
  shows "handle_missing_values col st =
           Inr (True, st\<lparr>df := set_column col (NumCol (fill_median xs)) (df st)\<rparr>)"
  using assms by (simp add: handle_missing_values_def exceeds_half_iff)

lemma handle_missing_values_object:
  assumes "get_column (df st) col = Inr (ObjCol xs)" "\<not> length xs < 2 * count_missing xs"
  shows "handle_missing_values col st =
           (case mode_first (dropna xs) of
              None \<Rightarrow> Inl KeyError
            | Some m \<Rightarrow> Inr (True, st\<lparr>df := set_column col (ObjCol (fillna m xs)) (df st)\<rparr>))"
  using assms by (simp add: handle_missing_values_def exceeds_half_iff)

lemma handle_missing_values_object_filled:
  assumes "get_column (df st) col = Inr (ObjCol xs)" "0 < length xs"
    "\<not> length xs < 2 * count_missing xs"
  shows "\<exists>m. mode_first (dropna xs) = Some m \<and>
           handle_missing_values col st = Inr (True, st\<lparr>df := set_column col (ObjCol (fillna m xs)) (df st)\<rparr>)"
proof -
  obtain m where "mode_first (dropna xs) = Some m"
    using mode_first_exists dropna_ne_if_half [OF assms(2,3)] by blast
  with handle_missing_values_object [OF assms(1,3)] show ?thesis
    by simp
qed

lemma handle_missing_values_plots:
  "handle_missing_values col st = Inr (b, st') \<Longrightarrow> plots st' = plots st"
  by (auto simp: handle_missing_values_def split: sum.splits if_splits column.splits option.splits)

lemma handle_missing_values_nrows:
  "handle_missing_values col st = Inr (b, st') \<Longrightarrow> nrows (df st') = nrows (df st)"
  by (auto simp: handle_missing_values_def nrows_drop_column
           split: sum.splits if_splits column.splits option.splits)

lemma handle_missing_values_other:
  "handle_missing_values col st = Inr (b, st') \<Longrightarrow> col' \<noteq> col \<Longrightarrow>
   get_column (df st') col' = get_column (df st) col'"
  by (auto simp: handle_missing_values_def get_drop_column_other get_set_column_other
           split: sum.splits if_splits column.splits option.splits)

lemma handle_missing_values_wf:
  assumes "wf_frame (df st)" "handle_missing_values col st = Inr (b, st')"
  shows "wf_frame (df st')"
proof -
  obtain c where c: "get_column (df st) col = Inr c"
    using assms(2) by (cases "get_column (df st) col") (auto simp: handle_missing_values_def)
  then have len: "col_length c = nrows (df st)"
    using assms(1) wf_frame_col_length by blast
  show ?thesis
    using assms c len
    by (auto simp: handle_missing_values_def wf_set_column intro: wf_drop_column
             split: sum.splits if_splits column.splits option.splits)
qed

subsection \<open>Type conversion and central tendency\<close>

lemma to_numeric_shape:
  "to_numeric parse xs = Some ys \<Longrightarrow> map (\<lambda>c. c = None) ys = map (\<lambda>c. c = None) xs"
proof (induction xs arbitrary: ys)
  case (Cons c cs)
  then show ?case
    by (cases c) (auto split: option.splits)
qed simp

lemma to_numeric_length: "to_numeric parse xs = Some ys \<Longrightarrow> length ys = length xs"
  using to_numeric_shape [of parse xs ys] map_eq_imp_length_eq by blast

lemma count_missing_map_None: "count_missing xs = length (filter id (map (\<lambda>c. c = None) xs))"
  by (induction xs) auto

lemma to_numeric_missing: "to_numeric parse xs = Some ys \<Longrightarrow> count_missing ys = count_missing xs"
  using to_numeric_shape [of parse xs ys] by (simp add: count_missing_map_None)

lemma check_data_types_step:
  assumes "wf_frame (df st)" "get_column (df st) col = Inr c"
  shows "\<exists>st2 c2. check_data_types parse col st = Inr st2 \<and> get_column (df st2) col = Inr c2
           \<and> col_length c2 = col_length c \<and> col_missing c2 = col_missing c
           \<and> wf_frame (df st2) \<and> nrows (df st2) = nrows (df st) \<and> plots st2 = plots st
           \<and> (\<forall>col'. col' \<noteq> col \<longrightarrow> get_column (df st2) col' = get_column (df st) col')"
proof (cases c)
  case (NumCol xs)
  with assms show ?thesis
    by (auto simp: check_data_types_def)
next
  case (ObjCol xs)
  have len: "col_length c = nrows (df st)"
    using assms wf_frame_col_length by blast
  show ?thesis
  proof (cases "to_numeric parse xs")
    case None
    with assms ObjCol show ?thesis
      by (auto simp: check_data_types_def)
  next
    case (Some ys)
    with assms ObjCol len show ?thesis
      by (auto simp: check_data_types_def get_set_column_same get_set_column_other
               to_numeric_length to_numeric_missing wf_set_column)
  qed
qed

lemma dropna_nonempty_full: "count_missing xs = 0 \<Longrightarrow> 0 < length xs \<Longrightarrow> dropna xs \<noteq> []"
  using length_dropna [of xs] by auto

lemma plot_boxplot_NumCol [simp]:
  "plot_boxplot x y (NumCol xs) = (if dropna xs = [] then Inl ValueError else Inr (BoxPlot x y))"
  by (simp add: plot_boxplot_def dropna_map_option)

lemma central_of_df: "central_of col c st = Inr (r, st') \<Longrightarrow> df st' = df st"
  by (auto simp: central_of_def split: column.splits if_splits option.splits)

lemma central_of_ok:
  assumes "col_missing c = 0" "0 < col_length c"
  shows "\<exists>r st'. central_of col c st = Inr (r, st')"
proof (cases c)
  case (NumCol ys)
  with assms have "dropna ys \<noteq> []"
    by (simp add: dropna_nonempty_full)
  with NumCol show ?thesis
    by (simp add: central_of_def)
next
  case (ObjCol ys)
  with assms have "dropna ys \<noteq> []"
    by (simp add: dropna_nonempty_full)
  then obtain m where "mode_first (dropna ys) = Some m"
    using mode_first_exists by blast
  with ObjCol show ?thesis
    by (simp add: central_of_def)
qed

subsection \<open>One column, then the loop\<close>

lemma handle_missing_values_keep:
  assumes "get_column (df st) col = Inr c" "0 < col_length c" "\<not> col_length c < 2 * col_missing c"
  shows "\<exists>st1 c1. handle_missing_values col st = Inr (True, st1) \<and> get_column (df st1) col = Inr c1
           \<and> col_missing c1 = 0 \<and> col_length c1 = col_length c
           \<and> is_numeric_dtype c1 = is_numeric_dtype c"
proof (cases c)
  case (NumCol xs)
  then obtain v where "fill_median xs = fillna v xs"
    using assms fill_median_eq [of xs] by auto
  with assms NumCol show ?thesis
    by (simp add: handle_missing_values_numeric get_set_column_same count_missing_zero_iff)
next
  case (ObjCol xs)
  with assms obtain m where
    "handle_missing_values col st = Inr (True, st\<lparr>df := set_column col (ObjCol (fillna m xs)) (df st)\<rparr>)"
    using handle_missing_values_object_filled [of st col xs] by auto
  with ObjCol show ?thesis
    by (simp add: get_set_column_same count_missing_zero_iff)
qed

lemma drop_leaves_no_column:
  "col \<notin> set (column_names (d\<lparr>columns := filter (\<lambda>p. fst p \<noteq> col) (columns d)\<rparr>))"
  by (auto simp: column_names_def)

lemma classify_and_calculate_step:
  assumes wf: "wf_frame (df st)" and rows: "0 < nrows (df st)" and c: "get_column (df st) col = Inr c"
  shows "\<exists>r st1. classify_and_calculate parse col st = Inr (r, st1) \<and> wf_frame (df st1)
           \<and> nrows (df st1) = nrows (df st)
           \<and> (\<forall>col'. col' \<noteq> col \<longrightarrow> get_column (df st1) col' = get_column (df st) col')
           \<and> column_cleaned (df st) (df st1) col"
proof (cases "col_length c < 2 * col_missing c")
  case True
  let ?st1 = "st\<lparr>df := df st\<lparr>columns := filter (\<lambda>p. fst p \<noteq> col) (columns (df st))\<rparr>\<rparr>"
  have h: "handle_missing_values col st = Inr (False, ?st1)"
    using c True by (rule handle_missing_values_drop)
  then show ?thesis
    using wf c True handle_missing_values_wf [OF wf h] handle_missing_values_nrows [OF h]
      handle_missing_values_other [OF h]
    by (auto simp: classify_and_calculate_def column_cleaned_def drop_leaves_no_column)
next
  case False
  have len: "col_length c = nrows (df st)"
    using wf c wf_frame_col_length by blast
  obtain st1 c1 where h: "handle_missing_values col st = Inr (True, st1)"
      and c1: "get_column (df st1) col = Inr c1" "col_missing c1 = 0" "col_length c1 = col_length c"
    using handle_missing_values_keep [OF c] False rows len by auto
  have wf1: "wf_frame (df st1)"
    using wf h by (rule handle_missing_values_wf)
  obtain st2 c2 where chk: "check_data_types parse col st1 = Inr st2" "get_column (df st2) col = Inr c2"
      "col_length c2 = col_length c1" "col_missing c2 = col_missing c1" "wf_frame (df st2)"
      "nrows (df st2) = nrows (df st1)"
      "\<forall>col'. col' \<noteq> col \<longrightarrow> get_column (df st2) col' = get_column (df st1) col'"
    using check_data_types_step [OF wf1 c1(1)] by blast
  obtain r st3 where ctr: "central_of col c2 st2 = Inr (r, st3)"
    using central_of_ok [of c2 col st2] chk(3,4) c1(2,3) len rows by auto
  have "df st3 = df st2"
    using ctr by (rule central_of_df)
  then show ?thesis
    using h chk ctr c1 c False handle_missing_values_nrows [OF h] handle_missing_values_other [OF h]
    by (auto simp: classify_and_calculate_def column_cleaned_def)
qed

lemma column_names_iff: "col \<in> set (column_names d) \<longleftrightarrow> (\<exists>c. get_column d col = Inr c)"
proof
  assume "col \<in> set (column_names d)"
  then have "map_of (columns d) col \<noteq> None"
    by (simp add: column_names_def map_of_eq_None_iff)
  then show "\<exists>c. get_column d col = Inr c"
    by (auto simp: get_column_Inr_iff)
qed (auto dest: get_column_present)

lemma column_cleaned_transfer:
  "column_cleaned d d1 col \<Longrightarrow> get_column d' col = get_column d1 col \<Longrightarrow> column_cleaned d d' col"
  by (auto simp: column_cleaned_def column_names_iff split: sum.splits if_splits)

lemma column_cleaned_base:
  "column_cleaned d1 d' col \<Longrightarrow> get_column d1 col = get_column d col \<Longrightarrow> nrows d1 = nrows d \<Longrightarrow>
   column_cleaned d d' col"
  by (simp add: column_cleaned_def)

lemma classify_all_outcome:
  assumes "wf_frame (df st)" "0 < nrows (df st)" "distinct cols" "set cols \<subseteq> set (column_names (df st))"
  shows "\<exists>st'. classify_all parse cols st = Inr st' \<and> wf_frame (df st') \<and> nrows (df st') = nrows (df st)
           \<and> (\<forall>col \<in> set cols. column_cleaned (df st) (df st') col)
           \<and> (\<forall>col. col \<notin> set cols \<longrightarrow> get_column (df st') col = get_column (df st) col)"
  using assms
proof (induction cols arbitrary: st)
  case Nil
  then show ?case by simp
next
  case (Cons col cols)
  obtain c where c: "get_column (df st) col = Inr c"
    using Cons.prems(4) column_names_iff by auto
  obtain r st1 where s1: "classify_and_calculate parse col st = Inr (r, st1)" "wf_frame (df st1)"
      "nrows (df st1) = nrows (df st)"
      "\<forall>col'. col' \<noteq> col \<longrightarrow> get_column (df st1) col' = get_column (df st) col'"
      "column_cleaned (df st) (df st1) col"
    using classify_and_calculate_step [OF Cons.prems(1,2) c] by blast
  have sub: "set cols \<subseteq> set (column_names (df st1))"
  proof
    fix x assume "x \<in> set cols"
    with Cons.prems(3,4) have "x \<noteq> col" "x \<in> set (column_names (df st))"
      by auto
    with s1(4) show "x \<in> set (column_names (df st1))"
      by (simp add: column_names_iff)
  qed
  obtain st' where IH: "classify_all parse cols st1 = Inr st'" "wf_frame (df st')"
      "nrows (df st') = nrows (df st1)"
      "\<forall>col \<in> set cols. column_cleaned (df st1) (df st') col"
      "\<forall>col. col \<notin> set cols \<longrightarrow> get_column (df st') col = get_column (df st1) col"
    using Cons.IH [OF s1(2)] s1(3) Cons.prems(2,3) sub by auto
  have "column_cleaned (df st) (df st') col"
    using s1(5) IH(5) Cons.prems(3) by (auto intro: column_cleaned_transfer)
  moreover have "column_cleaned (df st) (df st') col'" if "col' \<in> set cols" for col'
    using IH(4) that s1(3,4) Cons.prems(3) by (auto intro: column_cleaned_base)
  ultimately show ?case
    using s1 IH by auto
qed

lemma update_same_value: "map_of ps k = Some v \<Longrightarrow> AList.update k v ps = ps"
  by (induction ps) auto

lemma set_column_same: "get_column d col = Inr c \<Longrightarrow> set_column col c d = d"
  by (simp add: set_column_def get_column_Inr_iff update_same_value)

lemma fillna_complete: "None \<notin> set xs \<Longrightarrow> fillna v xs = xs"
  unfolding fillna_def
proof (rule map_idI)
  fix x assume "None \<notin> set xs" "x \<in> set xs"
  then obtain y where "x = Some y" by (cases x) auto
  then show "(case x of None \<Rightarrow> Some v | Some x \<Rightarrow> Some x) = x" by simp
qed

lemma fill_median_complete: "None \<notin> set xs \<Longrightarrow> fill_median xs = xs"
  by (simp add: fill_median_def fillna_complete split: option.splits)

lemma count_missing_complete: "None \<notin> set xs \<Longrightarrow> count_missing xs = 0"
  by (simp add: count_missing_zero_iff)

subsection \<open>Properties of the inspection component\<close>

text \<open>
  C1.  The missing-value policy: a column with more than half of its cells missing
  is dropped and \<open>handle_missing_values\<close> returns False; otherwise it returns True and
  the column is still there, as long as before, with no missing cell.
\<close>

theorem handle_missing_values_policy:
  assumes "get_column (df st) col = Inr c" "0 < col_length c"
  shows "(col_length c < 2 * col_missing c \<longrightarrow>
            (\<exists>st'. handle_missing_values col st = Inr (False, st')
                  \<and> col \<notin> set (column_names (df st'))))
       \<and> (\<not> col_length c < 2 * col_missing c \<longrightarrow>
            (\<exists>st' c'. handle_missing_values col st = Inr (True, st')
                  \<and> get_column (df st') col = Inr c' \<and> col_missing c' = 0
                  \<and> col_length c' = col_length c))"
proof (intro conjI impI)
  assume "col_length c < 2 * col_missing c"
  then have "handle_missing_values col st =
      Inr (False, st\<lparr>df := df st\<lparr>columns := filter (\<lambda>p. fst p \<noteq> col) (columns (df st))\<rparr>\<rparr>)"
    using handle_missing_values_drop [OF assms(1)] by blast
  then show "\<exists>st'. handle_missing_values col st = Inr (False, st') \<and> col \<notin> set (column_names (df st'))"
    by (simp add: drop_leaves_no_column)
next
  assume "\<not> col_length c < 2 * col_missing c"
  then show "\<exists>st' c'. handle_missing_values col st = Inr (True, st') \<and> get_column (df st') col = Inr c'
               \<and> col_missing c' = 0 \<and> col_length c' = col_length c"
    using handle_missing_values_keep [OF assms] by blast
qed

theorem handle_missing_values_policy_witness:
  "get_column (df \<lparr>df = \<lparr>columns = [(''age'', NumCol [Some 22, None, Some 25])], nrows = 3\<rparr>, plots = []\<rparr>) ''age''
     = Inr (NumCol [Some 22, None, Some 25])
   \<and> 0 < col_length (NumCol [Some 22, None, Some 25])
   \<and> (\<exists>st' c'. handle_missing_values ''age''
           \<lparr>df = \<lparr>columns = [(''age'', NumCol [Some 22, None, Some 25])], nrows = 3\<rparr>, plots = []\<rparr>
         = Inr (True, st') \<and> get_column (df st') ''age'' = Inr c' \<and> col_missing c' = 0
         \<and> col_length c' = col_length (NumCol [Some 22, None, Some 25]))"
proof -
  let ?st = "\<lparr>df = \<lparr>columns = [(''age'', NumCol [Some 22, None, Some (25::real)])], nrows = 3\<rparr>, plots = []\<rparr>"
  have g: "get_column (df ?st) ''age'' = Inr (NumCol [Some 22, None, Some 25])"
    by (simp add: get_column_def)
  have l: "0 < col_length (NumCol [Some 22, None, Some 25])"
    by simp
  show ?thesis
    using handle_missing_values_policy [OF g l] g by simp
qed

text \<open>
  C2.  A numeric column that is kept is filled with the exact median of its present
  values: \<open>median\<close> of the present values is some \<open>v\<close>, every missing cell becomes
  \<open>v\<close>, and at least half of the present values lie on each side of \<open>v\<close>.
\<close>

theorem handle_missing_values_median:
  assumes "get_column (df st) col = Inr (NumCol xs)" "0 < length xs"
    "\<not> length xs < 2 * count_missing xs"
  shows "\<exists>v. handle_missing_values col st
               = Inr (True, st\<lparr>df := set_column col (NumCol (fillna v xs)) (df st)\<rparr>)
           \<and> median (dropna xs) = Some v
           \<and> length (dropna xs) \<le> 2 * length (filter (\<lambda>x. x \<le> v) (dropna xs))
           \<and> length (dropna xs) \<le> 2 * length (filter (\<lambda>x. v \<le> x) (dropna xs))"
proof -
  obtain v where v: "median (dropna xs) = Some v" "fill_median xs = fillna v xs"
    using fill_median_eq [OF assms(2,3)] by blast
  then show ?thesis
    using handle_missing_values_numeric [OF assms(1,3)] median_halves [OF v(1)] by auto
qed

theorem handle_missing_values_median_witness:
  "handle_missing_values ''age''
     \<lparr>df = \<lparr>columns = [(''age'', NumCol [Some 22, None, Some 95000, Some 25])], nrows = 4\<rparr>, plots = []\<rparr>
   = Inr (True, \<lparr>df = set_column ''age'' (NumCol [Some 22, Some 25, Some 95000, Some 25])
           \<lparr>columns = [(''age'', NumCol [Some 22, None, Some 95000, Some 25])], nrows = 4\<rparr>, plots = []\<rparr>)"
proof -
  let ?xs = "[Some 22, None, Some 95000, Some (25::real)]"
  let ?st = "\<lparr>df = \<lparr>columns = [(''age'', NumCol ?xs)], nrows = 4\<rparr>, plots = []\<rparr>"
  have g: "get_column (df ?st) ''age'' = Inr (NumCol ?xs)"
    by (simp add: get_column_def)
  have l: "0 < length ?xs" and h: "\<not> length ?xs < 2 * count_missing ?xs"
    by simp_all
  obtain v where v: "handle_missing_values ''age'' ?st
        = Inr (True, ?st\<lparr>df := set_column ''age'' (NumCol (fillna v ?xs)) (df ?st)\<rparr>)"
      "median (dropna ?xs) = Some v"
    using handle_missing_values_median [OF g l h] by blast
  have "median (dropna ?xs) = Some 25"
    by (simp add: median_def)
  with v show ?thesis
    by (simp add: fillna_def)
qed

text \<open>
  C3.  A text column that is kept is filled with the first mode of its present values:
  a present value that occurs at least as often as any other and is the least of those
  that occur as often (\<open>Series.mode()\<close> sorts its result, the code takes \<open>[0]\<close>).
\<close>

theorem handle_missing_values_mode:
  assumes "get_column (df st) col = Inr (ObjCol xs)" "0 < length xs"
    "\<not> length xs < 2 * count_missing xs"
  shows "\<exists>m. handle_missing_values col st
               = Inr (True, st\<lparr>df := set_column col (ObjCol (fillna m xs)) (df st)\<rparr>)
           \<and> m \<in> set (dropna xs)
           \<and> (\<forall>y \<in> set (dropna xs). count_list (dropna xs) y \<le> count_list (dropna xs) m)
           \<and> (\<forall>y \<in> set (dropna xs). count_list (dropna xs) y = count_list (dropna xs) m \<longrightarrow> m \<le> y)"
proof -
  obtain m where m: "mode_first (dropna xs) = Some m"
    "handle_missing_values col st = Inr (True, st\<lparr>df := set_column col (ObjCol (fillna m xs)) (df st)\<rparr>)"
    using handle_missing_values_object_filled [OF assms] by blast
  show ?thesis
    using m(2) mode_first_Some [OF m(1)] by blast
qed

theorem handle_missing_values_mode_witness:
  "handle_missing_values ''city''
     \<lparr>df = \<lparr>columns = [(''city'', ObjCol [Some ''Oslo'', None, Some ''Bergen'', Some ''Oslo''])],
           nrows = 4\<rparr>, plots = []\<rparr>
   = Inr (True, \<lparr>df = set_column ''city'' (ObjCol [Some ''Oslo'', Some ''Oslo'', Some ''Bergen'', Some ''Oslo''])
           \<lparr>columns = [(''city'', ObjCol [Some ''Oslo'', None, Some ''Bergen'', Some ''Oslo''])], nrows = 4\<rparr>,
           plots = []\<rparr>)"
proof -
  let ?xs = "[Some ''Oslo'', None, Some ''Bergen'', Some ''Oslo'']"
  let ?st = "\<lparr>df = \<lparr>columns = [(''city'', ObjCol ?xs)], nrows = 4\<rparr>, plots = []\<rparr>"
  have g: "get_column (df ?st) ''city'' = Inr (ObjCol ?xs)"
    by (simp add: get_column_def)
  have l: "0 < length ?xs" and h: "\<not> length ?xs < 2 * count_missing ?xs"
    by simp_all
  obtain m where m: "handle_missing_values ''city'' ?st
        = Inr (True, ?st\<lparr>df := set_column ''city'' (ObjCol (fillna m ?xs)) (df ?st)\<rparr>)"
      "m \<in> set (dropna ?xs)"
      "\<forall>y \<in> set (dropna ?xs). count_list (dropna ?xs) y \<le> count_list (dropna ?xs) m"
    using handle_missing_values_mode [OF g l h] by blast
  from m(2,3) have "m = ''Oslo''"
    by auto
  with m(1) show ?thesis
    by (simp add: fillna_def)
qed

lemma wf_get_column_iff:
  "wf_frame d \<Longrightarrow> get_column d col = Inr c \<longleftrightarrow> (col, c) \<in> set (columns d)"
  by (auto simp: wf_frame_def column_names_def get_column_Inr_iff dest: map_of_SomeD
           intro: map_of_is_SomeI)

lemma classify_and_calculate_empty_numeric:
  assumes "get_column (df st) col = Inr (NumCol [])"
  shows "classify_and_calculate parse col st = Inl ValueError"
proof -
  have "handle_missing_values col st = Inr (True, st)"
    using handle_missing_values_numeric [OF assms] set_column_same [OF assms]
    by (simp add: fill_median_def median_def)
  then show ?thesis
    using assms by (simp add: classify_and_calculate_def check_data_types_def central_of_def
                     nunique_def n_distinct_def)
qed

lemma classify_and_calculate_empty_object:
  "get_column (df st) col = Inr (ObjCol []) \<Longrightarrow> classify_and_calculate parse col st = Inl KeyError"
  by (simp add: classify_and_calculate_def handle_missing_values_object mode_first_def modes_def)

text \<open>
  C31.  On a well-formed frame with at least one row, \<open>classify_columns\<close> never
  raises; the frame it leaves is well formed; an original column is still there exactly
  when at most half of it was missing; and no remaining column has a missing cell.
\<close>

theorem classify_columns_outcome:
  assumes wf: "wf_frame (df st)" and rows: "0 < nrows (df st)"
  shows "\<exists>st'. classify_columns parse st = Inr st' \<and> wf_frame (df st')
           \<and> (\<forall>col c. get_column (df st) col = Inr c \<longrightarrow>
                 (col \<in> set (column_names (df st')) \<longleftrightarrow> \<not> nrows (df st) < 2 * col_missing c))
           \<and> (\<forall>col \<in> set (column_names (df st')). \<exists>c'. get_column (df st') col = Inr c' \<and> col_missing c' = 0)"
proof -
  have dist: "distinct (column_names (df st))"
    using wf by (simp add: wf_frame_def)
  obtain st' where st': "classify_all parse (column_names (df st)) st = Inr st'" "wf_frame (df st')"
      "\<forall>col \<in> set (column_names (df st)). column_cleaned (df st) (df st') col"
      "\<forall>col. col \<notin> set (column_names (df st)) \<longrightarrow> get_column (df st') col = get_column (df st) col"
    using classify_all_outcome [OF wf rows dist] by blast
  have kept: "col \<in> set (column_names (df st')) \<longleftrightarrow> \<not> nrows (df st) < 2 * col_missing c"
    if c: "get_column (df st) col = Inr c" for col c
  proof -
    have "col \<in> set (column_names (df st))" and len: "col_length c = nrows (df st)"
      using c wf get_column_present wf_frame_col_length by blast+
    then have "column_cleaned (df st) (df st') col"
      using st'(3) by blast
    then show ?thesis
      using c len by (auto simp: column_cleaned_def column_names_iff split: if_splits)
  qed
  have complete: "\<exists>c'. get_column (df st') col = Inr c' \<and> col_missing c' = 0"
    if col: "col \<in> set (column_names (df st'))" for col
  proof -
    have old: "col \<in> set (column_names (df st))"
      using col st'(4) column_names_iff by metis
    then obtain c where c: "get_column (df st) col = Inr c"
      using column_names_iff by blast
    have "column_cleaned (df st) (df st') col"
      using old st'(3) by blast
    then show ?thesis
      using c col by (auto simp: column_cleaned_def split: if_splits)
  qed
  show ?thesis
    using st'(1,2) kept complete by (auto simp: classify_columns_def)
qed

theorem classify_columns_outcome_witness:
  "\<exists>st'. classify_columns (\<lambda>s. None)
        \<lparr>df = \<lparr>columns = [(''age'', NumCol [Some 22, None, Some 25]), (''note'', ObjCol [None, None, Some ''x''])],
              nrows = 3\<rparr>, plots = []\<rparr> = Inr st'
     \<and> ''age'' \<in> set (column_names (df st')) \<and> ''note'' \<notin> set (column_names (df st'))"
proof -
  let ?st = "\<lparr>df = \<lparr>columns = [(''age'', NumCol [Some 22, None, Some (25::real)]),
                             (''note'', ObjCol [None, None, Some ''x''])], nrows = 3\<rparr>, plots = []\<rparr>"
  have wf: "wf_frame (df ?st)"
    by (simp add: wf_frame_def column_names_def)
  have rows: "0 < nrows (df ?st)"
    by simp
  obtain st' where st': "classify_columns (\<lambda>s. None) ?st = Inr st'"
      "\<forall>col c. get_column (df ?st) col = Inr c \<longrightarrow>
          (col \<in> set (column_names (df st')) \<longleftrightarrow> \<not> nrows (df ?st) < 2 * col_missing c)"
    using classify_columns_outcome [OF wf rows] by blast
  have "''age'' \<in> set (column_names (df st'))" "''note'' \<notin> set (column_names (df st'))"
    using st'(2) by (simp_all add: get_column_def)
  with st'(1) show ?thesis by blast
qed

text \<open>
  C32.  On a complete numeric column, \<open>classify_and_calculate\<close> changes no data and
  takes the branch the code's threshold selects: more than 10 distinct values gives the
  mean and a histogram, otherwise the median and a box plot; on an empty column the
  grouped box plot has no group and raises \<open>ValueError\<close>.
\<close>

theorem classify_and_calculate_numeric:
  assumes "get_column (df st) col = Inr (NumCol xs)" "None \<notin> set xs"
  shows "classify_and_calculate parse col st =
           (if xs = [] then Inl ValueError
            else Inr (Some (if 10 < nunique (NumCol xs) then CMean (mean (dropna xs))
                            else CMedian (median (dropna xs))),
                      st\<lparr>plots := plots st @ [if 10 < nunique (NumCol xs) then Histogram col else BoxPlot col col]\<rparr>))"
proof -
  have "\<not> length xs < 2 * count_missing xs"
    using assms(2) by (simp add: count_missing_complete)
  then have h: "handle_missing_values col st = Inr (True, st)"
    using handle_missing_values_numeric [OF assms(1)] set_column_same [OF assms(1)]
    by (simp add: fill_median_complete [OF assms(2)])
  have "dropna xs = [] \<longleftrightarrow> xs = []"
    using dropna_nonempty_full [of xs] count_missing_complete [OF assms(2)] by auto
  with h show ?thesis
    using assms(1) by (simp add: classify_and_calculate_def check_data_types_def central_of_def
                       nunique_def n_distinct_def)
qed

theorem classify_and_calculate_numeric_witness:
  "classify_and_calculate (\<lambda>s. None) ''age''
     \<lparr>df = \<lparr>columns = [(''age'', NumCol [Some 22, Some 95000, Some 25])], nrows = 3\<rparr>, plots = []\<rparr>
   = Inr (Some (CMedian (Some 25)),
          \<lparr>df = \<lparr>columns = [(''age'', NumCol [Some 22, Some 95000, Some 25])], nrows = 3\<rparr>,
           plots = [BoxPlot ''age'' ''age'']\<rparr>)"
proof -
  let ?xs = "[Some 22, Some 95000, Some (25::real)]"
  let ?st = "\<lparr>df = \<lparr>columns = [(''age'', NumCol ?xs)], nrows = 3\<rparr>, plots = []\<rparr>"
  have g: "get_column (df ?st) ''age'' = Inr (NumCol ?xs)"
    by (simp add: get_column_def)
  have c: "None \<notin> set ?xs"
    by simp
  have "nunique (NumCol ?xs) = 3" "median (dropna ?xs) = Some 25"
    by (simp_all add: nunique_def n_distinct_def median_def)
  then show ?thesis
    using classify_and_calculate_numeric [OF g c, of "\<lambda>s. None"] by simp
qed

text \<open>
  C33.  On a frame with no rows (an empty CSV file), \<open>classify_columns\<close> raises as
  soon as it has a column, at the first one: \<open>ValueError\<close> from the grouped box plot
  of a numeric column (no group to draw), \<open>KeyError\<close> from \<open>mode()[0]\<close> of a text
  column; a frame without columns passes unchanged.
\<close>

theorem classify_columns_empty_frame:
  assumes wf: "wf_frame (df st)" and rows: "nrows (df st) = 0"
  shows "classify_columns parse st =
           (case columns (df st) of
              [] \<Rightarrow> Inr st
            | (col, c) # _ \<Rightarrow> Inl (if is_numeric_dtype c then ValueError else KeyError))"
proof (cases "columns (df st)")
  case Nil
  then show ?thesis
    by (simp add: classify_columns_def column_names_def)
next
  case (Cons p cs)
  obtain col c where p: "p = (col, c)"
    by fastforce
  have g: "get_column (df st) col = Inr c"
    using wf Cons p by (simp add: wf_get_column_iff)
  then have "col_length c = 0"
    using wf rows wf_frame_col_length by metis
  with g show ?thesis
    by (cases c) (simp_all add: classify_columns_def column_names_def Cons p
                    classify_and_calculate_empty_numeric classify_and_calculate_empty_object)
qed

theorem classify_columns_empty_frame_witness:
  "classify_columns (\<lambda>s. None)
     \<lparr>df = \<lparr>columns = [(''age'', NumCol []), (''city'', ObjCol [])], nrows = 0\<rparr>, plots = []\<rparr>
   = Inl ValueError
   \<and> classify_columns (\<lambda>s. None)
     \<lparr>df = \<lparr>columns = [(''city'', ObjCol []), (''age'', NumCol [])], nrows = 0\<rparr>, plots = []\<rparr>
   = Inl KeyError"
proof -
  let ?st1 = "\<lparr>df = \<lparr>columns = [(''age'', NumCol []), (''city'', ObjCol [])], nrows = 0\<rparr>, plots = []\<rparr>"
  let ?st2 = "\<lparr>df = \<lparr>columns = [(''city'', ObjCol []), (''age'', NumCol [])], nrows = 0\<rparr>, plots = []\<rparr>"
  have wf: "wf_frame (df ?st1)" "wf_frame (df ?st2)" and rows: "nrows (df ?st1) = 0" "nrows (df ?st2) = 0"
    by (simp_all add: wf_frame_def column_names_def)
  show ?thesis
    using classify_columns_empty_frame [OF wf(1) rows(1), of "\<lambda>s. None"]
          classify_columns_empty_frame [OF wf(2) rows(2), of "\<lambda>s. None"] by simp
qed

subsection \<open>Range of the imputed values and conversion of printed numbers\<close>

lemma fill_median_bounds:
  "list_all (\<lambda>y. Min (set (dropna xs)) \<le> y \<and> y \<le> Max (set (dropna xs))) (dropna (fill_median xs))"
proof (cases "median (dropna xs)")
  case None
  then have "fill_median xs = xs" by (simp add: fill_median_def)
  moreover from None have "dropna xs = []" by (simp add: median_None_iff)
  ultimately show ?thesis by simp
next
  case (Some v)
  have v: "Min (set (dropna xs)) \<le> v \<and> v \<le> Max (set (dropna xs))"
    using Some by (rule median_bounds)
  have "y \<in> set (dropna xs) \<Longrightarrow> Min (set (dropna xs)) \<le> y \<and> y \<le> Max (set (dropna xs))" for y
    by (metis List.finite_set Max_ge Min_le)
  with v Some set_dropna_fillna [of v xs] show ?thesis
    by (auto simp: fill_median_def list_all_iff simp del: set_dropna)
qed

lemma to_numeric_printed:
  "list_all (\<lambda>x. parse (print_num x) = Some x) (dropna xs) \<Longrightarrow>
   to_numeric parse (map (map_option print_num) xs) = Some xs"
  by (induction xs) (auto split: option.splits)

text \<open>
  C16.  Median imputation stays within the data: after \<open>handle_missing_values\<close> keeps
  and fills a numeric column, the column is as long as before and every value of it lies
  between the least and the greatest value present before.
\<close>

theorem handle_missing_values_fill_bounds:
  assumes "get_column (df st) col = Inr (NumCol xs)" "handle_missing_values col st = Inr (True, st')"
  shows "\<exists>ys. get_column (df st') col = Inr (NumCol ys) \<and> length ys = length xs
           \<and> list_all (\<lambda>y. Min (set (dropna xs)) \<le> y \<and> y \<le> Max (set (dropna xs))) (dropna ys)"
proof -
  have keep: "\<not> length xs < 2 * count_missing xs"
    using handle_missing_values_drop [OF assms(1)] assms(2) by auto
  have "st' = st\<lparr>df := set_column col (NumCol (fill_median xs)) (df st)\<rparr>"
    using handle_missing_values_numeric [OF assms(1) keep] assms(2) by simp
  then show ?thesis
    using fill_median_bounds [of xs] by (simp add: get_set_column_same)
qed

theorem handle_missing_values_fill_bounds_witness:
  "get_column (df \<lparr>df = \<lparr>columns = [(''age'', NumCol [Some 22, None, Some 95000, Some 25])], nrows = 4\<rparr>,
                    plots = []\<rparr>) ''age'' = Inr (NumCol [Some 22, None, Some 95000, Some 25])
   \<and> handle_missing_values ''age''
       \<lparr>df = \<lparr>columns = [(''age'', NumCol [Some 22, None, Some 95000, Some 25])], nrows = 4\<rparr>, plots = []\<rparr>
     = Inr (True, \<lparr>df = \<lparr>columns = [(''age'', NumCol [Some 22, Some 25, Some 95000, Some 25])], nrows = 4\<rparr>,
                    plots = []\<rparr>)
   \<and> list_all (\<lambda>y. 22 \<le> y \<and> y \<le> (95000::real)) [22, 25, 95000, 25]"
proof -
  let ?st = "\<lparr>df = \<lparr>columns = [(''age'', NumCol [Some 22, None, Some 95000, Some (25::real)])], nrows = 4\<rparr>,
              plots = []\<rparr>"
  let ?st' = "\<lparr>df = \<lparr>columns = [(''age'', NumCol [Some 22, Some 25, Some 95000, Some (25::real)])], nrows = 4\<rparr>,
              plots = []\<rparr>"
  have g: "get_column (df ?st) ''age'' = Inr (NumCol [Some 22, None, Some 95000, Some 25])"
    by (simp add: get_column_def)
  have h: "handle_missing_values ''age'' ?st = Inr (True, ?st')"
    by (simp add: handle_missing_values_def get_column_def exceeds_half_def missing_percentage_def
        fill_median_def median_def set_column_def fillna_def Let_def)
  have "list_all (\<lambda>y. Min (set (dropna [Some 22, None, Some 95000, Some (25::real)])) \<le> y
           \<and> y \<le> Max (set (dropna [Some 22, None, Some 95000, Some (25::real)]))) [22, 25, 95000, 25]"
    using handle_missing_values_fill_bounds [OF g h] by (simp add: get_column_def)
  then show ?thesis
    using g h by simp
qed

text \<open>
  C18.  \<open>check_data_types\<close> undoes printing: a text column whose entries are the printed
  forms of numbers, for a printer that the parser behind \<open>pd.to_numeric\<close> inverts, is
  replaced by the numeric column of those numbers, missing cells kept in place.
\<close>

theorem check_data_types_printed:
  assumes "get_column (df st) col = Inr (ObjCol (map (map_option print_num) xs))"
    "list_all (\<lambda>x. parse (print_num x) = Some x) (dropna xs)"
  shows "check_data_types parse col st = Inr (st\<lparr>df := set_column col (NumCol xs) (df st)\<rparr>)"
  using assms by (simp add: check_data_types_def to_numeric_printed)

theorem check_data_types_printed_witness:
  "check_data_types (\<lambda>s. if s = ''1'' then Some 1 else if s = ''2.5'' then Some 2.5 else None) ''x''
     \<lparr>df = \<lparr>columns = [(''x'', ObjCol [Some ''1'', None, Some ''2.5''])], nrows = 3\<rparr>, plots = []\<rparr>
   = Inr \<lparr>df = \<lparr>columns = [(''x'', NumCol [Some 1, None, Some 2.5])], nrows = 3\<rparr>, plots = []\<rparr>"
  using check_data_types_printed
    [where st = "\<lparr>df = \<lparr>columns = [(''x'', ObjCol [Some ''1'', None, Some ''2.5''])], nrows = 3\<rparr>, plots = []\<rparr>"
      and col = "''x''" and print_num = "\<lambda>r::real. if r = 1 then ''1'' else ''2.5''"
      and xs = "[Some 1, None, Some 2.5]"
      and parse = "\<lambda>s. if s = ''1'' then Some 1 else if s = ''2.5'' then Some 2.5 else None"]
  by (simp add: get_column_def set_column_def)

subsection \<open>Plots drawn by the classification pass\<close>

lemma plot_fits_transfer:
  "plot_fits d p \<Longrightarrow> (\<forall>c \<in> set (plot_cols p). get_column d' c = get_column d c) \<Longrightarrow> plot_fits d' p"
  by (cases p) (auto simp: numeric_in_def text_in_def column_names_iff)

lemma check_data_types_other:
  "check_data_types parse col st = Inr st2 \<Longrightarrow> col' \<noteq> col \<Longrightarrow>
   get_column (df st2) col' = get_column (df st) col'"
  by (auto simp: check_data_types_def get_set_column_other
           split: sum.splits column.splits option.splits)

lemma check_data_types_plots: "check_data_types parse col st = Inr st2 \<Longrightarrow> plots st2 = plots st"
  by (auto simp: check_data_types_def split: sum.splits column.splits option.splits)

lemma central_of_plots:
  assumes "central_of col c st = Inr (r, st')" "get_column (df st) col = Inr c"
  shows "\<exists>p. plots st' = plots st @ [p] \<and> plot_fits (df st) p \<and> set (plot_cols p) \<subseteq> {col}"
  using assms
  by (auto simp: central_of_def numeric_in_def text_in_def get_column_present
           split: column.splits if_splits option.splits)

lemma classify_and_calculate_plots:
  assumes "classify_and_calculate parse col st = Inr (r, st')"
  shows "(\<forall>col'. col' \<noteq> col \<longrightarrow> get_column (df st') col' = get_column (df st) col')
         \<and> (\<exists>ps. plots st' = plots st @ ps \<and> list_all (plot_fits (df st')) ps
                 \<and> list_all (\<lambda>p. set (plot_cols p) \<subseteq> {col}) ps)"
proof -
  obtain b st1 where h: "handle_missing_values col st = Inr (b, st1)"
    using assms by (auto simp: classify_and_calculate_def split: sum.splits)
  note h1 = handle_missing_values_other [OF h] handle_missing_values_plots [OF h]
  show ?thesis
  proof (cases b)
    case False
    with assms h have "st' = st1" by (simp add: classify_and_calculate_def)
    with h1 show ?thesis by auto
  next
    case True
    with assms h obtain st2 c r' where chk: "check_data_types parse col st1 = Inr st2"
      and c: "get_column (df st2) col = Inr c" and ctr: "central_of col c st2 = Inr (r', st')"
      by (auto simp: classify_and_calculate_def split: sum.splits prod.splits)
    have df: "df st' = df st2" by (rule central_of_df [OF ctr])
    obtain p where p: "plots st' = plots st2 @ [p]" "plot_fits (df st2) p" "set (plot_cols p) \<subseteq> {col}"
      using central_of_plots [OF ctr c] by blast
    show ?thesis
      using p df h1 check_data_types_other [OF chk] check_data_types_plots [OF chk] by auto
  qed
qed

lemma classify_all_plots:
  assumes "classify_all parse cols st = Inr st'" "distinct cols"
    "list_all (plot_fits (df st)) (plots st)"
    "list_all (\<lambda>p. set (plot_cols p) \<inter> set cols = {}) (plots st)"
  shows "list_all (plot_fits (df st')) (plots st')"
  using assms
proof (induction cols arbitrary: st)
  case Nil
  then show ?case by simp
next
  case (Cons col cols)
  obtain r st1 where s1: "classify_and_calculate parse col st = Inr (r, st1)"
    and rest: "classify_all parse cols st1 = Inr st'"
    using Cons.prems(1) by (auto split: sum.splits prod.splits)
  obtain ps where ps: "plots st1 = plots st @ ps" "list_all (plot_fits (df st1)) ps"
      "list_all (\<lambda>p. set (plot_cols p) \<subseteq> {col}) ps"
    and oth: "\<forall>col'. col' \<noteq> col \<longrightarrow> get_column (df st1) col' = get_column (df st) col'"
    using classify_and_calculate_plots [OF s1] by blast
  have "plot_fits (df st1) p" if "p \<in> set (plots st)" for p
  proof (rule plot_fits_transfer)
    show "plot_fits (df st) p" using Cons.prems(3) that by (simp add: list_all_iff)
    show "\<forall>c \<in> set (plot_cols p). get_column (df st1) c = get_column (df st) c"
      using Cons.prems(4) that oth by (auto simp: list_all_iff)
  qed
  then have old: "list_all (plot_fits (df st1)) (plots st1)"
    using ps(1,2) by (auto simp: list_all_iff)
  have disj: "list_all (\<lambda>p. set (plot_cols p) \<inter> set cols = {}) (plots st1)"
    using ps(1,3) Cons.prems(2,4) by (auto simp: list_all_iff)
  show ?case
    using Cons.IH [OF rest] Cons.prems(2) old disj by simp
qed

text \<open>
  C19.  Invariant of the inspection state: every plot \<open>classify_columns\<close> draws reads
  columns that are present in the cleaned frame with the dtype the drawing call needs
  (histogram and box plot on a numeric column, bar chart on a text column); no later
  step of the pass drops or converts a column already plotted.
\<close>

theorem classify_columns_plots:
  assumes "distinct (column_names (df st))" "plots st = []" "classify_columns parse st = Inr st'"
  shows "list_all (plot_fits (df st')) (plots st')"
  using classify_all_plots [of parse "column_names (df st)" st st'] assms
  by (simp add: classify_columns_def)

theorem classify_columns_plots_witness:
  "distinct (column_names (df \<lparr>df = \<lparr>columns = [(''age'', NumCol [Some 22, None, Some 25]),
       (''city'', ObjCol [Some ''Oslo'', None, Some ''Oslo''])], nrows = 3\<rparr>, plots = []\<rparr>))
   \<and> classify_columns (\<lambda>_. None) \<lparr>df = \<lparr>columns = [(''age'', NumCol [Some 22, None, Some 25]),
       (''city'', ObjCol [Some ''Oslo'', None, Some ''Oslo''])], nrows = 3\<rparr>, plots = []\<rparr>
     = Inr \<lparr>df = \<lparr>columns = [(''age'', NumCol [Some 22, Some (47 / 2), Some 25]),
       (''city'', ObjCol [Some ''Oslo'', Some ''Oslo'', Some ''Oslo''])], nrows = 3\<rparr>,
       plots = [BoxPlot ''age'' ''age'', BarChart ''city'']\<rparr>
   \<and> list_all (plot_fits \<lparr>columns = [(''age'', NumCol [Some 22, Some (47 / 2), Some 25]),
       (''city'', ObjCol [Some ''Oslo'', Some ''Oslo'', Some ''Oslo''])], nrows = 3\<rparr>)
       [BoxPlot ''age'' ''age'', BarChart ''city'']"
proof -
  let ?st = "\<lparr>df = \<lparr>columns = [(''age'', NumCol [Some 22, None, Some (25::real)]),
       (''city'', ObjCol [Some ''Oslo'', None, Some ''Oslo''])], nrows = 3\<rparr>, plots = []\<rparr>"
  let ?st' = "\<lparr>df = \<lparr>columns = [(''age'', NumCol [Some 22, Some (47 / 2), Some (25::real)]),
       (''city'', ObjCol [Some ''Oslo'', Some ''Oslo'', Some ''Oslo''])], nrows = 3\<rparr>,
       plots = [BoxPlot ''age'' ''age'', BarChart ''city'']\<rparr>"
  have d: "distinct (column_names (df ?st))" by (simp add: column_names_def)
  have c: "classify_columns (\<lambda>_. None) ?st = Inr ?st'"
    by (simp add: classify_columns_def column_names_def classify_and_calculate_def
        handle_missing_values_def check_data_types_def central_of_def get_column_def
        exceeds_half_def missing_percentage_def fill_median_def median_def set_column_def
        fillna_def nunique_def n_distinct_card mode_first_def modes_def max_count_def Let_def)
  show ?thesis
    using classify_columns_plots [OF d _ c] d c by simp
qed

subsection \<open>The pass is column-wise\<close>

text \<open>\<open>classify_and_calculate\<close> reads and writes only its own column: two states that
  agree on it give the same outcome, the same new column and the same new plots.\<close>

lemma get_drop_column_same:
  "get_column (d\<lparr>columns := filter (\<lambda>p. fst p \<noteq> col) (columns d)\<rparr>) col = Inl KeyError"
  by (simp add: get_column_absent drop_leaves_no_column)

lemma handle_missing_values_local:
  assumes "get_column (df s1) col = get_column (df s2) col"
  shows "map_sum id (\<lambda>(b, s'). (b, get_column (df s') col)) (handle_missing_values col s1)
       = map_sum id (\<lambda>(b, s'). (b, get_column (df s') col)) (handle_missing_values col s2)"
  using assms
  by (auto simp: handle_missing_values_def drop_column_def get_set_column_same get_drop_column_same
           get_column_present split: sum.splits column.splits option.splits)

lemma check_data_types_local:
  assumes "get_column (df s1) col = get_column (df s2) col"
  shows "map_sum id (\<lambda>s'. get_column (df s') col) (check_data_types parse col s1)
       = map_sum id (\<lambda>s'. get_column (df s') col) (check_data_types parse col s2)"
  using assms
  by (auto simp: check_data_types_def get_set_column_same split: sum.splits column.splits option.splits)

lemma central_of_local:
  "map_sum id (\<lambda>(r, s'). (r, drop (length (plots s1)) (plots s'))) (central_of col c s1)
   = map_sum id (\<lambda>(r, s'). (r, drop (length (plots s2)) (plots s'))) (central_of col c s2)"
  by (auto simp: central_of_def split: column.splits option.splits)

lemma classify_and_calculate_local:
  assumes "get_column (df s1) col = get_column (df s2) col"
  shows "map_sum id (\<lambda>(r, s'). (r, get_column (df s') col, drop (length (plots s1)) (plots s')))
           (classify_and_calculate parse col s1)
       = map_sum id (\<lambda>(r, s'). (r, get_column (df s') col, drop (length (plots s2)) (plots s')))
           (classify_and_calculate parse col s2)"
proof -
  from handle_missing_values_local [OF assms]
  show ?thesis
  proof (cases rule: map_sum_eq_cases)
    case (1 e)
    then show ?thesis by (simp add: classify_and_calculate_def)
  next
    case (2 h1 h2)
    obtain b t1 where h1: "h1 = (b, t1)" by (cases h1)
    obtain b' t2 where h2: "h2 = (b', t2)" by (cases h2)
    from 2 h1 h2 have hm: "handle_missing_values col s1 = Inr (b, t1)"
      "handle_missing_values col s2 = Inr (b, t2)" "get_column (df t1) col = get_column (df t2) col"
      by auto
    have pl: "plots t1 = plots s1" "plots t2 = plots s2"
      using hm(1,2) by (simp_all add: handle_missing_values_plots)
    show ?thesis
    proof (cases b)
      case False
      with hm pl show ?thesis by (simp add: classify_and_calculate_def)
    next
      case True
      from check_data_types_local [OF hm(3), of parse]
      show ?thesis
      proof (cases rule: map_sum_eq_cases)
        case (1 e)
        with hm True show ?thesis by (simp add: classify_and_calculate_def)
      next
        case (2 u1 u2)
        have pu: "plots u1 = plots s1" "plots u2 = plots s2"
          using 2 pl check_data_types_plots by metis+
        show ?thesis
        proof (cases "get_column (df u1) col")
          case (Inl e)
          with 2 have "get_column (df u2) col = Inl e" by simp
          with Inl 2 hm True show ?thesis by (simp add: classify_and_calculate_def)
        next
          case (Inr c)
          with 2 have c2: "get_column (df u2) col = Inr c" by simp
          from central_of_local [of u1 col c u2]
          show ?thesis
          proof (cases rule: map_sum_eq_cases)
            case (1 e)
            with 2 hm True Inr c2 show ?thesis by (simp add: classify_and_calculate_def)
          next
            case (2 w1 w2)
            obtain r1 v1 where w1: "w1 = (r1, v1)" by (cases w1)
            obtain r2 v2 where w2: "w2 = (r2, v2)" by (cases w2)
            have dv: "df v1 = df u1" "df v2 = df u2"
              using 2 w1 w2 central_of_df by metis+
            from 2 w1 w2 dv pu \<open>check_data_types parse col t1 = Inr u1\<close>
              \<open>check_data_types parse col t2 = Inr u2\<close> hm True Inr c2
            show ?thesis by (simp add: classify_and_calculate_def)
          qed
        qed
      qed
    qed
  qed
qed

lemma classify_all_frame:
  assumes "classify_all parse cols st = Inr st'"
  shows "(\<forall>col. col \<notin> set cols \<longrightarrow> get_column (df st') col = get_column (df st) col)
         \<and> (\<exists>qs. plots st' = plots st @ qs)"
  using assms
proof (induction cols arbitrary: st)
  case (Cons col cols)
  obtain r st1 where s1: "classify_and_calculate parse col st = Inr (r, st1)"
    and rest: "classify_all parse cols st1 = Inr st'"
    using Cons.prems by (auto split: sum.splits prod.splits)
  from Cons.IH [OF rest] classify_and_calculate_plots [OF s1]
  show ?case by auto
qed simp

lemma classify_all_columnwise:
  assumes "distinct (map fst cs)" "list_all (\<lambda>(n, c). get_column (df st) n = Inr c) cs"
  shows "map_sum id (\<lambda>st'. (map (get_column (df st')) (map fst cs), drop (length (plots st)) (plots st')))
           (classify_all parse (map fst cs) st) = columnwise parse cs"
  using assms
proof (induction cs arbitrary: st)
  case Nil
  then show ?case by simp
next
  case (Cons p cs)
  obtain n c where p: "p = (n, c)" by (cases p)
  let ?s0 = "\<lparr>df = \<lparr>columns = [(n, c)], nrows = col_length c\<rparr>, plots = []\<rparr>"
  have same: "get_column (df st) n = get_column (df ?s0) n"
    using Cons.prems(2) p by (simp add: get_column_def)
  from classify_and_calculate_local [OF same, of parse]
  show ?case
  proof (cases rule: map_sum_eq_cases)
    case (1 e)
    then show ?thesis using p by (simp add: column_pass_def)
  next
    case (2 a1 a0)
    obtain r st1 where a1: "a1 = (r, st1)" by (cases a1)
    obtain r0 s1 where a0: "a0 = (r0, s1)" by (cases a0)
    have cc: "classify_and_calculate parse n st = Inr (r, st1)"
      and cp: "column_pass parse n c = Inr (get_column (df st1) n, drop (length (plots st)) (plots st1))"
      using 2 a1 a0 by (auto simp: column_pass_def)
    obtain ps where ps: "plots st1 = plots st @ ps"
      and oth: "\<forall>col'. col' \<noteq> n \<longrightarrow> get_column (df st1) col' = get_column (df st) col'"
      using classify_and_calculate_plots [OF cc] by blast
    have n: "n \<notin> set (map fst cs)" "distinct (map fst cs)"
      using Cons.prems(1) p by auto
    have inv: "list_all (\<lambda>(n, c). get_column (df st1) n = Inr c) cs"
      unfolding list_all_iff
    proof (intro ballI, clarify)
      fix a b assume ab: "(a, b) \<in> set cs"
      then have "a \<noteq> n" using n(1) by force
      with oth have "get_column (df st1) a = get_column (df st) a" by blast
      with Cons.prems(2) ab show "get_column (df st1) a = Inr b" by (auto simp: list_all_iff)
    qed
    have IH: "map_sum id (\<lambda>st'. (map (get_column (df st')) (map fst cs), drop (length (plots st1)) (plots st')))
           (classify_all parse (map fst cs) st1) = columnwise parse cs"
      by (rule Cons.IH [OF n(2) inv])
    show ?thesis
    proof (cases "classify_all parse (map fst cs) st1")
      case (Inl e)
      with IH cc cp p show ?thesis by (auto split: sum.splits)
    next
      case (Inr st')
      from classify_all_frame [OF Inr] n(1) obtain qs
        where "get_column (df st') n = get_column (df st1) n" "plots st' = plots st1 @ qs"
        by auto
      with Inr IH cc cp p ps show ?thesis by (auto split: sum.splits)
    qed
  qed
qed

text \<open>
  C11.  \<open>classify_columns\<close> is equivalent to cleaning every column on its own: it fails
  exactly when the pass on some column alone fails (the first such column in order),
  and otherwise every column of the result, and the list of plots drawn, are those of
  the single-column passes in column order; no step reads or changes another column.
\<close>

theorem classify_columns_columnwise:
  assumes "distinct (column_names (df st))"
  shows "map_sum id (\<lambda>st'. (map (get_column (df st')) (column_names (df st)), drop (length (plots st)) (plots st')))
           (classify_columns parse st) = columnwise parse (columns (df st))"
proof -
  have "list_all (\<lambda>(n, c). get_column (df st) n = Inr c) (columns (df st))"
    using assms by (auto simp: list_all_iff get_column_distinct_iff)
  with assms show ?thesis
    using classify_all_columnwise [of "columns (df st)" st parse]
    by (simp add: classify_columns_def column_names_def)
qed

theorem classify_columns_columnwise_witness:
  "distinct (column_names (df \<lparr>df = \<lparr>columns = [(''age'', NumCol [Some 22, None, Some 25]),
       (''city'', ObjCol [Some ''Oslo'', None, Some ''Oslo''])], nrows = 3\<rparr>, plots = []\<rparr>))
   \<and> columnwise (\<lambda>_. None) [(''age'', NumCol [Some 22, None, Some 25]),
       (''city'', ObjCol [Some ''Oslo'', None, Some ''Oslo''])]
     = Inr ([Inr (NumCol [Some 22, Some (47 / 2), Some 25]), Inr (ObjCol [Some ''Oslo'', Some ''Oslo'', Some ''Oslo''])],
            [BoxPlot ''age'' ''age'', BarChart ''city''])
   \<and> map_sum id (\<lambda>st'. (map (get_column (df st')) [''age'', ''city''], drop 0 (plots st')))
       (classify_columns (\<lambda>_. None) \<lparr>df = \<lparr>columns = [(''age'', NumCol [Some 22, None, Some 25]),
         (''city'', ObjCol [Some ''Oslo'', None, Some ''Oslo''])], nrows = 3\<rparr>, plots = []\<rparr>)
     = Inr ([Inr (NumCol [Some 22, Some (47 / 2), Some 25]), Inr (ObjCol [Some ''Oslo'', Some ''Oslo'', Some ''Oslo''])],
            [BoxPlot ''age'' ''age'', BarChart ''city''])"
proof -
  let ?st = "\<lparr>df = \<lparr>columns = [(''age'', NumCol [Some 22, None, Some (25::real)]),
       (''city'', ObjCol [Some ''Oslo'', None, Some ''Oslo''])], nrows = 3\<rparr>, plots = []\<rparr>"
  have d: "distinct (column_names (df ?st))" by (simp add: column_names_def)
  have cw: "columnwise (\<lambda>_. None) (columns (df ?st))
     = Inr ([Inr (NumCol [Some 22, Some (47 / 2), Some 25]), Inr (ObjCol [Some ''Oslo'', Some ''Oslo'', Some ''Oslo''])],
            [BoxPlot ''age'' ''age'', BarChart ''city''])"
    by (simp add: column_pass_def classify_and_calculate_def
        handle_missing_values_def check_data_types_def central_of_def get_column_def
        exceeds_half_def missing_percentage_def fill_median_def median_def set_column_def
        fillna_def nunique_def n_distinct_card mode_first_def modes_def max_count_def Let_def)
  show ?thesis
    using classify_columns_columnwise [OF d, of "\<lambda>_. None"] d cw by (simp add: column_names_def)
qed

end
