(* ===== verification/Scipy.thy ===== *)
theory Scipy
  imports Prelude
begin

text \<open>
  The interface between the analysis components and the statistics library they call
  (\<open>scipy.stats\<close>).  The library is not modelled: its routines are the fields of a
  record \<open>stats_lib\<close>, and every statement about the dispatchers holds for any library
  that fills them.  Two facts of scipy's interface matter to the code and are kept:
  \<^item> \<open>stats.shapiro\<close> returns a statistic and a p-value, \<open>stats.anderson\<close> a statistic
    and an array of critical values (five for \<open>dist='norm'\<close>), which \<open>[:2]\<close> takes as
    its second component; \<open>norm_second\<close> tells the two apart;
  \<^item> \<open>stats.ttest_ind\<close> and \<open>stats.mannwhitneyu\<close> take exactly two samples: called
    with \<open>*groups\<close> of another length they raise \<open>TypeError\<close> (a missing positional
    argument, or a third sample taken as \<open>axis\<close>).
  \<open>test_name\<close> is the test a dispatcher chose (the code prints it).
\<close>

datatype test_name = ShapiroWilk | AndersonDarling | KruskalWallis | ANOVA | TTest
  | MannWhitneyU | ChiSquare

datatype norm_second = PValue real | CriticalValues "real list"

record stats_lib =
  shapiro :: "real list \<Rightarrow> real \<times> real"
  anderson :: "real list \<Rightarrow> real \<times> real list"
  skew :: "real list \<Rightarrow> real"
  kruskal :: "real list list \<Rightarrow> real \<times> real"
  f_oneway :: "real list list \<Rightarrow> real \<times> real"
  ttest_ind :: "real list \<Rightarrow> real list \<Rightarrow> real \<times> real"
  mannwhitneyu :: "real list \<Rightarrow> real list \<Rightarrow> real \<times> real"
  chi2_contingency :: "nat list list \<Rightarrow> real \<times> real"

text \<open>\<open>f(*groups)\<close> for a two-sample test.\<close>

definition call_two_sample ::
  "(real list \<Rightarrow> real list \<Rightarrow> real \<times> real) \<Rightarrow> real list list \<Rightarrow> py_error + real \<times> real" where
  "call_two_sample f groups = (case groups of [a, b] \<Rightarrow> Inr (f a b) | _ \<Rightarrow> Inl TypeError)"

lemma call_two_sample_Inr: "call_two_sample f groups = Inr r \<longleftrightarrow> (\<exists>a b. groups = [a, b] \<and> r = f a b)"
  by (auto simp: call_two_sample_def split: list.splits)

lemma call_two_sample_TypeError: "length groups \<noteq> 2 \<Longrightarrow> call_two_sample f groups = Inl TypeError"
  by (auto simp: call_two_sample_def split: list.splits)

end
