(* ===== verification/Analysis1.thy ===== *)
theory Analysis1
  imports Table Scipy
begin

text \<open>
  \<open>src/data_analysis1.py\<close>, class \<open>DataAnalysis1\<close>.  Its state is the frame it was
  given and the dictionary \<open>column_types\<close> built once by \<open>list_column_types\<close> in
  \<open>__init__\<close> (an association list, in column order: a Python dict keeps insertion
  order).  The column labels are the four strings of the code, as a datatype
  (\<open>col_type\<close>, shared with \<open>DataAnalysis2\<close>).  The operations:
  \<^item> \<open>list_column_types1\<close>: numeric columns with fewer than 20 distinct non-missing
    values are 'numeric ordinal', the others 'interval'; text columns with fewer than
    20 are 'non-numeric ordinal', the others 'nominal';
  \<^item> \<open>select_variable1\<close>: the operator picks a column of the requested label, being
    asked again after every invalid answer (\<open>prompt_loop\<close>, shared with
    \<open>DataAnalysis2\<close>); the operator's answers are an input list, and running out of
    them is \<open>EOFError\<close>;
  \<^item> \<open>check_normality1\<close>, \<open>check_skewness\<close>, \<open>hypothesis_test\<close>: the dispatch to the
    statistics library of \<open>Scipy.thy\<close>.
  \<open>plot_qq_histogram\<close> only draws and is not modelled.
\<close>

datatype col_type = NumericOrdinal | Interval | NonNumericOrdinal | Nominal

record analysis =
  adf :: frame
  column_types :: "(colname \<times> col_type) list"

definition classify1 :: "column \<Rightarrow> col_type" where
  "classify1 c =
     (if is_numeric_dtype c then (if nunique c < 20 then NumericOrdinal else Interval)
      else (if nunique c < 20 then NonNumericOrdinal else Nominal))"

definition list_column_types1 :: "frame \<Rightarrow> (colname \<times> col_type) list" where
  "list_column_types1 df = foldl (\<lambda>m (n, c). AList.update n (classify1 c) m) [] (columns df)"

definition init_analysis1 :: "frame \<Rightarrow> analysis" where
  "init_analysis1 df = \<lparr>adf = df, column_types = list_column_types1 df\<rparr>"

definition available :: "analysis \<Rightarrow> col_type \<Rightarrow> colname list" where
  "available a t = map fst (filter (\<lambda>(col, ct). ct = t) (column_types a))"

text \<open>\<open>while True: v = input(...); if v in available: return v\<close>.\<close>

fun prompt_loop :: "colname list \<Rightarrow> inputs \<Rightarrow> py_error + colname \<times> inputs" where
  "prompt_loop avail [] = Inl EOFError"
| "prompt_loop avail (v # ins) = (if v \<in> set avail then Inr (v, ins) else prompt_loop avail ins)"

definition select_variable1 ::
  "analysis \<Rightarrow> col_type \<Rightarrow> bool \<Rightarrow> inputs \<Rightarrow> py_error + colname option \<times> inputs" where
  "select_variable1 a t allow_skip ins =
     (let avail = available a t in
      if allow_skip \<and> avail = [] then Inr (None, ins)
      else (case prompt_loop avail ins of
              Inl e \<Rightarrow> Inl e
            | Inr (v, rest) \<Rightarrow> Inr (Some v, rest)))"

definition check_normality1 ::
  "stats_lib \<Rightarrow> real option list \<Rightarrow> nat \<Rightarrow> test_name \<times> real \<times> norm_second" where
  "check_normality1 lib data size_limit =
     (let d = dropna data in
      if length d \<le> size_limit
      then (ShapiroWilk, fst (shapiro lib d), PValue (snd (shapiro lib d)))
      else (AndersonDarling, fst (anderson lib d), CriticalValues (snd (anderson lib d))))"

definition check_skewness :: "stats_lib \<Rightarrow> real option list \<Rightarrow> bool" where
  "check_skewness lib data = (\<bar>skew lib (dropna data)\<bar> > 1)"

text \<open>\<open>data = df[[cont, cat]].dropna()\<close>, the groups of \<open>cont\<close> by \<open>cat\<close>, and the
  Kruskal-Wallis test when skewed, one-way ANOVA otherwise.  A text column as the
  continuous variable makes scipy fail on strings (\<open>TypeError\<close>).\<close>

definition anova_groups :: "frame \<Rightarrow> colname \<Rightarrow> colname \<Rightarrow> py_error + real list list" where
  "anova_groups df cont cat =
     (case get_column df cont of
        Inl e \<Rightarrow> Inl e
      | Inr (ObjCol _) \<Rightarrow> Inl TypeError
      | Inr (NumCol xs) \<Rightarrow>
          (case get_column df cat of
             Inl e \<Rightarrow> Inl e
           | Inr k \<Rightarrow> Inr (group_values (both_present xs (cells k)))))"

definition hypothesis_test ::
  "stats_lib \<Rightarrow> analysis \<Rightarrow> colname \<Rightarrow> colname \<Rightarrow> bool \<Rightarrow> py_error + test_name \<times> real \<times> real" where
  "hypothesis_test lib a cont cat skewed =
     (case anova_groups (adf a) cont cat of
        Inl e \<Rightarrow> Inl e
      | Inr groups \<Rightarrow>
          (if skewed then Inr (KruskalWallis, kruskal lib groups)
           else Inr (ANOVA, f_oneway lib groups)))"

subsection \<open>The column dictionary\<close>

lemma foldl_update_map:
  "distinct (map fst ps) \<Longrightarrow> set (map fst ps) \<inter> set (map fst m) = {} \<Longrightarrow>
   foldl (\<lambda>m (n, c). AList.update n (f c) m) m ps = m @ map (\<lambda>(n, c). (n, f c)) ps"
proof (induction ps arbitrary: m)
  case (Cons p ps)
  obtain n c where p: "p = (n, c)" by (cases p)
  have "n \<notin> set (map fst m)"
    using Cons.prems p by auto
  then have upd: "AList.update n (f c) m = m @ [(n, f c)]"
    by (induction m) auto
  have "foldl (\<lambda>m (n, c). AList.update n (f c) m) (m @ [(n, f c)]) ps
      = (m @ [(n, f c)]) @ map (\<lambda>(n, c). (n, f c)) ps"
    using Cons.prems p by (intro Cons.IH) auto
  then show ?case
    using p upd by simp
qed simp

lemma list_column_types1_map:
  "distinct (column_names df) \<Longrightarrow> list_column_types1 df = map (\<lambda>(n, c). (n, classify1 c)) (columns df)"
  unfolding list_column_types1_def column_names_def
  using foldl_update_map [of "columns df" "[]" classify1] by simp

lemma foldl_update_from:
  "(k, v) \<in> set (foldl (\<lambda>m (n, c). AList.update n (f c) m) m ps) \<Longrightarrow>
   (k, v) \<in> set m \<or> (\<exists>c. (k, c) \<in> set ps \<and> v = f c)"
proof (induction ps arbitrary: m)
  case (Cons p ps)
  obtain n c where p: "p = (n, c)" by (cases p)
  from Cons.IH [of "AList.update n (f c) m"] Cons.prems p set_update_subset [of n "f c" m]
  show ?case by auto
qed simp

lemma list_column_types1_classified:
  "(k, t) \<in> set (list_column_types1 d) \<Longrightarrow> \<exists>c. (k, c) \<in> set (columns d) \<and> t = classify1 c"
  using foldl_update_from [of k t classify1 "[]" "columns d"] by (simp add: list_column_types1_def)

lemma map_of_map_snd: "map_of (map (\<lambda>(n, c). (n, f c)) ps) k = map_option f (map_of ps k)"
  by (induction ps) auto

subsection \<open>Selection\<close>

lemma prompt_loop_Inr:
  "prompt_loop avail ins = Inr (v, rest) \<Longrightarrow> v \<in> set avail \<and> (\<exists>pre. ins = pre @ v # rest \<and> set pre \<inter> set avail = {})"
proof (induction avail ins rule: prompt_loop.induct)
  case (2 avail w ins)
  show ?case
  proof (cases "w \<in> set avail")
    case True
    with "2.prems" show ?thesis by auto
  next
    case False
    with "2.prems" "2.IH" obtain pre where "v \<in> set avail" "ins = pre @ v # rest" "set pre \<inter> set avail = {}"
      by auto
    with False show ?thesis
      by (intro conjI exI [of _ "w # pre"]) auto
  qed
qed simp

lemma prompt_loop_first:
  "set pre \<inter> set avail = {} \<Longrightarrow> v \<in> set avail \<Longrightarrow> prompt_loop avail (pre @ v # rest) = Inr (v, rest)"
  by (induction pre) auto

lemma prompt_loop_none: "avail = [] \<Longrightarrow> prompt_loop avail ins = Inl EOFError"
  by (induction ins) auto

lemma prompt_loop_error: "prompt_loop avail ins = Inl e \<Longrightarrow> e = EOFError \<and> set ins \<inter> set avail = {}"
  by (induction avail ins rule: prompt_loop.induct) (auto split: if_splits)

lemma prompt_loop_suffix [consumes]: "prompt_loop avail ins = Inr (v, rest) \<Longrightarrow> suffix rest ins"
  by (induction avail ins rule: prompt_loop.induct) (auto split: if_splits intro: suffix_ConsI)

lemma select_variable1_suffix [consumes]:
  "select_variable1 a t skip ins = Inr (v, rest) \<Longrightarrow> suffix rest ins"
  by (auto simp: select_variable1_def Let_def split: if_splits sum.splits prod.splits
           dest!: prompt_loop_suffix)

lemma available_iff: "v \<in> set (available a t) \<longleftrightarrow> (v, t) \<in> set (column_types a)"
  by (force simp: available_def)

lemma select_variable1_cases:
  "select_variable1 a t skip ins =
     (if skip \<and> available a t = [] then Inr (None, ins)
      else (case prompt_loop (available a t) ins of Inl e \<Rightarrow> Inl e | Inr (v, rest) \<Rightarrow> Inr (Some v, rest)))"
  by (simp add: select_variable1_def Let_def)

lemma available_empty_iff: "available a t = [] \<longleftrightarrow> (\<forall>v. (v, t) \<notin> set (column_types a))"
  using available_iff [of _ a t] by (metis all_not_in_conv set_empty)

lemma anova_groups_Inr:
  "get_column df cont = Inr (NumCol xs) \<Longrightarrow> get_column df cat = Inr k \<Longrightarrow>
   anova_groups df cont cat = Inr (group_values (both_present xs (cells k)))"
  by (simp add: anova_groups_def)

subsection \<open>Properties of \<open>DataAnalysis1\<close>\<close>

text \<open>
  C4.  Column classification of \<open>DataAnalysis1\<close>: on a frame with distinct column
  names, the dictionary lists every column once, in order, and labels it by storage
  type and the threshold \<open>nunique() < 20\<close>.
\<close>

theorem list_column_types1_labels:
  assumes "distinct (column_names df)" "get_column df col = Inr c"
  shows "map fst (list_column_types1 df) = column_names df
       \<and> map_of (list_column_types1 df) col =
           Some (if is_numeric_dtype c then (if nunique c < 20 then NumericOrdinal else Interval)
                 else (if nunique c < 20 then NonNumericOrdinal else Nominal))"
  using assms
  by (simp add: list_column_types1_map column_names_def comp_def case_prod_beta map_of_map_snd
                get_column_Inr_iff classify1_def)

theorem list_column_types1_labels_witness:
  "map_of (list_column_types1 \<lparr>columns = [(''age'', NumCol [Some 22, Some 25, Some 95000]),
                                        (''city'', ObjCol [Some ''Oslo'', None, Some ''Bergen''])], nrows = 3\<rparr>) ''age''
   = Some NumericOrdinal"
proof -
  let ?df = "\<lparr>columns = [(''age'', NumCol [Some 22, Some 25, Some (95000::real)]),
                         (''city'', ObjCol [Some ''Oslo'', None, Some ''Bergen''])], nrows = 3\<rparr>"
  have d: "distinct (column_names ?df)"
    by (simp add: column_names_def)
  have g: "get_column ?df ''age'' = Inr (NumCol [Some 22, Some 25, Some 95000])"
    by (simp add: get_column_def)
  have "nunique (NumCol [Some 22, Some 25, Some (95000::real)]) = 3"
    by (simp add: nunique_def n_distinct_def)
  then show ?thesis
    using list_column_types1_labels [OF d g] by simp
qed

text \<open>
  C20.  \<open>select_variable\<close> of \<open>DataAnalysis1\<close> returns only a column carrying the
  requested label, namely the first such name the operator typed, consuming the answers
  up to it; it returns no column only when skipping is allowed and no column has the
  label, and then reads nothing.
\<close>

theorem select_variable1_result:
  assumes "select_variable1 a t skip ins = Inr (r, rest)"
  shows "(case r of
            Some v \<Rightarrow> (v, t) \<in> set (column_types a)
                     \<and> (\<exists>pre. ins = pre @ v # rest \<and> (\<forall>w \<in> set pre. (w, t) \<notin> set (column_types a)))
          | None \<Rightarrow> skip \<and> (\<forall>v. (v, t) \<notin> set (column_types a)) \<and> rest = ins)"
proof (cases "skip \<and> available a t = []")
  case True
  with assms show ?thesis
    by (simp add: select_variable1_cases available_empty_iff)
next
  case False
  with assms obtain v where pl: "prompt_loop (available a t) ins = Inr (v, rest)" and r: "r = Some v"
    by (auto simp: select_variable1_cases split: sum.splits)
  then show ?thesis
    using prompt_loop_Inr [OF pl] by (auto simp: available_iff disjoint_iff)
qed

theorem select_variable1_result_witness:
  "case fst (projr (select_variable1 \<lparr>adf = \<lparr>columns = [], nrows = 0\<rparr>,
                      column_types = [(''age'', Interval), (''city'', Nominal)]\<rparr>
                    Interval False [''city'', ''age'', ''x''])) of
     Some v \<Rightarrow> (v, Interval) \<in> set [(''age'', Interval), (''city'', Nominal)]
   | None \<Rightarrow> False"
proof -
  let ?a = "\<lparr>adf = \<lparr>columns = [], nrows = 0\<rparr>, column_types = [(''age'', Interval), (''city'', Nominal)]\<rparr>"
  have r: "select_variable1 ?a Interval False [''city'', ''age'', ''x''] = Inr (Some ''age'', [''x''])"
    by (simp add: select_variable1_def available_def)
  show ?thesis
    using select_variable1_result [OF r] r by simp
qed

text \<open>
  C21.  Progress of \<open>select_variable\<close>: once the operator types a name carrying the
  requested label, the loop returns it, whatever invalid answers came before.
\<close>

theorem select_variable1_progress:
  assumes "(v, t) \<in> set (column_types a)" "\<forall>w \<in> set pre. (w, t) \<notin> set (column_types a)"
  shows "select_variable1 a t skip (pre @ v # rest) = Inr (Some v, rest)"
proof -
  have v: "v \<in> set (available a t)"
    using assms(1) by (simp add: available_iff)
  have p: "set pre \<inter> set (available a t) = {}"
    using assms(2) by (auto simp: available_iff)
  from v have "available a t \<noteq> []" by auto
  with v p show ?thesis
    by (simp add: select_variable1_cases prompt_loop_first)
qed

theorem select_variable1_progress_witness:
  "select_variable1 \<lparr>adf = \<lparr>columns = [], nrows = 0\<rparr>, column_types = [(''age'', Interval), (''city'', Nominal)]\<rparr>
     Interval False ([''city'', ''salary''] @ ''age'' # [''rest'']) = Inr (Some ''age'', [''rest''])"
  by (rule select_variable1_progress) auto

text \<open>
  With no column carrying the requested label and skipping not allowed,
  \<open>select_variable\<close> of \<open>DataAnalysis1\<close> never returns a column: it asks again after
  every answer until the input ends (\<open>EOFError\<close>); interactively it never returns.
\<close>

theorem select_variable1_no_candidate:
  assumes "\<forall>v. (v, t) \<notin> set (column_types a)"
  shows "select_variable1 a t False ins = Inl EOFError"
proof -
  have "available a t = []"
    using assms by (simp add: available_empty_iff)
  then show ?thesis
    by (simp add: select_variable1_cases prompt_loop_none)
qed

theorem select_variable1_no_candidate_witness:
  "select_variable1 \<lparr>adf = \<lparr>columns = [], nrows = 0\<rparr>, column_types = [(''city'', Nominal)]\<rparr>
     Interval False [''city'', ''age''] = Inl EOFError"
  by (rule select_variable1_no_candidate) simp

text \<open>
  C23.  The hypothesis test of \<open>DataAnalysis1\<close> runs Kruskal-Wallis when the sample is
  skewed and one-way ANOVA otherwise, on the groups of the continuous column by the
  categorical one over the rows where both are present: one non-empty group per
  distinct category, together holding exactly those rows' values.
\<close>

theorem hypothesis_test_groups:
  assumes "get_column (adf a) cont = Inr (NumCol xs)" "get_column (adf a) cat = Inr k"
  shows "\<exists>groups. hypothesis_test lib a cont cat skewed
                   = Inr (if skewed then (KruskalWallis, kruskal lib groups) else (ANOVA, f_oneway lib groups))
           \<and> mset (concat groups) = mset (map fst (both_present xs (cells k)))
           \<and> (\<forall>g \<in> set groups. g \<noteq> [])
           \<and> length groups = n_distinct (map snd (both_present xs (cells k)))"
proof (intro exI conjI)
  let ?groups = "group_values (both_present xs (cells k))"
  show "hypothesis_test lib a cont cat skewed
          = Inr (if skewed then (KruskalWallis, kruskal lib ?groups) else (ANOVA, f_oneway lib ?groups))"
    using anova_groups_Inr [OF assms] by (simp add: hypothesis_test_def)
  show "mset (concat ?groups) = mset (map fst (both_present xs (cells k)))"
    by (rule mset_concat_group_values)
  show "\<forall>g \<in> set ?groups. g \<noteq> []"
    using group_values_nonempty by blast
  show "length ?groups = n_distinct (map snd (both_present xs (cells k)))"
    by (rule length_group_values)
qed

theorem hypothesis_test_groups_witness:
  "hypothesis_test \<lparr>shapiro = \<lambda>_. (0, 0), anderson = \<lambda>_. (0, []), skew = \<lambda>_. 0, kruskal = \<lambda>_. (0, 0),
        f_oneway = \<lambda>gs. (real (length gs), 0), ttest_ind = \<lambda>_ _. (0, 0),
        mannwhitneyu = \<lambda>_ _. (0, 0), chi2_contingency = \<lambda>_. (0, 0)\<rparr>
       \<lparr>adf = \<lparr>columns = [(''y'', NumCol [Some 1, Some 2, None, Some 4]),
                         (''g'', ObjCol [Some ''a'', Some ''b'', Some ''a'', None])], nrows = 4\<rparr>,
        column_types = []\<rparr> ''y'' ''g'' False = Inr (ANOVA, 2, 0)"
proof -
  let ?a = "\<lparr>adf = \<lparr>columns = [(''y'', NumCol [Some 1, Some 2, None, Some (4::real)]),
                         (''g'', ObjCol [Some ''a'', Some ''b'', Some ''a'', None])], nrows = 4\<rparr>,
             column_types = []\<rparr>"
  let ?lib = "\<lparr>shapiro = \<lambda>_. (0, 0), anderson = \<lambda>_. (0, []), skew = \<lambda>_. 0, kruskal = \<lambda>_. (0, 0),
        f_oneway = \<lambda>gs. (real (length gs), 0), ttest_ind = \<lambda>_ _. (0, 0),
        mannwhitneyu = \<lambda>_ _. (0, 0), chi2_contingency = \<lambda>_. (0, 0)\<rparr>"
  have g1: "get_column (adf ?a) ''y'' = Inr (NumCol [Some 1, Some 2, None, Some 4])"
    and g2: "get_column (adf ?a) ''g'' = Inr (ObjCol [Some ''a'', Some ''b'', Some ''a'', None])"
    by (simp_all add: get_column_def)
  obtain groups where "hypothesis_test ?lib ?a ''y'' ''g'' False = Inr (ANOVA, f_oneway ?lib groups)"
      "length groups = n_distinct (map snd (both_present [Some 1, Some 2, None, Some (4::real)]
                                 (cells (ObjCol [Some ''a'', Some ''b'', Some ''a'', None]))))"
    using hypothesis_test_groups [OF g1 g2, of ?lib False] by auto
  then show ?thesis
    by (simp add: n_distinct_def)
qed

text \<open>
  C34.  The categorical variable the hypothesis-test menu of \<open>DataAnalysis1\<close> asks for
  (label 'nominal') is always a text column with at least 20 distinct values: a text
  column with few categories is labelled 'non-numeric ordinal' and is never offered.
\<close>

theorem da1_nominal_is_high_cardinality:
  assumes "distinct (column_names df)"
    "select_variable1 (init_analysis1 df) Nominal skip ins = Inr (Some v, rest)"
  shows "\<exists>xs. get_column df v = Inr (ObjCol xs) \<and> 20 \<le> nunique (ObjCol xs)"
proof -
  from assms(2) have "v \<in> set (available (init_analysis1 df) Nominal)"
    using prompt_loop_Inr by (auto simp: select_variable1_cases split: if_splits sum.splits)
  then obtain c where c: "(v, c) \<in> set (columns df)" "classify1 c = Nominal"
    using assms(1) by (auto simp: available_def init_analysis1_def list_column_types1_map)
  then obtain xs where xs: "c = ObjCol xs" "20 \<le> nunique c"
    by (cases c) (auto simp: classify1_def split: if_splits)
  have "get_column df v = Inr c"
    using assms(1) c(1) by (simp add: get_column_Inr_iff column_names_def)
  with xs show ?thesis by auto
qed

theorem da1_nominal_is_high_cardinality_witness:
  "\<exists>xs. get_column \<lparr>columns = [(''id'', ObjCol (map Some (map (\<lambda>i. replicate i CHR ''x'') [0..<20])))], nrows = 20\<rparr> ''id''
          = Inr (ObjCol xs) \<and> 20 \<le> nunique (ObjCol xs)"
proof -
  let ?df = "\<lparr>columns = [(''id'', ObjCol (map Some (map (\<lambda>i. replicate i CHR ''x'') [0..<20])))], nrows = 20\<rparr>"
  have d: "distinct (column_names ?df)"
    by (simp add: column_names_def)
  have "distinct (map (\<lambda>i. replicate i CHR ''x'') [0..<20])"
    by (simp add: distinct_map inj_on_def del: upt_Suc)
  then have "nunique (ObjCol (map Some (map (\<lambda>i. replicate i CHR ''x'') [0..<20]))) = 20"
    by (simp only: nunique_ObjCol dropna_map_Some n_distinct_def distinct_remdups_id) simp
  then have s: "select_variable1 (init_analysis1 ?df) Nominal False [''id''] = Inr (Some ''id'', [])"
    by (simp add: select_variable1_def available_def init_analysis1_def list_column_types1_def classify1_def)
  show ?thesis
    using da1_nominal_is_high_cardinality [OF d s] .
qed

lemma available1_column:
  assumes "distinct (column_names d)" "get_column d v = Inr c"
  shows "v \<in> set (available (init_analysis1 d) (classify1 c))"
proof -
  have "(v, c) \<in> set (columns d)"
    using assms by (simp add: get_column_distinct_iff)
  then have "(v, classify1 c) \<in> set (list_column_types1 d)"
    using assms(1) by (auto simp: list_column_types1_map intro: rev_image_eqI)
  then show ?thesis
    by (simp add: available_iff init_analysis1_def)
qed

lemma select_variable1_first:
  "v \<in> set (available a t) \<Longrightarrow> select_variable1 a t skip (v # rest) = Inr (Some v, rest)"
  by (auto simp: select_variable1_def Let_def)

end
