(* ===== verification/Analysis2.thy ===== *)
theory Analysis2
  imports Analysis1
begin

text \<open>
  \<open>src/data_analysis2.py\<close>, class \<open>DataAnalysis2\<close>, with the same state as
  \<open>DataAnalysis1\<close> (record \<open>analysis\<close>: the frame and the label dictionary) and the
  same labels.  Its differences are the point of modelling it separately:
  \<^item> \<open>list_column_types2\<close> counts \<open>len(unique())\<close>, where a missing value is one more
    value, against the threshold \<open><= 10\<close>, and swaps the text labels: few values is
    'nominal', many is 'non-numeric ordinal';
  \<^item> \<open>select_variable2\<close> can keep only columns with at most \<open>max_categories\<close> distinct
    values, raises \<open>ValueError\<close> when nothing is left and skipping is not allowed, and
    then asks like \<open>prompt_loop\<close>;
  \<^item> \<open>check_normality2\<close> is \<open>check_normality1\<close> with the test of the branches turned
    round;
  \<^item> \<open>perform_regression\<close> pairs the two columns after dropping the missing cells of
    each separately and cutting both to the shorter length; the regression itself
    (\<open>stats.linregress\<close>) is modelled by its closed form (slope, intercept, and the
    \<open>r_value ** 2\<close> the code prints), with scipy's \<open>ValueError\<close> when every x is the same;
  \<^item> \<open>t_test_or_mannwhitney\<close> groups the continuous column by the categorical one
    (every present category, its values with missing ones dropped), tests normality on
    the whole column and compares the second component to 0.05: a p-value after
    Shapiro-Wilk, the array of critical values after Anderson-Darling, whose truth value
    Python refuses (\<open>ValueError\<close>) unless it has one element;
  \<^item> \<open>chi_square_test\<close> builds the contingency table of \<open>pd.crosstab\<close> (rows where
    both are present, categories sorted) and hands it to \<open>chi2_contingency\<close>, which
    raises \<open>ValueError\<close> on an empty table.
\<close>

definition classify2 :: "column \<Rightarrow> col_type" where
  "classify2 c =
     (if is_numeric_dtype c then (if n_unique_raw c \<le> 10 then NumericOrdinal else Interval)
      else (if n_unique_raw c \<le> 10 then Nominal else NonNumericOrdinal))"

definition list_column_types2 :: "frame \<Rightarrow> (colname \<times> col_type) list" where
  "list_column_types2 df = foldl (\<lambda>m (n, c). AList.update n (classify2 c) m) [] (columns df)"

definition init_analysis2 :: "frame \<Rightarrow> analysis" where
  "init_analysis2 df = \<lparr>adf = df, column_types = list_column_types2 df\<rparr>"

definition within_categories :: "frame \<Rightarrow> nat \<Rightarrow> colname \<Rightarrow> bool" where
  "within_categories df m col = (case get_column df col of Inl _ \<Rightarrow> False | Inr c \<Rightarrow> nunique c \<le> m)"

definition select_variable2 ::
  "analysis \<Rightarrow> col_type \<Rightarrow> nat option \<Rightarrow> bool \<Rightarrow> inputs \<Rightarrow> py_error + colname option \<times> inputs" where
  "select_variable2 a t max_categories allow_skip ins =
     (let avail0 = available a t;
          avail = (case max_categories of None \<Rightarrow> avail0
                   | Some m \<Rightarrow> filter (within_categories (adf a) m) avail0)
      in if avail = [] then (if allow_skip then Inr (None, ins) else Inl ValueError)
         else (case prompt_loop avail ins of
                 Inl e \<Rightarrow> Inl e
               | Inr (v, rest) \<Rightarrow> Inr (Some v, rest)))"

definition check_normality2 ::
  "stats_lib \<Rightarrow> real option list \<Rightarrow> nat \<Rightarrow> test_name \<times> real \<times> norm_second" where
  "check_normality2 lib data size_limit =
     (let d = dropna data in
      if length d > size_limit
      then (AndersonDarling, fst (anderson lib d), CriticalValues (snd (anderson lib d)))
      else (ShapiroWilk, fst (shapiro lib d), PValue (snd (shapiro lib d))))"

subsection \<open>Regression\<close>

definition regression_pairs :: "real option list \<Rightarrow> real option list \<Rightarrow> (real \<times> real) list" where
  "regression_pairs xs ys =
     (let X = dropna xs; Y = dropna ys; n = min (length X) (length Y)
      in zip (take n X) (take n Y))"

record regression =
  slope :: real
  intercept :: real
  r_squared :: real

definition mean_of :: "real list \<Rightarrow> real" where
  "mean_of xs = sum_list xs / real (length xs)"

text \<open>\<open>stats.linregress\<close> by its closed form.  scipy raises \<open>ValueError\<close> on empty input
  and when all (at least two) x values are identical; on a single pair it returns NaN
  coefficients, which exact reals cannot express, and the model raises there as well.\<close>

definition linregress :: "(real \<times> real) list \<Rightarrow> py_error + regression" where
  "linregress ps =
     (let xs = map fst ps; ys = map snd ps; mx = mean_of xs; my = mean_of ys;
          sxx = (\<Sum>(x, y)\<leftarrow>ps. (x - mx) * (x - mx));
          sxy = (\<Sum>(x, y)\<leftarrow>ps. (x - mx) * (y - my));
          syy = (\<Sum>(x, y)\<leftarrow>ps. (y - my) * (y - my))
      in if sxx = 0 then Inl ValueError
         else Inr \<lparr>slope = sxy / sxx, intercept = my - (sxy / sxx) * mx,
                   r_squared = (if syy = 0 then 0 else (sxy * sxy) / (sxx * syy))\<rparr>)"

definition perform_regression :: "analysis \<Rightarrow> colname \<Rightarrow> colname \<Rightarrow> py_error + regression" where
  "perform_regression a x_var y_var =
     (case (get_column (adf a) x_var, get_column (adf a) y_var) of
        (Inl e, _) \<Rightarrow> Inl e
      | (_, Inl e) \<Rightarrow> Inl e
      | (Inr (NumCol xs), Inr (NumCol ys)) \<Rightarrow> linregress (regression_pairs xs ys)
      | _ \<Rightarrow> Inl TypeError)"

subsection \<open>Two-group test\<close>

text \<open>The rows whose category is present, with their (possibly missing) value.\<close>

fun key_present :: "'a option list \<Rightarrow> 'k option list \<Rightarrow> ('a option \<times> 'k) list" where
  "key_present (x # xs) (Some k # ks) = (x, k) # key_present xs ks"
| "key_present (_ # xs) (None # ks) = key_present xs ks"
| "key_present _ _ = []"

definition tt_groups :: "real option list \<Rightarrow> column \<Rightarrow> real list list" where
  "tt_groups xs k = map dropna (group_values (key_present xs (cells k)))"

text \<open>\<open>if normality_test[1] > 0.05\<close>.\<close>

definition above_005 :: "norm_second \<Rightarrow> py_error + bool" where
  "above_005 s =
     (case s of
        PValue p \<Rightarrow> Inr (p > 0.05)
      | CriticalValues cv \<Rightarrow> (case cv of [v] \<Rightarrow> Inr (v > 0.05) | _ \<Rightarrow> Inl ValueError))"

definition t_test_or_mannwhitney ::
  "stats_lib \<Rightarrow> analysis \<Rightarrow> colname \<Rightarrow> colname \<Rightarrow> py_error + test_name \<times> real \<times> real" where
  "t_test_or_mannwhitney lib a cont cat =
     (case get_column (adf a) cat of
        Inl e \<Rightarrow> Inl e
      | Inr k \<Rightarrow>
          (case get_column (adf a) cont of
             Inl e \<Rightarrow> Inl e
           | Inr (ObjCol _) \<Rightarrow> Inl TypeError
           | Inr (NumCol xs) \<Rightarrow>
               (let groups = tt_groups xs k in
                case above_005 (snd (snd (check_normality2 lib xs 2000))) of
                  Inl e \<Rightarrow> Inl e
                | Inr True \<Rightarrow> map_sum id (Pair TTest) (call_two_sample (ttest_ind lib) groups)
                | Inr False \<Rightarrow> map_sum id (Pair MannWhitneyU) (call_two_sample (mannwhitneyu lib) groups))))"

subsection \<open>Chi-square\<close>

definition crosstab :: "pyvalue option list \<Rightarrow> pyvalue option list \<Rightarrow> nat list list" where
  "crosstab c1 c2 =
     (let ps = both_present c1 c2;
          rows = sort (remdups (map fst ps));
          cols = sort (remdups (map snd ps))
      in map (\<lambda>r. map (\<lambda>c. count_list ps (r, c)) cols) rows)"

definition chi_square_test :: "stats_lib \<Rightarrow> analysis \<Rightarrow> colname \<Rightarrow> colname \<Rightarrow> py_error + real \<times> real" where
  "chi_square_test lib a v1 v2 =
     (case (get_column (adf a) v1, get_column (adf a) v2) of
        (Inl e, _) \<Rightarrow> Inl e
      | (_, Inl e) \<Rightarrow> Inl e
      | (Inr k1, Inr k2) \<Rightarrow>
          (let table = crosstab (cells k1) (cells k2) in
           if table = [] then Inl ValueError else Inr (chi2_contingency lib table)))"

subsection \<open>The regression on an exact line\<close>

lemma select_variable2_suffix [consumes]:
  "select_variable2 a t m skip ins = Inr (v, rest) \<Longrightarrow> suffix rest ins"
  by (auto simp: select_variable2_def Let_def split: if_splits sum.splits prod.splits
           dest!: prompt_loop_suffix)

lemma sum_list_pairs_cong:
  "(\<And>x y. (x, y) \<in> set ps \<Longrightarrow> f x y = g x y) \<Longrightarrow>
   (\<Sum>(x, y)\<leftarrow>ps. f x y) = (\<Sum>(x, y)\<leftarrow>ps. g x y)"
  by (rule arg_cong [where f = sum_list], rule map_cong) auto

lemma sum_list_pairs_const_mult:
  "(\<Sum>(x, y)\<leftarrow>ps. c * f x y) = c * (\<Sum>(x, y)\<leftarrow>ps. f x y)" for c :: real
  by (induction ps) (auto simp: algebra_simps)

lemma sum_list_snd_line:
  assumes "\<forall>(x, y) \<in> set ps. y = \<alpha> * x + \<beta>"
  shows "sum_list (map snd ps) = \<alpha> * sum_list (map fst ps) + real (length ps) * \<beta>"
proof -
  have "sum_list (map snd ps) = sum_list (map (\<lambda>p. \<alpha> * fst p + \<beta>) ps)"
    using assms by (auto intro!: arg_cong [where f = sum_list] map_cong)
  also have "\<dots> = \<alpha> * sum_list (map fst ps) + real (length ps) * \<beta>"
    by (simp add: sum_list_addf sum_list_const_mult sum_list_triv)
  finally show ?thesis .
qed

lemma sum_squares_zero:
  assumes "(\<Sum>(x, y)\<leftarrow>ps. (x - m) * (x - m)) = (0::real)"
  shows "\<forall>p \<in> set ps. fst p = m"
proof -
  have "\<forall>v \<in> set (map (\<lambda>(x, y). (x - m) * (x - m)) ps). v = 0"
    using assms by (subst sum_list_nonneg_eq_0_iff [symmetric]) auto
  then show ?thesis
    by auto
qed

lemma linregress_line:
  assumes line: "\<forall>(x, y) \<in> set ps. y = \<alpha> * x + \<beta>"
    and spread: "\<exists>p \<in> set ps. \<exists>q \<in> set ps. fst p \<noteq> fst q"
  shows "linregress ps = Inr \<lparr>slope = \<alpha>, intercept = \<beta>, r_squared = (if \<alpha> = 0 then 0 else 1)\<rparr>"
proof -
  define mx where "mx = mean_of (map fst ps)"
  define sxx where "sxx = (\<Sum>(x, y)\<leftarrow>ps. (x - mx) * (x - mx))"
  have ne: "ps \<noteq> []"
    using spread by auto
  have my: "mean_of (map snd ps) = \<alpha> * mx + \<beta>"
    using sum_list_snd_line [OF line] ne by (simp add: mean_of_def mx_def field_simps)
  have sxy: "(\<Sum>(x, y)\<leftarrow>ps. (x - mx) * (y - (\<alpha> * mx + \<beta>))) = \<alpha> * sxx"
  proof -
    have "(\<Sum>(x, y)\<leftarrow>ps. (x - mx) * (y - (\<alpha> * mx + \<beta>))) = (\<Sum>(x, y)\<leftarrow>ps. \<alpha> * ((x - mx) * (x - mx)))"
      using line by (intro sum_list_pairs_cong) (auto simp: algebra_simps)
    then show ?thesis
      by (simp add: sxx_def sum_list_pairs_const_mult)
  qed
  have syy: "(\<Sum>(x, y)\<leftarrow>ps. (y - (\<alpha> * mx + \<beta>)) * (y - (\<alpha> * mx + \<beta>))) = \<alpha> * \<alpha> * sxx"
  proof -
    have "(\<Sum>(x, y)\<leftarrow>ps. (y - (\<alpha> * mx + \<beta>)) * (y - (\<alpha> * mx + \<beta>)))
          = (\<Sum>(x, y)\<leftarrow>ps. (\<alpha> * \<alpha>) * ((x - mx) * (x - mx)))"
      using line by (intro sum_list_pairs_cong) (auto simp: algebra_simps)
    then show ?thesis
      by (simp add: sxx_def sum_list_pairs_const_mult)
  qed
  have sxx: "sxx \<noteq> 0"
  proof
    assume "sxx = 0"
    then have "\<forall>p \<in> set ps. fst p = mx"
      unfolding sxx_def by (rule sum_squares_zero)
    with spread show False by auto
  qed
  have r2: "(if \<alpha> * \<alpha> * sxx = 0 then 0 else (\<alpha> * sxx) * (\<alpha> * sxx) / (sxx * (\<alpha> * \<alpha> * sxx)))
            = (if \<alpha> = 0 then 0 else (1::real))"
    using sxx by auto
  show ?thesis
    using sxx sxy syy r2 my
    by (simp add: linregress_def Let_def mx_def [symmetric] sxx_def [symmetric])
qed

subsection \<open>Helper facts\<close>

lemma list_column_types2_map:
  "distinct (column_names df) \<Longrightarrow> list_column_types2 df = map (\<lambda>(n, c). (n, classify2 c)) (columns df)"
  unfolding list_column_types2_def column_names_def
  using foldl_update_map [of "columns df" "[]" classify2] by simp

lemma regression_pairs_zip: "regression_pairs xs ys = zip (dropna xs) (dropna ys)"
  by (simp add: regression_pairs_def Let_def take_zip [symmetric])

lemma regression_pairs_complete: "regression_pairs (map Some xs) (map Some ys) = zip xs ys"
  by (simp add: regression_pairs_def Let_def take_zip [symmetric])

lemma map_snd_key_present:
  "length xs = length ks \<Longrightarrow> map snd (key_present xs ks) = dropna ks"
  by (induction xs ks rule: key_present.induct) auto

lemma length_tt_groups:
  "length xs = col_length k \<Longrightarrow> length (tt_groups xs k) = n_distinct (dropna (cells k))"
  by (simp add: tt_groups_def length_group_values map_snd_key_present)

lemma above_005_critical: "length cv \<noteq> 1 \<Longrightarrow> above_005 (CriticalValues cv) = Inl ValueError"
  by (cases cv rule: remdups_adj.cases) (auto simp: above_005_def)

lemma dropna_replicate_Some [simp]: "dropna (replicate n (Some x)) = replicate n x"
  by (induction n) simp_all

lemma sum_list_single_key_nat:
  "distinct ks \<Longrightarrow> x \<in> set ks \<Longrightarrow> sum_list (map (\<lambda>k. if x = k then 1 else 0) ks) = (1::nat)"
proof (induction ks)
  case (Cons k ks)
  then show ?case
  proof (cases "x = k")
    case True
    with Cons.prems have "sum_list (map (\<lambda>k. if x = k then 1 else 0) ks) = (0::nat)"
      by (induction ks) auto
    with True show ?thesis by simp
  qed auto
qed simp

lemma sum_length_filter_keys:
  "distinct ks \<Longrightarrow> set (map f ps) \<subseteq> set ks \<Longrightarrow>
   sum_list (map (\<lambda>k. length (filter (\<lambda>p. f p = k) ps)) ks) = length ps"
proof (induction ps)
  case Nil
  then show ?case by (induction ks) auto
next
  case (Cons p ps)
  have split: "(\<lambda>k. length (filter (\<lambda>q. f q = k) (p # ps)))
      = (\<lambda>k. (if f p = k then 1 else 0) + length (filter (\<lambda>q. f q = k) ps))"
    by auto
  have "sum_list (map (\<lambda>k. if f p = k then 1 else 0) ks) = (1::nat)"
    using Cons.prems by (intro sum_list_single_key_nat) auto
  then show ?case
    using Cons by (simp only: split sum_list_addf) simp
qed

lemma sum_crosstab_rows:
  "sum_list (map sum_list (map (\<lambda>r. map (\<lambda>c. count_list ps (r, c)) (sort (remdups (map snd ps))))
                             (sort (remdups (map fst ps))))) = length ps"
proof -
  let ?cols = "sort (remdups (map snd ps))" and ?rows = "sort (remdups (map fst ps))"
  have row: "sum_list (map (\<lambda>c. count_list ps (r, c)) ?cols) = length (filter (\<lambda>p. fst p = r) ps)" for r
  proof -
    have eq: "(\<lambda>c. count_list ps (r, c)) = (\<lambda>c. length (filter (\<lambda>p. snd p = c) (filter (\<lambda>p. fst p = r) ps)))"
    proof
      fix c
      have "filter ((=) (r, c)) ps = filter (\<lambda>p. snd p = c) (filter (\<lambda>p. fst p = r) ps)"
        by (simp add: filter_filter) (metis prod.collapse prod.inject)
      then show "count_list ps (r, c) = length (filter (\<lambda>p. snd p = c) (filter (\<lambda>p. fst p = r) ps))"
        by (simp add: count_list_eq_length_filter)
    qed
    show ?thesis
      unfolding eq by (rule sum_length_filter_keys) auto
  qed
  have "sum_list (map (\<lambda>r. length (filter (\<lambda>p. fst p = r) ps)) ?rows) = length ps"
    by (rule sum_length_filter_keys) auto
  then show ?thesis
    by (simp add: comp_def row)
qed

lemma sort_eq_Nil_iff: "sort xs = [] \<longleftrightarrow> xs = []"
  by (metis length_0_conv length_sort)

lemma crosstab_empty_iff: "crosstab c1 c2 = [] \<longleftrightarrow> both_present c1 c2 = []"
  by (simp add: crosstab_def Let_def sort_eq_Nil_iff)

subsection \<open>Properties of \<open>DataAnalysis2\<close>\<close>

text \<open>
  C5.  Column classification of \<open>DataAnalysis2\<close>: every column is labelled once, in
  order, by storage type and \<open>len(unique()) <= 10\<close>, where a column with a missing
  cell counts one value more than its \<open>nunique()\<close>; few text values give 'nominal'.
\<close>

theorem list_column_types2_labels:
  assumes "distinct (column_names df)" "get_column df col = Inr c"
  shows "map fst (list_column_types2 df) = column_names df
       \<and> map_of (list_column_types2 df) col =
           Some (let u = nunique c + (if None \<in> set (cells c) then 1 else 0) in
                 if is_numeric_dtype c then (if u \<le> 10 then NumericOrdinal else Interval)
                 else (if u \<le> 10 then Nominal else NonNumericOrdinal))"
  using assms
  by (simp add: list_column_types2_map column_names_def comp_def case_prod_beta map_of_map_snd
                get_column_Inr_iff classify2_def n_unique_raw_eq Let_def)

theorem list_column_types2_labels_witness:
  "map_of (list_column_types2 \<lparr>columns = [(''grade'', NumCol [None, Some 1, Some 2, Some 3, Some 4, Some 5, Some 6, Some 7, Some 8, Some 9, Some 10])], nrows = 11\<rparr>) ''grade''
   = Some Interval"
proof -
  let ?c = "NumCol [None, Some 1, Some 2, Some 3, Some 4, Some 5, Some 6, Some 7, Some 8, Some 9, Some (10::real)]"
  let ?df = "\<lparr>columns = [(''grade'', ?c)], nrows = 11\<rparr>"
  have d: "distinct (column_names ?df)"
    by (simp add: column_names_def)
  have g: "get_column ?df ''grade'' = Inr ?c"
    by (simp add: get_column_def)
  have "nunique ?c = 10"
    by (simp add: nunique_NumCol n_distinct_def)
  then show ?thesis
    using list_column_types2_labels [OF d g] by simp
qed

text \<open>
  C6.  The two normality checks are the same function: \<open>DataAnalysis2\<close> tests
  \<open>len > size_limit\<close> first where \<open>DataAnalysis1\<close> tests \<open>len <= size_limit\<close>,
  and both run Shapiro-Wilk on at most \<open>size_limit\<close> present values and
  Anderson-Darling on more.
\<close>

theorem check_normality_equiv: "check_normality2 lib data size_limit = check_normality1 lib data size_limit"
  by (simp add: check_normality1_def check_normality2_def Let_def not_less)

text \<open>
  C7.  With more than 2000 present values, \<open>t_test_or_mannwhitney\<close> always fails
  with \<open>ValueError\<close>: the normality check returns Anderson-Darling's array of critical
  values, and \<open>array > 0.05\<close> has no truth value.
\<close>

theorem t_test_anderson_error:
  assumes "get_column (adf a) cat = Inr k" "get_column (adf a) cont = Inr (NumCol xs)"
    "2000 < length (dropna xs)" "length (snd (anderson lib (dropna xs))) \<noteq> 1"
  shows "t_test_or_mannwhitney lib a cont cat = Inl ValueError"
  using assms by (simp add: t_test_or_mannwhitney_def check_normality2_def above_005_critical Let_def)

theorem t_test_anderson_error_witness:
  "t_test_or_mannwhitney \<lparr>shapiro = \<lambda>_. (0, 0), anderson = \<lambda>_. (0, [0.576, 0.656, 0.787, 0.918, 1.092]),
        skew = \<lambda>_. 0, kruskal = \<lambda>_. (0, 0), f_oneway = \<lambda>_. (0, 0), ttest_ind = \<lambda>_ _. (0, 0),
        mannwhitneyu = \<lambda>_ _. (0, 0), chi2_contingency = \<lambda>_. (0, 0)\<rparr>
     \<lparr>adf = \<lparr>columns = [(''score'', NumCol (replicate 2001 (Some 1))),
                        (''group'', ObjCol (replicate 2001 (Some ''a'')))], nrows = 2001\<rparr>,
      column_types = []\<rparr> ''score'' ''group'' = Inl ValueError"
proof (rule t_test_anderson_error)
  show "2000 < length (dropna (replicate 2001 (Some (1::real))))"
    by (simp only: dropna_replicate_Some) simp
qed (simp_all add: get_column_def)

text \<open>
  C24.  With at most 2000 present values, \<open>t_test_or_mannwhitney\<close> forms one group
  per present category and runs the t-test when Shapiro-Wilk's p-value exceeds 0.05,
  Mann-Whitney U otherwise, on exactly two groups; with any other number of categories
  (one, in particular, which \<open>max_categories=2\<close> admits) it fails with \<open>TypeError\<close>.
\<close>

theorem t_test_or_mannwhitney_small:
  assumes "get_column (adf a) cat = Inr k" "get_column (adf a) cont = Inr (NumCol xs)"
    "length xs = col_length k" "length (dropna xs) \<le> 2000"
  shows "length (tt_groups xs k) = n_distinct (dropna (cells k))
       \<and> t_test_or_mannwhitney lib a cont cat =
           (case tt_groups xs k of
              [g1, g2] \<Rightarrow> Inr (if snd (shapiro lib (dropna xs)) > 0.05
                               then (TTest, ttest_ind lib g1 g2) else (MannWhitneyU, mannwhitneyu lib g1 g2))
            | _ \<Rightarrow> Inl TypeError)"
proof -
  have "t_test_or_mannwhitney lib a cont cat =
          (if snd (shapiro lib (dropna xs)) > 0.05
           then map_sum id (Pair TTest) (call_two_sample (ttest_ind lib) (tt_groups xs k))
           else map_sum id (Pair MannWhitneyU) (call_two_sample (mannwhitneyu lib) (tt_groups xs k)))"
    using assms by (simp add: t_test_or_mannwhitney_def check_normality2_def above_005_def Let_def)
  then show ?thesis
    using assms(3) by (auto simp: length_tt_groups call_two_sample_def split: list.splits)
qed

theorem t_test_or_mannwhitney_small_witness:
  "t_test_or_mannwhitney \<lparr>shapiro = \<lambda>_. (0, 0), anderson = \<lambda>_. (0, [0.576, 0.656, 0.787, 0.918, 1.092]),
        skew = \<lambda>_. 0, kruskal = \<lambda>_. (0, 0), f_oneway = \<lambda>_. (0, 0), ttest_ind = \<lambda>_ _. (0, 0),
        mannwhitneyu = \<lambda>_ _. (0, 0), chi2_contingency = \<lambda>_. (0, 0)\<rparr>
     \<lparr>adf = \<lparr>columns = [(''score'', NumCol [Some 1, Some 2, Some 3]),
                        (''group'', ObjCol [Some ''a'', Some ''a'', None])], nrows = 3\<rparr>,
      column_types = []\<rparr> ''score'' ''group'' = Inl TypeError"
proof -
  let ?k = "ObjCol [Some ''a'', Some ''a'', None]"
  let ?a = "\<lparr>adf = \<lparr>columns = [(''score'', NumCol [Some 1, Some 2, Some (3::real)]), (''group'', ?k)], nrows = 3\<rparr>,
             column_types = []\<rparr>"
  have g1: "get_column (adf ?a) ''group'' = Inr ?k" and g2: "get_column (adf ?a) ''score'' = Inr (NumCol [Some 1, Some 2, Some 3])"
    by (simp_all add: get_column_def)
  have l: "length [Some 1, Some 2, Some (3::real)] = col_length ?k" and s: "length (dropna [Some 1, Some 2, Some (3::real)]) \<le> 2000"
    by simp_all
  show ?thesis
    using t_test_or_mannwhitney_small [OF g1 g2 l s] by (simp add: tt_groups_def group_values_def)
qed

text \<open>
  C25.  Regression on two complete numeric columns of the same length whose values lie
  on a line \<open>y = \<alpha> x + \<beta>\<close>, not all x equal, returns slope \<open>\<alpha>\<close>, intercept
  \<open>\<beta>\<close>, and \<open>R\<^sup>2 = 1\<close> (0 for a flat line, scipy's convention).
\<close>

theorem perform_regression_line:
  assumes "get_column (adf a) x = Inr (NumCol (map Some xs))" "get_column (adf a) y = Inr (NumCol (map Some ys))"
    "length xs = length ys" "\<forall>i < length xs. ys ! i = \<alpha> * xs ! i + \<beta>"
    "\<exists>i < length xs. \<exists>j < length xs. xs ! i \<noteq> xs ! j"
  shows "perform_regression a x y = Inr \<lparr>slope = \<alpha>, intercept = \<beta>, r_squared = (if \<alpha> = 0 then 0 else 1)\<rparr>"
proof -
  have line: "\<forall>(u, v) \<in> set (zip xs ys). v = \<alpha> * u + \<beta>"
    using assms(3,4) by (auto simp: set_zip)
  obtain i j where ij: "i < length xs" "j < length xs" "xs ! i \<noteq> xs ! j"
    using assms(5) by blast
  then have p: "(xs ! i, ys ! i) \<in> set (zip xs ys)" and q: "(xs ! j, ys ! j) \<in> set (zip xs ys)"
    using assms(3) by (auto simp: set_zip)
  have "fst (xs ! i, ys ! i) \<noteq> fst (xs ! j, ys ! j)"
    using ij(3) by simp
  with p q have spread: "\<exists>p \<in> set (zip xs ys). \<exists>q \<in> set (zip xs ys). fst p \<noteq> fst q"
    by blast
  show ?thesis
    using assms(1,2) linregress_line [OF line spread]
    by (simp add: perform_regression_def regression_pairs_complete)
qed

theorem perform_regression_line_witness:
  "perform_regression \<lparr>adf = \<lparr>columns = [(''x'', NumCol (map Some [1, 2, 3])), (''y'', NumCol (map Some [5, 7, 9]))],
                               nrows = 3\<rparr>, column_types = []\<rparr> ''x'' ''y''
   = Inr \<lparr>slope = 2, intercept = 3, r_squared = 1\<rparr>"
proof -
  let ?a = "\<lparr>adf = \<lparr>columns = [(''x'', NumCol (map Some [1, 2, 3])), (''y'', NumCol (map Some [5, 7, (9::real)]))],
                          nrows = 3\<rparr>, column_types = []\<rparr>"
  have g1: "get_column (adf ?a) ''x'' = Inr (NumCol (map Some [1, 2, 3]))"
    and g2: "get_column (adf ?a) ''y'' = Inr (NumCol (map Some [5, 7, 9]))"
    by (simp_all add: get_column_def)
  have l: "length [1, 2, (3::real)] = length [5, 7, (9::real)]" by simp
  have line: "\<forall>i < length [1, 2, (3::real)]. [5, 7, (9::real)] ! i = 2 * [1, 2, 3] ! i + 3"
    by (auto simp: less_Suc_eq nth_Cons')
  have spread: "\<exists>i < length [1, 2, (3::real)]. \<exists>j < length [1, 2, (3::real)]. [1, 2, (3::real)] ! i \<noteq> [1, 2, 3] ! j"
    by (rule exI [of _ 0]) (auto intro: exI [of _ 1])
  show ?thesis
    using perform_regression_line [OF g1 g2 l line spread] by simp
qed

text \<open>
  C26.  \<open>perform_regression\<close> drops the missing cells of each column on its own and
  pairs what is left by position.  Over rows where the two columns miss the same cells
  this gives exactly the rows with both values; at the first row where x is present and
  y missing, that x is paired with the next present y of a later row, and every pair
  after it is shifted.
\<close>

theorem regression_pairs_rows:
  assumes "map (\<lambda>c. c = None) us = map (\<lambda>c. c = None) vs"
  shows "regression_pairs us vs = both_present us vs
         \<and> regression_pairs (us @ Some x # xs) (vs @ None # ys)
             = both_present us vs @ zip (x # dropna xs) (dropna ys)"
proof -
  have z: "both_present us vs = zip (dropna us) (dropna vs)"
    using assms by (rule both_present_same_mask)
  have l: "length (dropna us) = length (dropna vs)"
    using assms by (rule dropna_same_mask_length)
  show ?thesis
    by (simp add: regression_pairs_zip z l)
qed

theorem regression_pairs_rows_witness:
  "regression_pairs [Some 1] [Some 10] = both_present [Some (1::real)] [Some (10::real)]
   \<and> regression_pairs [Some 1, Some 3, None] [Some 10, None, Some 20]
       = both_present [Some (1::real)] [Some (10::real)] @ zip [3] [20]"
  using regression_pairs_rows [of "[Some 1]" "[Some 10]" 3 "[None]" "[Some 20]"] by simp

text \<open>
  C27.  The chi-square test's contingency table counts every row where both columns are
  present exactly once; with no such row the test fails with \<open>ValueError\<close>, otherwise
  the table goes to \<open>chi2_contingency\<close>.
\<close>

theorem chi_square_test_table:
  assumes "get_column (adf a) v1 = Inr k1" "get_column (adf a) v2 = Inr k2"
  shows "sum_list (map sum_list (crosstab (cells k1) (cells k2))) = length (both_present (cells k1) (cells k2))
       \<and> chi_square_test lib a v1 v2 =
           (if both_present (cells k1) (cells k2) = [] then Inl ValueError
            else Inr (chi2_contingency lib (crosstab (cells k1) (cells k2))))"
  using assms sum_crosstab_rows [of "both_present (cells k1) (cells k2)"]
  by (simp add: chi_square_test_def crosstab_empty_iff crosstab_def [of "cells k1" "cells k2"] Let_def
                sort_eq_Nil_iff)

theorem chi_square_test_table_witness:
  "sum_list (map sum_list (crosstab [Some (VStr ''a''), Some (VStr ''b''), None, Some (VStr ''a'')]
                                    [Some (VStr ''x''), Some (VStr ''x''), Some (VStr ''y''), None])) = 2"
proof -
  let ?k1 = "ObjCol [Some ''a'', Some ''b'', None, Some ''a'']" and ?k2 = "ObjCol [Some ''x'', Some ''x'', Some ''y'', None]"
  let ?a = "\<lparr>adf = \<lparr>columns = [(''c1'', ?k1), (''c2'', ?k2)], nrows = 4\<rparr>, column_types = []\<rparr>"
  have g1: "get_column (adf ?a) ''c1'' = Inr ?k1" and g2: "get_column (adf ?a) ''c2'' = Inr ?k2"
    by (simp_all add: get_column_def)
  show ?thesis
    using chi_square_test_table [OF g1 g2, of lib] by simp
qed

text \<open>
  C22.  \<open>select_variable\<close> of \<open>DataAnalysis2\<close> returns only a column carrying the
  requested label and, with \<open>max_categories\<close>, only one with at most that many
  distinct values.
\<close>

theorem select_variable2_result:
  assumes "select_variable2 a t mc skip ins = Inr (Some v, rest)"
  shows "(v, t) \<in> set (column_types a)
       \<and> (\<forall>m. mc = Some m \<longrightarrow> (\<exists>c. get_column (adf a) v = Inr c \<and> nunique c \<le> m))"
proof -
  let ?avail = "case mc of None \<Rightarrow> available a t | Some m \<Rightarrow> filter (within_categories (adf a) m) (available a t)"
  from assms have "prompt_loop ?avail ins = Inr (v, rest)"
    by (auto simp: select_variable2_def Let_def split: if_splits sum.splits)
  then have "v \<in> set ?avail"
    using prompt_loop_Inr by blast
  then show ?thesis
    by (cases mc) (auto simp: available_iff within_categories_def split: sum.splits)
qed

theorem select_variable2_result_witness:
  "select_variable2 \<lparr>adf = \<lparr>columns = [(''g'', ObjCol [Some ''a'', Some ''b''])], nrows = 2\<rparr>,
                     column_types = [(''g'', Nominal)]\<rparr> Nominal (Some 2) False [''g''] = Inr (Some ''g'', [])
   \<and> (''g'', Nominal) \<in> set [(''g'', Nominal)]"
proof -
  let ?a = "\<lparr>adf = \<lparr>columns = [(''g'', ObjCol [Some ''a'', Some ''b''])], nrows = 2\<rparr>,
             column_types = [(''g'', Nominal)]\<rparr>"
  have s: "select_variable2 ?a Nominal (Some 2) False [''g''] = Inr (Some ''g'', [])"
    by (simp add: select_variable2_def available_def within_categories_def get_column_def
                  nunique_ObjCol n_distinct_def)
  show ?thesis
    using select_variable2_result [OF s] s by simp
qed

text \<open>
  With no column carrying the requested label, \<open>select_variable\<close> of
  \<open>DataAnalysis2\<close> raises \<open>ValueError\<close> at once, or returns no column without
  reading input when skipping is allowed.
\<close>

theorem select_variable2_no_candidate:
  assumes "\<forall>v. (v, t) \<notin> set (column_types a)"
  shows "select_variable2 a t mc False ins = Inl ValueError \<and> select_variable2 a t mc True ins = Inr (None, ins)"
proof -
  have "available a t = []"
    using assms by (simp add: available_empty_iff)
  then show ?thesis
    by (cases mc) (simp_all add: select_variable2_def)
qed

theorem select_variable2_no_candidate_witness:
  "select_variable2 \<lparr>adf = \<lparr>columns = [], nrows = 0\<rparr>, column_types = [(''g'', Nominal)]\<rparr>
     Interval None False [''g''] = Inl ValueError"
  using select_variable2_no_candidate [of Interval "\<lparr>adf = \<lparr>columns = [], nrows = 0\<rparr>, column_types = [(''g'', Nominal)]\<rparr>"]
  by simp

lemma linregress_r_squared_bounds:
  assumes "linregress ps = Inr r"
  shows "0 \<le> r_squared r \<and> r_squared r \<le> 1"
proof -
  define mx where "mx = mean_of (map fst ps)"
  define my where "my = mean_of (map snd ps)"
  define sxx where "sxx = (\<Sum>p\<leftarrow>ps. (fst p - mx) * (fst p - mx))"
  define sxy where "sxy = (\<Sum>p\<leftarrow>ps. (fst p - mx) * (snd p - my))"
  define syy where "syy = (\<Sum>p\<leftarrow>ps. (snd p - my) * (snd p - my))"
  have r: "sxx \<noteq> 0" "r_squared r = (if syy = 0 then 0 else sxy * sxy / (sxx * syy))"
    using assms
    by (auto simp: linregress_def Let_def case_prod_unfold mx_def my_def sxx_def sxy_def syy_def
        split: if_splits)
  have nn: "0 \<le> sxx" "0 \<le> syy"
    unfolding sxx_def syy_def by (rule sum_list_squares_nonneg)+
  have cs: "sxy * sxy \<le> sxx * syy"
    unfolding sxx_def sxy_def syy_def by (rule cauchy_schwarz_list)
  show ?thesis
  proof (cases "syy = 0")
    case False
    with nn r(1) have pos: "0 < sxx * syy" by simp
    then show ?thesis
      using cs r(2) False by (simp add: divide_le_eq_1)
  qed (simp add: r(2))
qed

subsection \<open>Facts used by the menus\<close>

lemma mean_of_replicate: "0 < n \<Longrightarrow> mean_of (replicate n a) = a"
  by (simp add: mean_of_def sum_list_replicate)

lemma linregress_constant_x:
  assumes "length (remdups (map fst ps)) \<le> 1"
  shows "linregress ps = Inl ValueError"
proof (cases "ps = []")
  case True
  then show ?thesis by (simp add: linregress_def)
next
  case False
  obtain a where r: "remdups (map fst ps) = [a]"
  proof (cases "remdups (map fst ps)")
    case Nil
    with False show ?thesis by simp
  next
    case (Cons b bs)
    with assms have "bs = []" by simp
    with Cons show ?thesis using that by blast
  qed
  have a: "set (map fst ps) = {a}"
    by (metis r set_remdups list.set(1) list.set(2))
  have all: "\<forall>p \<in> set ps. fst p = a"
  proof
    fix p assume "p \<in> set ps"
    then have "fst p \<in> set (map fst ps)" by simp
    with a show "fst p = a" by simp
  qed
  have "replicate (length (map fst ps)) a = map fst ps"
    using a by (intro replicate_length_same) simp
  then have m: "mean_of (map fst ps) = a"
    using False mean_of_replicate [of "length ps" a] by simp
  have "(\<Sum>(x, y)\<leftarrow>ps. (x - a) * (x - a)) = 0"
    using all by (induction ps) auto
  then show ?thesis by (simp add: linregress_def Let_def m)
qed

lemma available2_column:
  assumes "distinct (column_names d)" "get_column d v = Inr c"
  shows "v \<in> set (available (init_analysis2 d) (classify2 c))"
proof -
  have "(v, c) \<in> set (columns d)"
    using assms by (simp add: get_column_distinct_iff)
  then have "(v, classify2 c) \<in> set (list_column_types2 d)"
    using assms(1) by (auto simp: list_column_types2_map intro: rev_image_eqI)
  then show ?thesis
    by (simp add: available_iff init_analysis2_def)
qed

lemma select_variable2_first:
  assumes "v \<in> set (available a t)" "case m of None \<Rightarrow> True | Some k \<Rightarrow> within_categories (adf a) k v"
  shows "select_variable2 a t m skip (v # rest) = Inr (Some v, rest)"
  using assms by (cases m) (auto simp: select_variable2_def Let_def filter_empty_conv)

end
