(* ===== verification/Sentiment.thy ===== *)
theory Sentiment
  imports Table Stats
begin

text \<open>
  \<open>src/sentiment_analysis.py\<close>, class \<open>SentimentAnalysis\<close>.  Its state is only the
  frame; each analysis maps the present entries of a text column, one by one, to a
  score and a three-way label.  The sentiment models are external: each backend is a
  function from a text to its raw output (VADER's compound score, TextBlob's polarity
  and subjectivity, the star-rating classifier's label and score).  The star-rating
  backend may be unavailable (\<open>transformers\<close> not installed), modelled as \<open>None\<close>:
  the analysis then raises \<open>ImportError\<close>.  The decimal thresholds are compared
  exactly (\<open>real\<close>); a score computed by the backend that equals the literal
  \<open>0.05\<close> is the same double, so the comparisons agree with the code's.
  \<open>get_text_columns\<close> gives, for each object column, its average entry length (NaN
  for a column with no entry) and its number of distinct entries.
\<close>

datatype sentiment = Positive | Neutral | Negative

record textblob_out =
  polarity :: real
  subjectivity :: real

record star_out =
  star_label :: string
  star_score :: real

definition vader_label :: "real \<Rightarrow> sentiment" where
  "vader_label score =
     (if score \<ge> 0.05 then Positive else if score \<le> -0.05 then Negative else Neutral)"

definition textblob_label :: "real \<Rightarrow> sentiment" where
  "textblob_label score = (if score > 0 then Positive else if score = 0 then Neutral else Negative)"

definition star_label_sentiment :: "string \<Rightarrow> sentiment" where
  "star_label_sentiment label =
     (if label \<in> {''4 stars'', ''5 stars''} then Positive
      else if label = ''3 stars'' then Neutral else Negative)"

definition vader_sentiment_analysis :: "(string \<Rightarrow> real) \<Rightarrow> string list \<Rightarrow> real list \<times> sentiment list" where
  "vader_sentiment_analysis compound data =
     (map compound data, map (\<lambda>e. vader_label (compound e)) data)"

definition textblob_sentiment_analysis ::
  "(string \<Rightarrow> textblob_out) \<Rightarrow> string list \<Rightarrow> real list \<times> sentiment list \<times> real list" where
  "textblob_sentiment_analysis blob data =
     (map (\<lambda>e. polarity (blob e)) data, map (\<lambda>e. textblob_label (polarity (blob e))) data,
      map (\<lambda>e. subjectivity (blob e)) data)"

definition distilbert_sentiment_analysis ::
  "(string \<Rightarrow> star_out) option \<Rightarrow> string list \<Rightarrow> py_error + real list \<times> sentiment list" where
  "distilbert_sentiment_analysis pipe data =
     (case pipe of
        None \<Rightarrow> Inl ImportError
      | Some p \<Rightarrow> Inr (map (\<lambda>e. star_score (p e)) data,
                     map (\<lambda>e. star_label_sentiment (star_label (p e))) data))"

definition text_columns :: "frame \<Rightarrow> colname list" where
  "text_columns df = map fst (filter (\<lambda>(n, c). \<not> is_numeric_dtype c) (columns df))"

definition text_column_summary :: "string option list \<Rightarrow> real option \<times> nat" where
  "text_column_summary xs = (mean (map (real \<circ> length) (dropna xs)), n_distinct (dropna xs))"

definition get_text_columns :: "frame \<Rightarrow> (colname \<times> real option \<times> nat) list" where
  "get_text_columns df =
     concat (map (\<lambda>(n, c). case c of ObjCol xs \<Rightarrow> [(n, text_column_summary xs)] | NumCol _ \<Rightarrow> [])
                 (columns df))"



subsection \<open>Lemmas\<close>




lemma vader_label_cases:
  "(vader_label x = Positive \<longleftrightarrow> x \<ge> 0.05) \<and> (vader_label x = Negative \<longleftrightarrow> x \<le> -0.05)
   \<and> (vader_label x = Neutral \<longleftrightarrow> -0.05 < x \<and> x < 0.05)"
  by (auto simp: vader_label_def)

lemma star_label_sentiment_cases:
  "(star_label_sentiment l = Positive \<longleftrightarrow> l \<in> {''4 stars'', ''5 stars''})
   \<and> (star_label_sentiment l = Neutral \<longleftrightarrow> l = ''3 stars'')
   \<and> (star_label_sentiment l = Negative \<longleftrightarrow> l \<notin> {''3 stars'', ''4 stars'', ''5 stars''})"
  unfolding star_label_sentiment_def
  by (cases "l \<in> {''4 stars'', ''5 stars''}"; cases "l = ''3 stars''") auto

lemma textblob_label_cases:
  "(textblob_label x = Positive \<longleftrightarrow> x > 0) \<and> (textblob_label x = Negative \<longleftrightarrow> x < 0)
   \<and> (textblob_label x = Neutral \<longleftrightarrow> x = 0)"
  by (auto simp: textblob_label_def)

subsection \<open>Properties of the sentiment component\<close>

text \<open>
  C8.  VADER labelling: one score and one label per entry, in order; the label is
  positive exactly when the compound score is at least 0.05, negative exactly when it is
  at most -0.05, neutral strictly between (so 0.05 is positive and -0.05 negative).
\<close>

theorem vader_sentiment_analysis_labels:
  assumes "vader_sentiment_analysis compound data = (scores, labels)"
  shows "length scores = length data \<and> length labels = length data
       \<and> (\<forall>i < length data. scores ! i = compound (data ! i)
            \<and> (labels ! i = Positive \<longleftrightarrow> scores ! i \<ge> 0.05)
            \<and> (labels ! i = Negative \<longleftrightarrow> scores ! i \<le> -0.05)
            \<and> (labels ! i = Neutral \<longleftrightarrow> -0.05 < scores ! i \<and> scores ! i < 0.05))"
proof -
  from assms have "scores = map compound data" "labels = map (\<lambda>e. vader_label (compound e)) data"
    by (simp_all add: vader_sentiment_analysis_def)
  then show ?thesis
    by (simp add: vader_label_cases)
qed

theorem vader_sentiment_analysis_labels_witness:
  "vader_sentiment_analysis (\<lambda>e. if e = ''good'' then 0.05 else if e = ''bad'' then -0.05 else 0)
     [''good'', ''bad'', ''meh''] = ([0.05, -0.05, 0], [Positive, Negative, Neutral])
   \<and> ([Positive, Negative, Neutral] ! 0 = Positive \<longleftrightarrow> [0.05, -0.05, 0::real] ! 0 \<ge> 0.05)
   \<and> ([Positive, Negative, Neutral] ! 1 = Negative \<longleftrightarrow> [0.05, -0.05, 0::real] ! 1 \<le> -0.05)"
proof -
  let ?f = "\<lambda>e. if e = ''good'' then 0.05 else if e = ''bad'' then -0.05 else (0::real)"
  have r: "vader_sentiment_analysis ?f [''good'', ''bad'', ''meh''] = ([0.05, -0.05, 0], [Positive, Negative, Neutral])"
    by (simp add: vader_sentiment_analysis_def vader_label_def)
  from vader_sentiment_analysis_labels [OF r]
  have "\<forall>i < length [''good'', ''bad'', ''meh'']. ([Positive, Negative, Neutral] ! i = Positive
          \<longleftrightarrow> [0.05, -0.05, 0::real] ! i \<ge> 0.05) \<and> ([Positive, Negative, Neutral] ! i = Negative
          \<longleftrightarrow> [0.05, -0.05, 0::real] ! i \<le> -0.05)"
    by blast
  then have "([Positive, Negative, Neutral] ! 0 = Positive \<longleftrightarrow> [0.05, -0.05, 0::real] ! 0 \<ge> 0.05)"
      "([Positive, Negative, Neutral] ! 1 = Negative \<longleftrightarrow> [0.05, -0.05, 0::real] ! 1 \<le> -0.05)"
    by (simp_all only: list.size add_Suc_right)
  with r show ?thesis by blast
qed

text \<open>
  C28.  TextBlob labelling: one polarity, one label and one subjectivity per entry, in
  order; the label is positive for polarity above 0, negative below 0, and neutral for
  polarity exactly 0.
\<close>

theorem textblob_sentiment_analysis_labels:
  assumes "textblob_sentiment_analysis blob data = (scores, labels, subj)"
  shows "length scores = length data \<and> length labels = length data \<and> length subj = length data
       \<and> (\<forall>i < length data. scores ! i = polarity (blob (data ! i)) \<and> subj ! i = subjectivity (blob (data ! i))
            \<and> (labels ! i = Positive \<longleftrightarrow> scores ! i > 0)
            \<and> (labels ! i = Negative \<longleftrightarrow> scores ! i < 0)
            \<and> (labels ! i = Neutral \<longleftrightarrow> scores ! i = 0))"
proof -
  from assms have "scores = map (\<lambda>e. polarity (blob e)) data"
      "labels = map (\<lambda>e. textblob_label (polarity (blob e))) data"
      "subj = map (\<lambda>e. subjectivity (blob e)) data"
    by (simp_all add: textblob_sentiment_analysis_def)
  then show ?thesis
    by (simp add: textblob_label_cases)
qed

theorem textblob_sentiment_analysis_labels_witness:
  "textblob_sentiment_analysis (\<lambda>e. \<lparr>polarity = 0, subjectivity = 1\<rparr>) [''plain''] = ([0], [Neutral], [1])
   \<and> ([Neutral] ! 0 = Neutral \<longleftrightarrow> [0::real] ! 0 = 0)"
proof -
  have r: "textblob_sentiment_analysis (\<lambda>e. \<lparr>polarity = 0, subjectivity = 1\<rparr>) [''plain''] = ([0], [Neutral], [1])"
    by (simp add: textblob_sentiment_analysis_def textblob_label_def)
  from textblob_sentiment_analysis_labels [OF r]
  have "\<forall>i < length [''plain'']. ([Neutral] ! i = Neutral \<longleftrightarrow> [0::real] ! i = 0)"
    by blast
  then have "[Neutral] ! 0 = Neutral \<longleftrightarrow> [0::real] ! 0 = 0"
    by simp
  with r show ?thesis by blast
qed

text \<open>
  C29.  Star-rating labelling: without the backend the analysis raises
  \<open>ImportError\<close>; with it, one score and one label per entry, positive for
  '4 stars' and '5 stars', neutral for '3 stars', and negative for every other label
  the model returns.
\<close>

theorem distilbert_sentiment_analysis_labels:
  "distilbert_sentiment_analysis None data = Inl ImportError
   \<and> (distilbert_sentiment_analysis (Some p) data = Inr (scores, labels) \<longrightarrow>
        length scores = length data \<and> length labels = length data
        \<and> (\<forall>i < length data. scores ! i = star_score (p (data ! i))
             \<and> (labels ! i = Positive \<longleftrightarrow> star_label (p (data ! i)) \<in> {''4 stars'', ''5 stars''})
             \<and> (labels ! i = Neutral \<longleftrightarrow> star_label (p (data ! i)) = ''3 stars'')
             \<and> (labels ! i = Negative \<longleftrightarrow> star_label (p (data ! i)) \<notin> {''3 stars'', ''4 stars'', ''5 stars''})))"
  by (auto simp: distilbert_sentiment_analysis_def star_label_sentiment_cases)

theorem distilbert_sentiment_analysis_labels_witness:
  "distilbert_sentiment_analysis (Some (\<lambda>e. \<lparr>star_label = e, star_score = 1\<rparr>)) [''3 stars'', ''unrated'']
   = Inr ([1, 1], [Neutral, Negative])"
proof -
  have "distilbert_sentiment_analysis (Some (\<lambda>e. \<lparr>star_label = e, star_score = 1\<rparr>)) [''3 stars'', ''unrated'']
      = Inr ([1, 1], map (\<lambda>e. star_label_sentiment e) [''3 stars'', ''unrated''])"
    by (simp add: distilbert_sentiment_analysis_def)
  moreover have "star_label_sentiment ''unrated'' = Negative"
  proof -
    have r: "distilbert_sentiment_analysis (Some (\<lambda>e. \<lparr>star_label = e, star_score = 1\<rparr>)) [''unrated'']
        = Inr ([1], [star_label_sentiment ''unrated''])"
      by (simp add: distilbert_sentiment_analysis_def)
    have "\<forall>i < length [''unrated'']. ([star_label_sentiment ''unrated''] ! i = Negative
            \<longleftrightarrow> star_label (\<lparr>star_label = [''unrated''] ! i, star_score = 1::real\<rparr>) \<notin> {''3 stars'', ''4 stars'', ''5 stars''})"
      using distilbert_sentiment_analysis_labels [of "[''unrated'']" "\<lambda>e. \<lparr>star_label = e, star_score = 1\<rparr>"] r
      by blast
    then show ?thesis by simp
  qed
  ultimately show ?thesis
    by (simp add: star_label_sentiment_def)
qed



end
