(* ===== verification/Menus.thy ===== *)
theory Menus
  imports Inspection Analysis2 Sentiment
begin

text \<open>
  \<open>src/main.py\<close>: the menus that connect the components.  Every \<open>input()\<close> takes the
  next line of the operator's input list; at its end \<open>input()\<close> raises \<open>EOFError\<close>.
  What the program shows is a list of \<open>event\<close>s (the plots drawn, the statistics
  computed, the messages about invalid choices); how a run ends is an \<open>outcome\<close>:
  \<open>sys.exit(1)\<close> after a load failure, \<open>break\<close> after option 5 (exit status 0), or
  an exception that escapes (\<open>main.py\<close> catches only the load error and the
  sentiment backend's \<open>ImportError\<close>).  The external collaborators are a record
  \<open>env\<close>: the CSV loader, the string parser behind \<open>pd.to_numeric\<close>, the statistics
  library and the three sentiment backends.
  \<^item> \<open>di_action\<close>/\<open>di_loop\<close>: \<open>data_inspection_menu\<close> after \<open>classify_columns\<close> on a
    copy of the frame (\<open>inspection_menu\<close>);
  \<^item> \<open>da1_action\<close>/\<open>da1_loop\<close>: \<open>data_analysis1_menu\<close>;
  \<^item> \<open>da2_action\<close>/\<open>da2_loop\<close>: \<open>data_analysis2_menu\<close>;
  \<^item> \<open>sentiment_menu\<close>: \<open>sentiment_analysis_menu\<close>;
  \<^item> \<open>main_loop\<close>, \<open>main\<close>: the main menu.
  A menu action returns the events it produced and either the exception that ended it
  or the input left; every loop iteration reads at least its menu choice, which is the
  termination measure of the loops.
\<close>

datatype event =
    EPlot plot | ECorr colname colname | EStd colname | EKurt colname | ESkew colname
  | EInvalid | ENormality test_name | EHypothesis test_name | ENoCategorical
  | ERegression regression | ETwoSample test_name | EChiSquare
  | ETextColumns "(colname \<times> real option \<times> nat) list" | ENotText
  | EVader "string list" "real list" "sentiment list"
  | ETextBlob "string list" "real list" "sentiment list" "real list"
  | EStars "string list" "real list" "sentiment list" | EUnavailable | ELoadError
  | EQQHistogram colname

datatype outcome = Exited nat | Crashed py_error

record env =
  load :: "string \<Rightarrow> frame option"
  parse :: "string \<Rightarrow> real option"
  lib :: stats_lib
  compound :: "string \<Rightarrow> real"
  blob :: "string \<Rightarrow> textblob_out"
  pipe :: "(string \<Rightarrow> star_out) option"

type_synonym step = "event list \<times> (py_error + inputs)"

definition read_line :: "inputs \<Rightarrow> py_error + string \<times> inputs" where
  "read_line ins = (case ins of [] \<Rightarrow> Inl EOFError | l # rest \<Rightarrow> Inr (l, rest))"

definition read_two :: "inputs \<Rightarrow> py_error + (string \<times> string) \<times> inputs" where
  "read_two ins = (case ins of a # b # rest \<Rightarrow> Inr ((a, b), rest) | _ \<Rightarrow> Inl EOFError)"

subsection \<open>Data inspection menu\<close>

definition di_action :: "string \<Rightarrow> inspection \<Rightarrow> inputs \<Rightarrow> step" where
  "di_action choice di ins =
     (let nc = numeric_columns di; oc = ordinal_columns di in
      if choice = ''1'' then
        (case read_two ins of Inl e \<Rightarrow> ([], Inl e)
         | Inr ((x, y), rest) \<Rightarrow>
             ((if x \<in> set nc \<and> y \<in> set nc then [EPlot (Scatter x y)] else [EInvalid]), Inr rest))
      else if choice = ''2'' then
        (case read_two ins of Inl e \<Rightarrow> ([], Inl e)
         | Inr ((n, od), rest) \<Rightarrow>
             ((if n \<in> set nc \<and> od \<in> set oc then [EPlot (BoxPlot od n)] else [EInvalid]), Inr rest))
      else if choice = ''3'' then
        (case read_two ins of Inl e \<Rightarrow> ([], Inl e)
         | Inr ((c1, c2), rest) \<Rightarrow>
             ((if c1 \<in> set nc \<and> c2 \<in> set nc then [ECorr c1 c2] else [EInvalid]), Inr rest))
      else if choice \<in> {''4'', ''5'', ''6''} then
        (case read_line ins of Inl e \<Rightarrow> ([], Inl e)
         | Inr (c, rest) \<Rightarrow>
             ((if c \<in> set nc
               then [if choice = ''4'' then EStd c else if choice = ''5'' then EKurt c else ESkew c]
               else [EInvalid]), Inr rest))
      else ([EInvalid], Inr ins))"

function di_loop :: "inspection \<Rightarrow> inputs \<Rightarrow> step" where
  "di_loop di [] = ([], Inl EOFError)"
| "di_loop di (choice # ins) =
     (if choice = ''7'' then ([], Inr ins)
      else (case di_action choice di ins of
              (ev, Inl e) \<Rightarrow> (ev, Inl e)
            | (ev, Inr rest) \<Rightarrow> (case di_loop di rest of (ev', r) \<Rightarrow> (ev @ ev', r))))"
  by pat_completeness auto

termination di_loop
  by (relation "measure (\<lambda>(di, ins). length ins)")
     (auto simp: di_action_def read_two_def read_line_def Let_def
           split: if_splits list.splits sum.splits)

text \<open>\<open>data_inspection_menu\<close>: the inspection works on \<open>df.copy()\<close>, classifies its
  columns (the plots drawn there are the first events) and runs the menu loop.\<close>

definition inspection_menu :: "env \<Rightarrow> frame \<Rightarrow> inputs \<Rightarrow> step" where
  "inspection_menu E d ins =
     (case classify_columns (parse E) \<lparr>df = d, plots = []\<rparr> of
        Inl e \<Rightarrow> ([], Inl e)
      | Inr di \<Rightarrow> (case di_loop di ins of (ev, r) \<Rightarrow> (map EPlot (plots di) @ ev, r)))"

subsection \<open>Statistical analysis 1 menu\<close>

text \<open>\<open>da1.df[v]\<close> of a selected column; a text column where the code expects numbers
  makes scipy fail (\<open>TypeError\<close>).\<close>

definition numeric_data :: "analysis \<Rightarrow> colname option \<Rightarrow> py_error + real option list" where
  "numeric_data a v =
     (case v of None \<Rightarrow> Inl KeyError
      | Some c \<Rightarrow> (case get_column (adf a) c of Inl e \<Rightarrow> Inl e
                  | Inr (NumCol xs) \<Rightarrow> Inr xs | Inr (ObjCol _) \<Rightarrow> Inl TypeError))"

text \<open>\<open>DataAnalysis1.plot_qq_histogram(data, title)\<close>: one figure with the Q-Q plot and
  the histogram of the selected column, titled by its name.\<close>

definition plot_qq_histogram :: "colname \<Rightarrow> event" where
  "plot_qq_histogram title = EQQHistogram title"

definition da1_action :: "stats_lib \<Rightarrow> string \<Rightarrow> analysis \<Rightarrow> inputs \<Rightarrow> step" where
  "da1_action L choice a ins =
     (if choice = ''1'' then
        (case select_variable1 a Interval False ins of Inl e \<Rightarrow> ([], Inl e)
         | Inr (v, rest) \<Rightarrow>
             (case (v, numeric_data a v) of
                (_, Inl e) \<Rightarrow> ([], Inl e)
              | (None, Inr _) \<Rightarrow> ([], Inl KeyError)
              | (Some cv, Inr xs) \<Rightarrow>
                  ([plot_qq_histogram cv, ENormality (fst (check_normality1 L xs 2000))], Inr rest)))
      else if choice = ''2'' then
        (case select_variable1 a Interval False ins of Inl e \<Rightarrow> ([], Inl e)
         | Inr (v, rest1) \<Rightarrow>
             (case select_variable1 a Nominal True rest1 of Inl e \<Rightarrow> ([], Inl e)
              | Inr (cat, rest2) \<Rightarrow>
                  (case numeric_data a v of Inl e \<Rightarrow> ([], Inl e)
                   | Inr xs \<Rightarrow>
                       (case read_line rest2 of Inl e \<Rightarrow> ([], Inl e)
                        | Inr (null_hyp, rest) \<Rightarrow>
                            (case (v, cat) of
                               (Some cv, Some k) \<Rightarrow>
                                 (if k = [] then ([ENoCategorical], Inr rest)
                                  else (case hypothesis_test L a cv k (check_skewness L xs) of
                                          Inl e \<Rightarrow> ([], Inl e)
                                        | Inr (t, _) \<Rightarrow> ([EHypothesis t], Inr rest)))
                             | _ \<Rightarrow> ([ENoCategorical], Inr rest))))))
      else ([EInvalid], Inr ins))"

function da1_loop :: "stats_lib \<Rightarrow> analysis \<Rightarrow> inputs \<Rightarrow> step" where
  "da1_loop L a [] = ([], Inl EOFError)"
| "da1_loop L a (choice # ins) =
     (if choice = ''3'' then ([], Inr ins)
      else (case da1_action L choice a ins of
              (ev, Inl e) \<Rightarrow> (ev, Inl e)
            | (ev, Inr rest) \<Rightarrow> (case da1_loop L a rest of (ev', r) \<Rightarrow> (ev @ ev', r))))"
  by pat_completeness auto

lemma read_line_Inr: "read_line ins = Inr (l, rest) \<longleftrightarrow> ins = l # rest"
  by (auto simp: read_line_def split: list.splits)

lemma read_line_suffix [consumes]: "read_line ins = Inr (l, rest) \<Longrightarrow> suffix rest ins"
  by (simp add: read_line_Inr suffix_ConsI)

lemma da1_action_suffix [consumes]: "da1_action L choice a ins = (ev, Inr rest) \<Longrightarrow> suffix rest ins"
  unfolding da1_action_def
  by (auto split: if_splits sum.splits prod.splits option.splits
           dest!: consumes intro: suffix_order.trans)

termination da1_loop
  by (relation "measure (\<lambda>(L, a, ins). length ins)") (auto dest!: da1_action_suffix[OF sym] suffix_length_le)

text \<open>\<open>data_analysis1_menu(df)\<close>: \<open>da1 = DataAnalysis1(df)\<close> (the column dictionary is
  built once, on entry), then the menu loop.\<close>

definition data_analysis1_menu :: "stats_lib \<Rightarrow> frame \<Rightarrow> inputs \<Rightarrow> step" where
  "data_analysis1_menu L d ins = da1_loop L (init_analysis1 d) ins"

subsection \<open>Statistical analysis 2 menu\<close>

definition da2_action :: "stats_lib \<Rightarrow> string \<Rightarrow> analysis \<Rightarrow> inputs \<Rightarrow> step" where
  "da2_action L choice a ins =
     (if choice = ''1'' then
        (case select_variable2 a Interval None False ins of Inl e \<Rightarrow> ([], Inl e)
         | Inr (x, rest1) \<Rightarrow>
             (case select_variable2 a Interval None False rest1 of Inl e \<Rightarrow> ([], Inl e)
              | Inr (y, rest) \<Rightarrow>
                  (case (x, y) of
                     (Some xv, Some yv) \<Rightarrow>
                       (case perform_regression a xv yv of Inl e \<Rightarrow> ([], Inl e)
                        | Inr r \<Rightarrow> ([ERegression r], Inr rest))
                   | _ \<Rightarrow> ([], Inl KeyError))))
      else if choice = ''2'' then
        (case select_variable2 a Interval None False ins of Inl e \<Rightarrow> ([], Inl e)
         | Inr (cv, rest1) \<Rightarrow>
             (case select_variable2 a Nominal (Some 2) False rest1 of Inl e \<Rightarrow> ([], Inl e)
              | Inr (k, rest) \<Rightarrow>
                  (case (cv, k) of
                     (Some c, Some kv) \<Rightarrow>
                       (case t_test_or_mannwhitney L a c kv of Inl e \<Rightarrow> ([], Inl e)
                        | Inr (t, _) \<Rightarrow> ([ETwoSample t], Inr rest))
                   | _ \<Rightarrow> ([], Inl KeyError))))
      else if choice = ''3'' then
        (case select_variable2 a Nominal None False ins of Inl e \<Rightarrow> ([], Inl e)
         | Inr (v1, rest1) \<Rightarrow>
             (case select_variable2 a Nominal None False rest1 of Inl e \<Rightarrow> ([], Inl e)
              | Inr (v2, rest) \<Rightarrow>
                  (case (v1, v2) of
                     (Some c1, Some c2) \<Rightarrow>
                       (case chi_square_test L a c1 c2 of Inl e \<Rightarrow> ([], Inl e)
                        | Inr _ \<Rightarrow> ([EChiSquare], Inr rest))
                   | _ \<Rightarrow> ([], Inl KeyError))))
      else ([EInvalid], Inr ins))"

lemma da2_action_suffix [consumes]: "da2_action L choice a ins = (ev, Inr rest) \<Longrightarrow> suffix rest ins"
  unfolding da2_action_def
  by (auto split: if_splits sum.splits prod.splits option.splits
           dest!: consumes intro: suffix_order.trans)

function da2_loop :: "stats_lib \<Rightarrow> analysis \<Rightarrow> inputs \<Rightarrow> step" where
  "da2_loop L a [] = ([], Inl EOFError)"
| "da2_loop L a (choice # ins) =
     (if choice = ''4'' then ([], Inr ins)
      else (case da2_action L choice a ins of
              (ev, Inl e) \<Rightarrow> (ev, Inl e)
            | (ev, Inr rest) \<Rightarrow> (case da2_loop L a rest of (ev', r) \<Rightarrow> (ev @ ev', r))))"
  by pat_completeness auto

termination da2_loop
  by (relation "measure (\<lambda>(L, a, ins). length ins)") (auto dest!: da2_action_suffix[OF sym] suffix_length_le)

text \<open>\<open>data_analysis2_menu(df)\<close>: \<open>da2 = DataAnalysis2(df)\<close>, then the menu loop.\<close>

definition data_analysis2_menu :: "stats_lib \<Rightarrow> frame \<Rightarrow> inputs \<Rightarrow> step" where
  "data_analysis2_menu L d ins = da2_loop L (init_analysis2 d) ins"

subsection \<open>Sentiment analysis menu\<close>

text \<open>\<open>sentiment_analysis_menu\<close>: the text-column summary, the column asked for (an
  unknown name or a column that is not of dtype object ends the menu), then the backend
  run on \<open>df[column_name].dropna()\<close>; only the DistilBERT branch catches \<open>ImportError\<close>.\<close>

definition sentiment_menu :: "env \<Rightarrow> frame \<Rightarrow> inputs \<Rightarrow> step" where
  "sentiment_menu E d ins =
     (let summary = [ETextColumns (get_text_columns d)] in
      case read_line ins of Inl e \<Rightarrow> (summary, Inl e)
      | Inr (name, rest1) \<Rightarrow>
          (case get_column d name of
             Inl _ \<Rightarrow> (summary @ [EInvalid], Inr rest1)
           | Inr (NumCol _) \<Rightarrow> (summary @ [ENotText], Inr rest1)
           | Inr (ObjCol xs) \<Rightarrow>
               (let texts = dropna xs in
                case read_line rest1 of Inl e \<Rightarrow> (summary, Inl e)
                | Inr (kind, rest) \<Rightarrow>
                    (summary @
                     (if kind = ''1'' then
                        (case vader_sentiment_analysis (compound E) texts of
                           (scores, labels) \<Rightarrow> [EVader texts scores labels])
                      else if kind = ''2'' then
                        (case textblob_sentiment_analysis (blob E) texts of
                           (scores, labels, subj) \<Rightarrow> [ETextBlob texts scores labels subj])
                      else if kind = ''3'' then
                        (case distilbert_sentiment_analysis (pipe E) texts of
                           Inl _ \<Rightarrow> [EUnavailable]
                         | Inr (scores, labels) \<Rightarrow> [EStars texts scores labels])
                      else [EInvalid]), Inr rest))))"

lemma sentiment_menu_suffix [consumes]: "sentiment_menu E d ins = (ev, Inr rest) \<Longrightarrow> suffix rest ins"
  unfolding sentiment_menu_def Let_def
  by (auto split: sum.splits prod.splits column.splits dest!: consumes intro: suffix_order.trans)

subsection \<open>Main menu\<close>

lemma di_action_suffix [consumes]: "di_action choice di ins = (ev, Inr rest) \<Longrightarrow> suffix rest ins"
  unfolding di_action_def Let_def read_two_def
  by (auto split: if_splits sum.splits prod.splits list.splits dest!: consumes
           intro: suffix_ConsI)

lemma di_loop_suffix [consumes]: "di_loop di ins = (ev, Inr rest) \<Longrightarrow> suffix rest ins"
proof (induction di ins arbitrary: ev rule: di_loop.induct)
  case (2 di choice ins)
  then show ?case
    by (fastforce split: if_splits sum.splits prod.splits dest: di_action_suffix
        intro: suffix_ConsI suffix_order.trans)
qed simp

lemma inspection_menu_suffix [consumes]: "inspection_menu E d ins = (ev, Inr rest) \<Longrightarrow> suffix rest ins"
  by (auto simp: inspection_menu_def split: sum.splits prod.splits dest!: di_loop_suffix)

lemma da1_loop_suffix [consumes]: "da1_loop L a ins = (ev, Inr rest) \<Longrightarrow> suffix rest ins"
proof (induction L a ins arbitrary: ev rule: da1_loop.induct)
  case (2 L a choice ins)
  then show ?case
    by (fastforce split: if_splits sum.splits prod.splits dest: da1_action_suffix
        intro: suffix_ConsI suffix_order.trans)
qed simp

lemma da2_loop_suffix [consumes]: "da2_loop L a ins = (ev, Inr rest) \<Longrightarrow> suffix rest ins"
proof (induction L a ins arbitrary: ev rule: da2_loop.induct)
  case (2 L a choice ins)
  then show ?case
    by (fastforce split: if_splits sum.splits prod.splits dest: da2_action_suffix
        intro: suffix_ConsI suffix_order.trans)
qed simp

text \<open>One choice of the main menu (options 1 to 4 and an invalid choice).\<close>

definition submenu :: "env \<Rightarrow> string \<Rightarrow> frame \<Rightarrow> inputs \<Rightarrow> step" where
  "submenu E choice d ins =
     (if choice = ''1'' then inspection_menu E d ins
      else if choice = ''2'' then data_analysis1_menu (lib E) d ins
      else if choice = ''3'' then data_analysis2_menu (lib E) d ins
      else if choice = ''4'' then sentiment_menu E d ins
      else ([EInvalid], Inr ins))"

lemmas menu_defs = submenu_def data_analysis1_menu_def data_analysis2_menu_def

lemma submenu_suffix [consumes]: "submenu E choice d ins = (ev, Inr rest) \<Longrightarrow> suffix rest ins"
  unfolding menu_defs
  by (auto split: if_splits dest!: inspection_menu_suffix da1_loop_suffix da2_loop_suffix
           sentiment_menu_suffix)

function main_loop :: "env \<Rightarrow> frame \<Rightarrow> inputs \<Rightarrow> event list \<times> outcome" where
  "main_loop E d [] = ([], Crashed EOFError)"
| "main_loop E d (choice # ins) =
     (if choice = ''5'' then ([], Exited 0)
      else (case submenu E choice d ins of
              (ev, Inl e) \<Rightarrow> (ev, Crashed e)
            | (ev, Inr rest) \<Rightarrow> (case main_loop E d rest of (ev', r) \<Rightarrow> (ev @ ev', r))))"
  by pat_completeness auto

termination main_loop
  by (relation "measure (\<lambda>(E, d, ins). length ins)") (auto dest!: submenu_suffix[OF sym] suffix_length_le)

text \<open>\<open>main()\<close>: the file path, \<open>pd.read_csv\<close> (any failure prints the error and
  exits with status 1), then the main menu on the loaded frame.\<close>

definition main :: "env \<Rightarrow> inputs \<Rightarrow> event list \<times> outcome" where
  "main E ins =
     (case read_line ins of
        Inl e \<Rightarrow> ([], Crashed e)
      | Inr (path, rest) \<Rightarrow>
          (case load E path of
             None \<Rightarrow> ([ELoadError], Exited 1)
           | Some d \<Rightarrow> main_loop E d rest))"

subsection \<open>Specifications of the menus\<close>

text \<open>A plot or statistic of the inspection menu is computed on numeric columns of the
  inspected frame, a box plot grouped by one of its text columns.\<close>

definition di_event_ok :: "frame \<Rightarrow> event \<Rightarrow> bool" where
  "di_event_ok d ev =
     (case ev of
        EPlot p \<Rightarrow>
          (case p of
             Scatter x y \<Rightarrow> numeric_in d x \<and> numeric_in d y
           | BoxPlot od n \<Rightarrow> numeric_in d n \<and> od \<in> set (column_names d) \<and> \<not> numeric_in d od
           | _ \<Rightarrow> True)
      | ECorr a b \<Rightarrow> numeric_in d a \<and> numeric_in d b
      | EStd c \<Rightarrow> numeric_in d c
      | EKurt c \<Rightarrow> numeric_in d c
      | ESkew c \<Rightarrow> numeric_in d c
      | _ \<Rightarrow> True)"

abbreviation null_lib :: stats_lib where
  "null_lib \<equiv> \<lparr>shapiro = \<lambda>_. (0, 0), anderson = \<lambda>_. (0, []), skew = \<lambda>_. 0,
                kruskal = \<lambda>_. (0, 0), f_oneway = \<lambda>_. (0, 0), ttest_ind = \<lambda>_ _. (0, 0),
                mannwhitneyu = \<lambda>_ _. (0, 0), chi2_contingency = \<lambda>_. (0, 0)\<rparr>"

subsection \<open>Lemmas\<close>

lemma numeric_columns_in:
  assumes "distinct (column_names (df di))" "c \<in> set (numeric_columns di)"
  shows "numeric_in (df di) c"
proof -
  from assms(2) obtain col where col: "(c, col) \<in> set (columns (df di))" "is_numeric_dtype col"
    by (auto simp: numeric_columns_def)
  then obtain xs where "col = NumCol xs" by (cases col) auto
  moreover have "get_column (df di) c = Inr col"
    using col(1) assms(1) by (simp add: get_column_distinct_iff)
  ultimately show ?thesis by (simp add: numeric_in_def)
qed

lemma ordinal_columns_in:
  assumes "distinct (column_names (df di))" "c \<in> set (ordinal_columns di)"
  shows "c \<in> set (column_names (df di)) \<and> \<not> numeric_in (df di) c"
proof -
  from assms(2) obtain col where col: "(c, col) \<in> set (columns (df di))" "\<not> is_numeric_dtype col"
    by (auto simp: ordinal_columns_def)
  then obtain xs where "col = ObjCol xs" by (cases col) auto
  moreover have "get_column (df di) c = Inr col"
    using col(1) assms(1) by (simp add: get_column_distinct_iff)
  ultimately show ?thesis by (simp add: numeric_in_def get_column_present)
qed

lemma di_action_ok:
  assumes "distinct (column_names (df di))"
  shows "list_all (di_event_ok (df di)) (fst (di_action choice di ins))"
  using numeric_columns_in [OF assms] ordinal_columns_in [OF assms]
  by (auto simp: di_action_def di_event_ok_def Let_def read_two_def read_line_def
           split: list.splits)

subsection \<open>Properties of the menus\<close>

text \<open>
  C35.  Every scatter plot, box plot, correlation, standard deviation, kurtosis and
  skewness the data inspection menu produces is computed on numeric columns of the
  cleaned frame (a box plot grouped by a text column): the membership guards of
  \<open>data_inspection_menu\<close> keep \<open>Series.corr\<close>, \<open>std\<close>, \<open>kurt\<close> and \<open>skew\<close> away from text.
\<close>

theorem di_loop_events_numeric:
  assumes "distinct (column_names (df di))"
  shows "list_all (di_event_ok (df di)) (fst (di_loop di ins))"
  using assms
proof (induction di ins rule: di_loop.induct)
  case (2 di choice ins)
  have "list_all (di_event_ok (df di)) (fst (di_action choice di ins))"
    using "2.prems" by (rule di_action_ok)
  with 2 show ?case
    by (auto split: sum.splits prod.splits)
qed simp

theorem di_loop_events_numeric_witness:
  "distinct (column_names (df \<lparr>df = \<lparr>columns = [(''a'', NumCol [Some 1, Some 2]),
        (''b'', NumCol [Some 3, Some 5]), (''c'', ObjCol [Some ''x'', Some ''y''])], nrows = 2\<rparr>,
        plots = []\<rparr>)) \<and>
   fst (di_loop \<lparr>df = \<lparr>columns = [(''a'', NumCol [Some 1, Some 2]),
        (''b'', NumCol [Some 3, Some 5]), (''c'', ObjCol [Some ''x'', Some ''y''])], nrows = 2\<rparr>,
        plots = []\<rparr> [''3'', ''a'', ''b'', ''2'', ''a'', ''c'', ''4'', ''c'', ''7''])
     = [ECorr ''a'' ''b'', EPlot (BoxPlot ''c'' ''a''), EInvalid] \<and>
   list_all (di_event_ok \<lparr>columns = [(''a'', NumCol [Some 1, Some 2]),
        (''b'', NumCol [Some 3, Some 5]), (''c'', ObjCol [Some ''x'', Some ''y''])], nrows = 2\<rparr>)
     [ECorr ''a'' ''b'', EPlot (BoxPlot ''c'' ''a''), EInvalid]"
  using di_loop_events_numeric [of "\<lparr>df = \<lparr>columns = [(''a'', NumCol [Some 1, Some 2]),
        (''b'', NumCol [Some 3, Some 5]), (''c'', ObjCol [Some ''x'', Some ''y''])], nrows = 2\<rparr>,
        plots = []\<rparr>" "[''3'', ''a'', ''b'', ''2'', ''a'', ''c'', ''4'', ''c'', ''7'']"]
  by (simp add: column_names_def di_action_def numeric_columns_def ordinal_columns_def
        read_two_def read_line_def)

text \<open>
  C38.  Without the \<open>transformers\<close> library, choosing DistilBERT on a text column
  prints that the library is missing and returns to the main menu: the
  \<open>ImportError\<close> raised by \<open>distilbert_sentiment_analysis\<close> is caught.
\<close>

theorem sentiment_menu_import_error:
  assumes "pipe E = None" "get_column d name = Inr (ObjCol xs)"
  shows "sentiment_menu E d (name # ''3'' # rest) = ([ETextColumns (get_text_columns d), EUnavailable], Inr rest)"
  using assms
  by (simp add: sentiment_menu_def distilbert_sentiment_analysis_def read_line_def Let_def)

theorem sentiment_menu_import_error_witness:
  "sentiment_menu \<lparr>load = \<lambda>_. None, parse = \<lambda>_. None, lib = null_lib, compound = \<lambda>_. 0,
        blob = \<lambda>_. \<lparr>polarity = 0, subjectivity = 0\<rparr>, pipe = None\<rparr>
     \<lparr>columns = [(''review'', ObjCol [Some ''good'', None])], nrows = 2\<rparr> [''review'', ''3'']
   = ([ETextColumns (get_text_columns \<lparr>columns = [(''review'', ObjCol [Some ''good'', None])], nrows = 2\<rparr>),
       EUnavailable], Inr [])"
  by (rule sentiment_menu_import_error) (simp_all add: get_column_def)

text \<open>
  C39.  When the dataset cannot be loaded, \<open>main\<close> prints the error and exits with
  status 1 before showing the main menu.
\<close>

theorem main_load_error:
  assumes "load E path = None"
  shows "main E (path # rest) = ([ELoadError], Exited 1)"
  using assms by (simp add: main_def read_line_def)

theorem main_load_error_witness:
  "main \<lparr>load = \<lambda>_. None, parse = \<lambda>_. None, lib = null_lib, compound = \<lambda>_. 0,
        blob = \<lambda>_. \<lparr>polarity = 0, subjectivity = 0\<rparr>, pipe = None\<rparr> [''missing.csv'', ''5'']
   = ([ELoadError], Exited 1)"
  by (rule main_load_error) simp

text \<open>
  C15.  The main loop ends normally only through option 5: a run of \<open>main_loop\<close> that
  exits has exit status 0 and read a line \<open>5\<close> at some point; every other run ends
  with an exception (at the latest \<open>EOFError\<close> at the end of the input, which the
  input-length measure of its termination proof guarantees is reached).
\<close>

theorem main_loop_exit:
  assumes "snd (main_loop E d ins) = Exited n"
  shows "n = 0 \<and> (\<exists>pre rest. ins = pre @ ''5'' # rest)"
  using assms
proof (induction E d ins rule: main_loop.induct)
  case (2 E d choice ins)
  show ?case
  proof (cases "choice = ''5''")
    case True
    with "2.prems" show ?thesis by auto
  next
    case False
    then obtain ev rest where sub: "submenu E choice d ins = (ev, Inr rest)"
      and more: "snd (main_loop E d rest) = Exited n"
      using "2.prems" by (auto split: prod.splits sum.splits)
    from "2.IH" [OF False sub [symmetric] refl more]
    obtain pre r where "n = 0" "rest = pre @ ''5'' # r" by blast
    moreover obtain zs where "ins = zs @ rest"
      using submenu_suffix [OF sub] by (auto simp: suffix_def)
    ultimately show ?thesis
      by (metis append.assoc append_Cons)
  qed
qed simp

theorem main_loop_exit_witness:
  "snd (main_loop \<lparr>load = \<lambda>_. None, parse = \<lambda>_. None, lib = null_lib, compound = \<lambda>_. 0,
        blob = \<lambda>_. \<lparr>polarity = 0, subjectivity = 0\<rparr>, pipe = None\<rparr>
     \<lparr>columns = [], nrows = 0\<rparr> [''9'', ''5'']) = Exited 0
   \<and> (0::nat) = 0 \<and> [''9'', ''5''] = [''9''] @ ''5'' # []"
  using main_loop_exit [of "\<lparr>load = \<lambda>_. None, parse = \<lambda>_. None, lib = null_lib, compound = \<lambda>_. 0,
        blob = \<lambda>_. \<lparr>polarity = 0, subjectivity = 0\<rparr>, pipe = None\<rparr>" "\<lparr>columns = [], nrows = 0\<rparr>"
      "[''9'', ''5'']" 0]
  by (simp add: menu_defs)

text \<open>
  C36.  The data inspection menu returns to the main menu only through its back option:
  when \<open>di_loop\<close> returns, the input it consumed ends with the line \<open>7\<close> (a \<open>7\<close> read
  as a column name does not count).
\<close>

theorem di_loop_exit:
  assumes "snd (di_loop di ins) = Inr rest"
  shows "\<exists>pre. ins = pre @ ''7'' # rest"
  using assms
proof (induction di ins rule: di_loop.induct)
  case (2 di choice ins)
  show ?case
  proof (cases "choice = ''7''")
    case True
    with "2.prems" show ?thesis by auto
  next
    case False
    then obtain ev r where act: "di_action choice di ins = (ev, Inr r)"
      and more: "snd (di_loop di r) = Inr rest"
      using "2.prems" by (auto split: prod.splits sum.splits)
    from "2.IH" [OF False act [symmetric] refl more]
    obtain pre where "r = pre @ ''7'' # rest" by blast
    moreover obtain zs where "ins = zs @ r"
      using di_action_suffix [OF act] by (auto simp: suffix_def)
    ultimately show ?thesis
      by (metis append.assoc append_Cons)
  qed
qed simp

theorem di_loop_exit_witness:
  "snd (di_loop \<lparr>df = \<lparr>columns = [], nrows = 0\<rparr>, plots = []\<rparr> [''4'', ''7'', ''7'', ''5'']) = Inr [''5'']
   \<and> [''4'', ''7'', ''7'', ''5''] = [''4'', ''7''] @ ''7'' # [''5'']"
  using di_loop_exit [of "\<lparr>df = \<lparr>columns = [], nrows = 0\<rparr>, plots = []\<rparr>" "[''4'', ''7'', ''7'', ''5'']" "[''5'']"]
  by (simp add: di_action_def read_line_def numeric_columns_def ordinal_columns_def)

text \<open>
  C40.  The sentiment menu rejects a column that is not text: an unknown name prints
  ``Invalid column name'', a numeric column ``not a text column'', and in both cases
  the menu returns after reading only the column name, so the next line is read as a
  main-menu choice.
\<close>

theorem sentiment_menu_not_text:
  assumes "\<not> text_in d name"
  shows "sentiment_menu E d (name # rest) =
           ([ETextColumns (get_text_columns d),
             if name \<in> set (column_names d) then ENotText else EInvalid], Inr rest)"
  using assms
  by (auto simp: sentiment_menu_def read_line_def text_in_def column_names_iff
           split: sum.splits column.splits)

theorem sentiment_menu_not_text_witness:
  "\<not> text_in \<lparr>columns = [(''age'', NumCol [Some 22])], nrows = 1\<rparr> ''age''
   \<and> sentiment_menu \<lparr>load = \<lambda>_. None, parse = \<lambda>_. None, lib = null_lib, compound = \<lambda>_. 0,
        blob = \<lambda>_. \<lparr>polarity = 0, subjectivity = 0\<rparr>, pipe = None\<rparr>
       \<lparr>columns = [(''age'', NumCol [Some 22])], nrows = 1\<rparr> [''age'', ''1'']
     = ([ETextColumns [], ENotText], Inr [''1''])"
proof -
  have t: "\<not> text_in \<lparr>columns = [(''age'', NumCol [Some (22::real)])], nrows = 1\<rparr> ''age''"
    by (simp add: text_in_def get_column_def)
  show ?thesis
    using sentiment_menu_not_text [OF t, of "\<lparr>load = \<lambda>_. None, parse = \<lambda>_. None, lib = null_lib,
        compound = \<lambda>_. 0, blob = \<lambda>_. \<lparr>polarity = 0, subjectivity = 0\<rparr>, pipe = None\<rparr>" "[''1'']"] t
    by (simp add: get_text_columns_def column_names_def)
qed

end
