(* ===== verification/Spec2Isabelle.thy ===== *)
theory Spec2Isabelle
  imports Menus
begin

text \<open>
  \<^bold>\<open>Verification development of the exploratory-data-analysis tool\<close>
  (\<open>src/main.py\<close>, \<open>src/data_inspection.py\<close>, \<open>src/data_analysis1.py\<close>,
  \<open>src/data_analysis2.py\<close>, \<open>src/sentiment_analysis.py\<close>).

  \<^bold>\<open>The program.\<close>  \<open>main()\<close> reads a CSV path, loads the table with pandas and runs a
  text menu.  Each option builds one component on the loaded frame and runs its own
  menu: \<open>DataInspection\<close> (missing-value policy, type repair, central tendency and
  plots, then scatter/box plots and summary statistics on a copy of the frame),
  \<open>DataAnalysis1\<close> and \<open>DataAnalysis2\<close> (column classification, variable selection by
  class, and dispatch between two statistical tests), and \<open>SentimentAnalysis\<close> (three
  scoring backends on a text column).  All statistics come from scipy, all text
  scores from VADER, TextBlob or a transformers pipeline; the components only
  classify, select, guard and dispatch.

  \<^bold>\<open>Theories.\<close>
  \<^item> \<open>Prelude\<close>: the exception names of the program (\<open>py_error\<close>), the values of a
    cell (\<open>pyvalue\<close>, with pandas' order: numbers before strings), the operator's input
    (\<open>inputs\<close>, a list of lines) and the generic cell operations on \<open>'a option list\<close>
    (\<open>dropna\<close>, \<open>fillna\<close>, \<open>count_missing\<close>, \<open>n_distinct\<close>) with their lemmas.
  \<^item> \<open>Table\<close>: a pandas \<open>DataFrame\<close> as the record \<open>frame\<close> (an association list of
    named \<open>column\<close>s, each \<open>NumCol\<close> or \<open>ObjCol\<close> by dtype, and the row count);
    \<open>df[col]\<close> (\<open>get_column\<close>, \<open>KeyError\<close> when absent), \<open>df.drop\<close>, \<open>df[col] = ...\<close>,
    \<open>nunique()\<close> and \<open>len(unique())\<close>, the well-formedness invariant \<open>wf_frame\<close>
    and the grouping behind \<open>groupby\<close>/\<open>crosstab\<close>.
  \<^item> \<open>Stats\<close>: \<open>Series.mean\<close>, \<open>median\<close> and \<open>mode()[0]\<close> on the present values, with
    their characterisations (the median splits the sorted data in halves; the first
    mode is the least of the most frequent values).
  \<^item> \<open>Inspection\<close>: \<open>data_inspection.py\<close>.  The object is the record \<open>inspection\<close>
    (its frame and the plots drawn); \<open>load_csv\<close> (the loader a parameter, its
    failure \<open>ReadError\<close>; \<open>main.py\<close> never calls it), \<open>handle_missing_values\<close>,
    \<open>check_data_types\<close>, \<open>classify_and_calculate\<close> and \<open>classify_columns\<close> return it
    updated, or the exception the code raises; \<open>plot_boxplot\<close> is the one drawing call
    that can fail (pandas' grouped box plot raises \<open>ValueError\<close> without a group).
    Lemmas: the 50 percent policy (drop, median fill, mode fill), the range of the
    imputed values, preservation of \<open>wf_frame\<close>, the central-tendency choice, the
    outcome of the whole pass and its exception on an empty table, the invariant that every
    plot drawn fits the dtype of its column (\<open>plot_fits\<close>), the round trip of
    \<open>check_data_types\<close> on printed numbers, and the equivalence of the whole pass with
    the single-column passes composed in column order (\<open>column_pass\<close>, \<open>columnwise\<close>:
    the loop over \<open>df.columns\<close> never lets one column influence another).
  \<^item> \<open>Scipy\<close>: the statistics library as a record of functions \<open>stats_lib\<close>; every
    theorem holds for any library.  \<open>call_two_sample\<close> models \<open>f(*groups)\<close>.
  \<^item> \<open>Analysis1\<close>, \<open>Analysis2\<close>: \<open>data_analysis1.py\<close>, \<open>data_analysis2.py\<close>.  The record
    \<open>analysis\<close> (frame and column dictionary); \<open>list_column_types\<close>, \<open>select_variable\<close>
    (its re-prompting loop is \<open>prompt_loop\<close>, recursion on the input), the normality,
    skewness, hypothesis, regression, t-test and chi-square dispatchers.  Lemmas: the
    labels, the selection loop (result, progress, no candidate), which test runs on
    which data, the row alignment of the regression pairs (exact when both columns miss
    the same rows, shifted from the first row where only y is missing), the closed-form
    regression and the bound \<open>0 <= R^2 <= 1\<close> of \<open>linregress\<close> (by Cauchy-Schwarz,
    \<open>cauchy_schwarz_list\<close> in \<open>Prelude\<close>), and the error branches.
  \<^item> \<open>Sentiment\<close>: \<open>sentiment_analysis.py\<close>; the three backends are parameters (a
    compound-score function, a TextBlob function and an optional pipeline, \<open>None\<close>
    when transformers is not installed).  Lemmas: every label agrees with its
    backend's thresholds and all labellings are monotone in the score.
  \<^item> \<open>Menus\<close>: \<open>main.py\<close>.  Each sub-menu is a loop over the input (\<open>di_loop\<close>,
    \<open>da1_loop\<close>, \<open>da2_loop\<close>, defined by \<open>function\<close> with the input length as
    termination measure, since each iteration reads its choice; the readers'
    facts that they return a suffix of their input are the collection \<open>consumes\<close>),
    entered through \<open>inspection_menu\<close> (classification of a copy),
    \<open>data_analysis1_menu\<close> and \<open>data_analysis2_menu\<close> (the component built on the
    loaded frame), \<open>sentiment_menu\<close>, dispatched by \<open>submenu\<close>, and
    \<open>main_loop\<close>/\<open>main\<close>; a run produces a list of \<open>event\<close>s and an \<open>outcome\<close> (exit
    status or the exception that escaped).  Lemmas: statistics of the inspection menu
    only on numeric columns, the caught \<open>ImportError\<close>,
    the load failure, and the exits of the loops (the main loop ends normally only
    after a \<open>5\<close>, the inspection menu returns only after a \<open>7\<close>).
  \<^item> This theory: properties that span the components: how the two
    classifications compare, a large two-group test and a regression on misaligned
    pairs with a single x value crashing the whole program, the normality test of
    \<open>DataAnalysis1\<close> on data without an interval column reading the whole input and
    ending in \<open>EOFError\<close>, the cleaning of the inspection menu not reaching the
    analysis menus (a column it drops is still analysed by \<open>DataAnalysis1\<close>), and a
    VADER run from the main menu with its return to the main menu, and the crash of
    data inspection on a table without rows.

  \<^bold>\<open>Modelling choices.\<close>  Exceptions are values: every operation that can raise returns
  \<open>py_error + 'a\<close> with \<open>Inl\<close> the exception.  Missing cells (NaN, None) are \<open>None\<close> in
  \<open>'a option\<close> cells; reals are exact (floating-point rounding is not modelled).  Input
  is a finite list of lines and \<open>input()\<close> at its end raises \<open>EOFError\<close>, so every
  interactive loop is a terminating recursion on the input and "loops forever" shows as
  "reads the whole input and ends with \<open>EOFError\<close>".  The size limit of the
  normality tests is the code's default 2000; no other bound or fuel is used.

  \<^bold>\<open>Not modelled.\<close>  Plot rendering (matplotlib, seaborn, statsmodels' QQ plot):
  only which plot is drawn on which columns is recorded (\<open>plot\<close>, \<open>plot_cols\<close>, and
  the event \<open>plot_qq_histogram\<close> of \<open>DataAnalysis1\<close>), and the grouped box plot's
  failure on a column without present values; the other drawing calls are taken not to
  fail on the non-empty, complete columns the pass hands them.  The statistics library is
  total: scipy's own errors (\<open>shapiro\<close> below three values, \<open>f_oneway\<close> or
  \<open>kruskal\<close> with one group) are not modelled, except those the code depends on
  (\<open>linregress\<close> on constant x, \<open>chi2_contingency\<close> on an empty table, unpacking
  of the groups for the two-sample tests).  Printing is not modelled except
  as events; the internals of pandas (CSV parsing: the loader is a parameter), scipy
  and the NLP libraries are parameters.  Every function and method of \<open>src/\<close> is
  modelled; what is left are the imports and the print statements.
\<close>

section \<open>Properties spanning the analysis components\<close>

text \<open>
  C9.  The two analysis components label the same column differently in general:
  for a numeric column they agree exactly when \<open>len(unique())\<close> is at most 10 or
  \<open>nunique()\<close> at least 20; for a text column exactly when \<open>len(unique())\<close> exceeds 10
  and \<open>nunique()\<close> is below 20, so a text column with at most ten values is
  ``non-numeric ordinal'' to \<open>DataAnalysis1\<close> and ``nominal'' to \<open>DataAnalysis2\<close>.
\<close>

theorem classify_agreement:
  "classify1 c = classify2 c \<longleftrightarrow>
     (if is_numeric_dtype c then n_unique_raw c \<le> 10 \<or> 20 \<le> nunique c
      else 10 < n_unique_raw c \<and> nunique c < 20)"
  using nunique_le_raw [of c] by (auto simp: classify1_def classify2_def)

text \<open>
  C10.  Choosing the two-group test of Statistical Analysis 2 on an interval column
  with more than 2000 present values and a nominal column of at most two categories
  ends the whole program with \<open>ValueError\<close>: the Anderson-Darling branch of the
  normality check returns an array, \<open>array > 0.05\<close> raises, and no menu catches it.
\<close>

theorem main_t_test_crash:
  assumes names: "distinct (column_names d)"
    and v: "get_column d v = Inr (NumCol xs)" "10 < n_unique_raw (NumCol xs)"
    and k: "get_column d k = Inr kc" "\<not> is_numeric_dtype kc" "n_unique_raw kc \<le> 10" "nunique kc \<le> 2"
    and big: "2000 < length (dropna xs)" "length (snd (anderson (lib E) (dropna xs))) \<noteq> 1"
  shows "main_loop E d (''3'' # ''2'' # v # k # rest) = ([], Crashed ValueError)"
proof -
  let ?a = "init_analysis2 d"
  have av: "v \<in> set (available ?a Interval)" and ak: "k \<in> set (available ?a Nominal)"
    using available2_column [OF names v(1)] available2_column [OF names k(1)] v(2) k(2,3)
    by (simp_all add: classify2_def)
  have sel_v: "select_variable2 ?a Interval None False (v # k # rest) = Inr (Some v, k # rest)"
    using av by (simp add: select_variable2_first)
  have sel_k: "select_variable2 ?a Nominal (Some 2) False (k # rest) = Inr (Some k, rest)"
    using ak k(1,4) by (simp add: select_variable2_first within_categories_def init_analysis2_def)
  have "t_test_or_mannwhitney (lib E) ?a v k = Inl ValueError"
    using v(1) k(1) big
    by (simp add: t_test_or_mannwhitney_def init_analysis2_def check_normality2_def
        above_005_critical Let_def)
  then show ?thesis
    using sel_v sel_k by (simp add: menu_defs da2_action_def)
qed

theorem main_t_test_crash_witness:
  "main_loop \<lparr>load = \<lambda>_. None, parse = \<lambda>_. None,
       lib = null_lib\<lparr>anderson := \<lambda>_. (0, [0.576, 0.656, 0.787, 0.918, 1.092])\<rparr>,
       compound = \<lambda>_. 0, blob = \<lambda>_. \<lparr>polarity = 0, subjectivity = 0\<rparr>, pipe = None\<rparr>
     \<lparr>columns = [(''score'', NumCol ([Some 1, Some 2, Some 3, Some 4, Some 5, Some 6, Some 7,
                   Some 8, Some 9, Some 10, Some 11] @ replicate 1990 (Some 0))),
                 (''group'', ObjCol (replicate 2001 (Some ''a'')))], nrows = 2001\<rparr>
     [''3'', ''2'', ''score'', ''group'', ''5''] = ([], Crashed ValueError)"
proof (rule main_t_test_crash)
  show "2000 < length (dropna ([Some 1, Some 2, Some 3, Some 4, Some 5, Some 6, Some 7,
                   Some 8, Some 9, Some 10, Some (11::real)] @ replicate 1990 (Some 0)))"
    by (simp only: dropna_append dropna_replicate_Some) simp
  show "10 < n_unique_raw (NumCol ([Some 1, Some 2, Some 3, Some 4, Some 5, Some 6, Some 7,
                   Some 8, Some 9, Some 10, Some 11] @ replicate 1990 (Some 0)))"
    by (simp add: n_unique_raw_def n_distinct_card)
  show "n_unique_raw (ObjCol (replicate 2001 (Some ''a''))) \<le> 10"
    by (simp add: n_unique_raw_def n_distinct_card)
  show "nunique (ObjCol (replicate 2001 (Some ''a''))) \<le> 2"
    by (simp add: nunique_def n_distinct_card)
qed (simp_all add: column_names_def get_column_def)

text \<open>
  C12.  On a dataset where \<open>DataAnalysis1\<close> labels no column ``interval'', choosing
  its normality test makes \<open>select_variable\<close> prompt for an interval variable that
  does not exist: every further line of input, menu numbers included, is rejected, and
  the program ends with \<open>EOFError\<close> when the input runs out.
\<close>

theorem main_da1_no_interval:
  assumes "list_all (\<lambda>(n, c). classify1 c \<noteq> Interval) (columns d)"
  shows "main_loop E d (''2'' # ''1'' # rest) = ([], Crashed EOFError)"
proof -
  have "available (init_analysis1 d) Interval = []"
  proof -
    have "(v, Interval) \<notin> set (list_column_types1 d)" for v
    proof
      assume "(v, Interval) \<in> set (list_column_types1 d)"
      then obtain c where "(v, c) \<in> set (columns d)" "classify1 c = Interval"
        using list_column_types1_classified by fastforce
      with assms show False by (auto simp: list_all_iff)
    qed
    then show ?thesis
      by (auto simp: available_def init_analysis1_def filter_empty_conv)
  qed
  then have "select_variable1 (init_analysis1 d) Interval False rest = Inl EOFError"
    by (simp add: select_variable1_def prompt_loop_none)
  then show ?thesis
    by (simp add: menu_defs da1_action_def)
qed

theorem main_da1_no_interval_witness:
  "main_loop \<lparr>load = \<lambda>_. None, parse = \<lambda>_. None, lib = null_lib, compound = \<lambda>_. 0,
       blob = \<lambda>_. \<lparr>polarity = 0, subjectivity = 0\<rparr>, pipe = None\<rparr>
     \<lparr>columns = [(''city'', ObjCol [Some ''Oslo'', Some ''Bergen''])], nrows = 2\<rparr>
     [''2'', ''1'', ''city'', ''age'', ''3'', ''5''] = ([], Crashed EOFError)"
  by (rule main_da1_no_interval) (simp add: classify1_def nunique_def n_distinct_card)

text \<open>
  C13.  Linear regression in Statistical Analysis 2 ends the whole program with
  \<open>ValueError\<close> when the pairs it forms have a single x value: \<open>perform_regression\<close>
  pairs the first present values of the two columns regardless of their rows, so two
  interval columns whose missing cells differ can yield such pairs (other than a
  single one), and \<open>stats.linregress\<close> raises on them.
\<close>

theorem main_regression_crash:
  assumes names: "distinct (column_names d)"
    and x: "get_column d x = Inr (NumCol xs)" "10 < n_unique_raw (NumCol xs)"
    and y: "get_column d y = Inr (NumCol ys)" "10 < n_unique_raw (NumCol ys)"
    and const: "length (remdups (map fst (regression_pairs xs ys))) \<le> 1"
      "length (regression_pairs xs ys) \<noteq> 1"
  shows "main_loop E d (''3'' # ''1'' # x # y # rest) = ([], Crashed ValueError)"
proof -
  have "x \<in> set (available (init_analysis2 d) Interval)" "y \<in> set (available (init_analysis2 d) Interval)"
    using available2_column [OF names x(1)] available2_column [OF names y(1)] x(2) y(2)
    by (simp_all add: classify2_def)
  then have sel: "select_variable2 (init_analysis2 d) Interval None False (x # y # rest) = Inr (Some x, y # rest)"
      "select_variable2 (init_analysis2 d) Interval None False (y # rest) = Inr (Some y, rest)"
    by (simp_all add: select_variable2_first)
  have "perform_regression (init_analysis2 d) x y = Inl ValueError"
    using x(1) y(1) const(1)
    by (simp add: perform_regression_def init_analysis2_def linregress_constant_x)
  then show ?thesis
    using sel by (simp add: menu_defs da2_action_def)
qed

theorem main_regression_crash_witness:
  "main_loop \<lparr>load = \<lambda>_. None, parse = \<lambda>_. None, lib = null_lib, compound = \<lambda>_. 0,
       blob = \<lambda>_. \<lparr>polarity = 0, subjectivity = 0\<rparr>, pipe = None\<rparr>
     \<lparr>columns = [(''x'', NumCol (replicate 10 (Some 5) @ map Some [6, 7, 8, 9, 10, 11, 12, 13, 14, 15])),
                 (''y'', NumCol (map Some [1, 2, 3, 4, 5, 6, 7, 8, 9, 10] @ replicate 10 None))],
      nrows = 20\<rparr>
     [''3'', ''1'', ''x'', ''y'', ''4'', ''5''] = ([], Crashed ValueError)"
proof (rule main_regression_crash)
  show "length (remdups (map fst (regression_pairs
          (replicate 10 (Some 5) @ map Some [6, 7, 8, 9, 10, 11, 12, 13, 14, 15])
          (map Some [1, 2, 3, 4, 5, 6, 7, 8, 9, (10::real)] @ replicate 10 None)))) \<le> 1"
    by (simp add: regression_pairs_def numeral_eq_Suc)
  show "length (regression_pairs
          (replicate 10 (Some 5) @ map Some [6, 7, 8, 9, 10, 11, 12, 13, 14, 15])
          (map Some [1, 2, 3, 4, 5, 6, 7, 8, 9, (10::real)] @ replicate 10 None)) \<noteq> 1"
    by (simp add: regression_pairs_def numeral_eq_Suc)
qed (simp_all add: column_names_def get_column_def n_unique_raw_def n_distinct_card)

text \<open>
  C14.  The inspection menu cleans a copy of the frame: a numeric column with more than
  half of its cells missing is dropped there, yet \<open>DataAnalysis1\<close>, run next on the
  frame \<open>main()\<close> loaded, still offers it as an interval variable and runs the
  normality test on it.
\<close>

theorem main_inspection_not_shared:
  assumes wf: "wf_frame d" "0 < nrows d"
    and v: "get_column d v = Inr (NumCol xs)" "length xs < 2 * count_missing xs" "20 \<le> nunique (NumCol xs)"
  shows "\<exists>di. classify_columns (parse E) \<lparr>df = d, plots = []\<rparr> = Inr di
           \<and> v \<notin> set (column_names (df di))
           \<and> main_loop E d (''1'' # ''7'' # ''2'' # ''1'' # v # ''3'' # ''5'' # rest)
             = (map EPlot (plots di) @ [plot_qq_histogram v, ENormality (fst (check_normality1 (lib E) xs 2000))],
                Exited 0)"
proof -
  have names: "distinct (column_names d)" using wf(1) by (simp add: wf_frame_def)
  obtain di where di: "classify_all (parse E) (column_names d) \<lparr>df = d, plots = []\<rparr> = Inr di"
      "\<forall>col \<in> set (column_names d). column_cleaned d (df di) col"
    using classify_all_outcome [of "\<lparr>df = d, plots = []\<rparr>" "column_names d" "parse E"] wf names
    by auto
  have "v \<in> set (column_names d)" using v(1) by (rule get_column_present)
  with di(2) v(1,2) have gone: "v \<notin> set (column_names (df di))"
    by (auto simp: column_cleaned_def)
  have cc: "classify_columns (parse E) \<lparr>df = d, plots = []\<rparr> = Inr di"
    using di(1) by (simp add: classify_columns_def)
  have "v \<in> set (available (init_analysis1 d) Interval)"
    using available1_column [OF names v(1)] v(3) by (simp add: classify1_def)
  then have sel: "select_variable1 (init_analysis1 d) Interval False (v # ''3'' # ''5'' # rest)
                  = Inr (Some v, ''3'' # ''5'' # rest)"
    by (rule select_variable1_first)
  have "main_loop E d (''1'' # ''7'' # ''2'' # ''1'' # v # ''3'' # ''5'' # rest)
        = (map EPlot (plots di) @ [plot_qq_histogram v, ENormality (fst (check_normality1 (lib E) xs 2000))],
           Exited 0)"
    using cc sel v(1)
    by (simp add: menu_defs inspection_menu_def da1_action_def numeric_data_def init_analysis1_def)
  with cc gone show ?thesis by blast
qed

theorem main_inspection_not_shared_witness:
  "\<exists>di. classify_columns (\<lambda>_. None)
          \<lparr>df = \<lparr>columns = [(''score'', NumCol (map Some [1, 2, 3, 4, 5, 6, 7, 8, 9, 10, 11, 12, 13, 14, 15,
               16, 17, 18, 19, 20] @ replicate 21 None))], nrows = 41\<rparr>, plots = []\<rparr> = Inr di
      \<and> ''score'' \<notin> set (column_names (df di))
      \<and> main_loop \<lparr>load = \<lambda>_. None, parse = \<lambda>_. None, lib = null_lib, compound = \<lambda>_. 0,
            blob = \<lambda>_. \<lparr>polarity = 0, subjectivity = 0\<rparr>, pipe = None\<rparr>
          \<lparr>columns = [(''score'', NumCol (map Some [1, 2, 3, 4, 5, 6, 7, 8, 9, 10, 11, 12, 13, 14, 15,
               16, 17, 18, 19, 20] @ replicate 21 None))], nrows = 41\<rparr>
          [''1'', ''7'', ''2'', ''1'', ''score'', ''3'', ''5'']
        = (map EPlot (plots di) @ [plot_qq_histogram ''score'',
             ENormality (fst (check_normality1 null_lib (map Some [1, 2, 3, 4, 5, 6, 7, 8, 9, 10, 11, 12, 13, 14, 15,
               16, 17, 18, 19, 20] @ replicate 21 None) 2000))], Exited 0)"
proof -
  let ?xs = "map Some [1, 2, 3, 4, 5, 6, 7, 8, 9, 10, 11, 12, 13, 14, 15,
               16, 17, 18, 19, 20] @ replicate 21 (None :: real option)"
  let ?d = "\<lparr>columns = [(''score'', NumCol ?xs)], nrows = 41\<rparr>"
  have wf: "wf_frame ?d" by (simp add: wf_frame_def column_names_def)
  have g: "get_column ?d ''score'' = Inr (NumCol ?xs)" by (simp add: get_column_def)
  have l: "length ?xs < 2 * count_missing ?xs" by simp
  have n: "20 \<le> nunique (NumCol ?xs)" by (simp add: nunique_def n_distinct_card)
  show ?thesis
    using main_inspection_not_shared [OF wf _ g l n, of "\<lparr>load = \<lambda>_. None, parse = \<lambda>_. None,
        lib = null_lib, compound = \<lambda>_. 0, blob = \<lambda>_. \<lparr>polarity = 0, subjectivity = 0\<rparr>, pipe = None\<rparr>" "[]"]
    by simp
qed

text \<open>
  C17.  Sentiment analysis from the main menu with VADER on a text column shows the
  text columns, then one table of the present texts of that column in row order, each
  with its compound score and the label of the inclusive 0.05 cuts, and returns to the
  main menu, which reads the next line as its choice.
\<close>

theorem main_sentiment_vader:
  assumes "get_column d name = Inr (ObjCol xs)"
  shows "main_loop E d (''4'' # name # ''1'' # rest) =
           ([ETextColumns (get_text_columns d),
             EVader (dropna xs) (map (compound E) (dropna xs))
                    (map (\<lambda>t. vader_label (compound E t)) (dropna xs))] @ fst (main_loop E d rest),
            snd (main_loop E d rest))"
  using assms
  by (simp add: menu_defs sentiment_menu_def read_line_def vader_sentiment_analysis_def Let_def
           split: prod.split)

theorem main_sentiment_vader_witness:
  "main_loop \<lparr>load = \<lambda>_. None, parse = \<lambda>_. None, lib = null_lib, compound = \<lambda>t. if t = ''good'' then 0.6 else 0,
        blob = \<lambda>_. \<lparr>polarity = 0, subjectivity = 0\<rparr>, pipe = None\<rparr>
     \<lparr>columns = [(''review'', ObjCol [Some ''good'', None, Some ''ok''])], nrows = 3\<rparr>
     [''4'', ''review'', ''1'', ''5'']
   = ([ETextColumns (get_text_columns \<lparr>columns = [(''review'', ObjCol [Some ''good'', None, Some ''ok''])], nrows = 3\<rparr>),
       EVader [''good'', ''ok''] [0.6, 0] [Positive, Neutral]], Exited 0)"
proof -
  have g: "get_column \<lparr>columns = [(''review'', ObjCol [Some ''good'', None, Some ''ok''])], nrows = 3\<rparr> ''review''
           = Inr (ObjCol [Some ''good'', None, Some ''ok''])"
    by (simp add: get_column_def)
  show ?thesis
    using main_sentiment_vader [OF g, of "\<lparr>load = \<lambda>_. None, parse = \<lambda>_. None, lib = null_lib,
        compound = \<lambda>t. if t = ''good'' then 0.6 else 0, blob = \<lambda>_. \<lparr>polarity = 0, subjectivity = 0\<rparr>,
        pipe = None\<rparr>" "[''5'']"]
    by (simp add: vader_label_def)
qed

text \<open>
  C37.  Data inspection on a loaded table without rows (a CSV file with only its header)
  ends the program at once: the first column fails, a numeric one in its grouped box
  plot (\<open>ValueError\<close>), a text one at \<open>mode()[0]\<close> (\<open>KeyError\<close>), and no menu
  catches either.
\<close>

theorem main_empty_table_crash:
  assumes load: "load E path = Some d" and wf: "wf_frame d" and rows: "nrows d = 0"
    and first: "columns d = (col, c) # cs"
  shows "main E (path # ''1'' # rest) = ([], Crashed (if is_numeric_dtype c then ValueError else KeyError))"
proof -
  have g: "get_column d col = Inr c"
    using wf first by (simp add: wf_get_column_iff)
  then have "col_length c = 0"
    using wf rows wf_frame_col_length by metis
  with g have "classify_and_calculate (parse E) col \<lparr>df = d, plots = []\<rparr>
               = Inl (if is_numeric_dtype c then ValueError else KeyError)"
    by (cases c) (simp_all add: classify_and_calculate_empty_numeric classify_and_calculate_empty_object)
  then show ?thesis
    using load first
    by (simp add: main_def read_line_def menu_defs inspection_menu_def classify_columns_def column_names_def)
qed

theorem main_empty_table_crash_witness:
  "main \<lparr>load = \<lambda>_. Some \<lparr>columns = [(''age'', NumCol []), (''city'', ObjCol [])], nrows = 0\<rparr>,
         parse = \<lambda>_. None, lib = null_lib, compound = \<lambda>_. 0,
         blob = \<lambda>_. \<lparr>polarity = 0, subjectivity = 0\<rparr>, pipe = None\<rparr>
     [''empty.csv'', ''1'', ''5''] = ([], Crashed ValueError)"
proof -
  let ?d = "\<lparr>columns = [(''age'', NumCol []), (''city'', ObjCol [])], nrows = 0\<rparr>"
  have wf: "wf_frame ?d"
    by (simp add: wf_frame_def column_names_def)
  show ?thesis
    using main_empty_table_crash [OF _ wf, of "\<lparr>load = \<lambda>_. Some ?d, parse = \<lambda>_. None, lib = null_lib,
        compound = \<lambda>_. 0, blob = \<lambda>_. \<lparr>polarity = 0, subjectivity = 0\<rparr>, pipe = None\<rparr>" "''empty.csv''"
        "''age''" "NumCol []" "[(''city'', ObjCol [])]" "[''5'']"]
    by simp
qed

end
